theory Spec2Isabelle
  imports Complex_Main "HOL-Library.Sublist" "HOL-Library.AList"
begin

section \<open>JavaScript values, strings and numbers\<close>

text \<open>
  A string is a list of code units; a \<^typ>\<open>char\<close> stands for one code unit, so
  \<^term>\<open>length\<close> is the \<^verbatim>\<open>.length\<close> of the source.

  A number is a double: a finite one is the rational it denotes (the two zeros are
  one value, which no modelled function tells apart), the others are \<^verbatim>\<open>NaN\<close> and
  the two infinities. What the runtime computes from a number or to a number
  (\<^verbatim>\<open>Number.parseInt\<close>, the conversion of a number to a string) is a function
  of the platform, declared with the transport below.
\<close>

datatype number = Finite rat | NaN | PosInfinity | NegInfinity

text \<open>
  Values of type \<^verbatim>\<open>unknown\<close> and \<^verbatim>\<open>any\<close>: what \<^verbatim>\<open>JSON.parse\<close> returns,
  what is handed to \<^verbatim>\<open>JSON.stringify\<close>, and what a \<^verbatim>\<open>catch\<close> receives.
  An object is the list of its own properties; its prototype is
  \<^verbatim>\<open>Object.prototype\<close>, that of an array \<^verbatim>\<open>Array.prototype\<close>, and no property
  is a function.
\<close>

datatype jsval =
    JUndefined
  | JNull
  | JBool bool
  | JNum number
  | JStr string
  | JArr "jsval list"
  | JObj "(string \<times> jsval) list"

text \<open>\<^verbatim>\<open>xs.join(sep)\<close> on an array of strings.\<close>

fun join :: "string \<Rightarrow> string list \<Rightarrow> string" where
  "join sep [] = []"
| "join sep [x] = x"
| "join sep (x # y # ys) = x @ sep @ join sep (y # ys)"

text \<open>
  \<^verbatim>\<open>String(v)\<close>, which is also what the constructor of \<^verbatim>\<open>Error\<close> does to its
  message; \<open>None\<close> when the conversion throws a \<^verbatim>\<open>TypeError\<close>. The first argument
  is the platform's conversion of a number.

  An object without a property \<^verbatim>\<open>toString\<close> of its own is converted by
  \<^verbatim>\<open>Object.prototype.toString\<close> and gives \<^verbatim>\<open>[object Object]\<close>. An own property
  \<^verbatim>\<open>toString\<close> hides that method and is not callable; the conversion then turns
  to \<^verbatim>\<open>valueOf\<close>, which is not callable either when it is an own property and
  returns the object itself when it is inherited, so the conversion throws. An array
  joins the conversions of its elements with a comma, an element that is
  \<^verbatim>\<open>null\<close> or \<^verbatim>\<open>undefined\<close> giving the empty string, and throws when the
  conversion of an element does.
\<close>

fun js_String :: "(number \<Rightarrow> string) \<Rightarrow> jsval \<Rightarrow> string option" where
  "js_String num JUndefined = Some ''undefined''"
| "js_String num JNull = Some ''null''"
| "js_String num (JBool b) = Some (if b then ''true'' else ''false'')"
| "js_String num (JNum n) = Some (num n)"
| "js_String num (JStr s) = Some s"
| "js_String num (JArr xs) =
     map_option (join '','')
       (those (map (\<lambda>x. if x = JNull \<or> x = JUndefined then Some [] else js_String num x) xs))"
| "js_String num (JObj kvs) =
     (if ''toString'' \<in> set (map fst kvs) then None else Some ''[object Object]'')"

text \<open>Truthiness (\<^verbatim>\<open>ToBoolean\<close>).\<close>

fun truthy :: "jsval \<Rightarrow> bool" where
  "truthy JUndefined = False"
| "truthy JNull = False"
| "truthy (JBool b) = b"
| "truthy (JNum n) = (n \<noteq> NaN \<and> n \<noteq> Finite 0)"
| "truthy (JStr s) = (s \<noteq> [])"
| "truthy (JArr xs) = True"
| "truthy (JObj kvs) = True"

text \<open>Truthiness of an optional string field: absent and empty are both falsy.\<close>

definition truthy_str :: "string option \<Rightarrow> bool" where
  "truthy_str s = (case s of None \<Rightarrow> False | Some t \<Rightarrow> t \<noteq> [])"

text \<open>
  Reading a property \<^verbatim>\<open>v.k\<close> of a value that is neither \<^verbatim>\<open>null\<close> nor
  \<^verbatim>\<open>undefined\<close>, for a key that no prototype defines (the keys read in the
  modelled code are \<^verbatim>\<open>error\<close> and \<^verbatim>\<open>message\<close>): an own property of an
  object, \<^verbatim>\<open>undefined\<close> otherwise.
\<close>

fun get_prop :: "jsval \<Rightarrow> string \<Rightarrow> jsval" where
  "get_prop (JObj kvs) k = (case map_of kvs k of Some v \<Rightarrow> v | None \<Rightarrow> JUndefined)"
| "get_prop v k = JUndefined"

definition nullish :: "jsval \<Rightarrow> bool" where
  "nullish v = (v = JNull \<or> v = JUndefined)"

text \<open>\<^verbatim>\<open>s.includes(t)\<close>: \<^verbatim>\<open>t\<close> occurs in \<^verbatim>\<open>s\<close> as a contiguous run.\<close>

definition String_includes :: "string \<Rightarrow> string \<Rightarrow> bool" where
  "String_includes s t = sublist t s"

section \<open>Error classes (utils/errors.ts)\<close>

datatype error_class =
    Class_YouTubeApiError
  | Class_RateLimitError
  | Class_AuthenticationError
  | Class_ForbiddenError
  | Class_NotFoundError
  | Class_ValidationError
  | Class_QuotaExceededError

text \<open>
  An instance of \<^verbatim>\<open>YouTubeApiError\<close> or of one of its subclasses. \<open>cls\<close> is the
  class the instance was constructed by (what \<^verbatim>\<open>instanceof\<close> tests);
  \<open>retryAfterSeconds\<close> is the field of \<^verbatim>\<open>RateLimitError\<close> and \<open>details\<close> that of
  \<^verbatim>\<open>ValidationError\<close>, \<open>None\<close> on every other class.
\<close>

record YouTubeApiError =
  cls :: error_class
  name :: string
  message :: string
  statusCode :: "int option"
  code :: string
  retryable :: bool
  retryAfterSeconds :: "number option"
  details :: "(string \<times> string list) list option"

definition new_YouTubeApiError ::
  "string \<Rightarrow> int option \<Rightarrow> string option \<Rightarrow> bool option \<Rightarrow> YouTubeApiError" where
  "new_YouTubeApiError msg status cd rt =
     \<lparr> cls = Class_YouTubeApiError,
       name = ''YouTubeApiError'',
       message = msg,
       statusCode = status,
       code = (case cd of None \<Rightarrow> ''YOUTUBE_ERROR''
               | Some c \<Rightarrow> if c = [] then ''YOUTUBE_ERROR'' else c),
       retryable = (case rt of None \<Rightarrow> False | Some b \<Rightarrow> b),
       retryAfterSeconds = None,
       details = None \<rparr>"

definition new_RateLimitError :: "string \<Rightarrow> number \<Rightarrow> YouTubeApiError" where
  "new_RateLimitError msg secs =
     (new_YouTubeApiError msg (Some 429) (Some ''RATE_LIMIT_EXCEEDED'') (Some True))
       \<lparr> cls := Class_RateLimitError, name := ''RateLimitError'',
         retryAfterSeconds := Some secs \<rparr>"

definition new_AuthenticationError :: "string \<Rightarrow> YouTubeApiError" where
  "new_AuthenticationError msg =
     (new_YouTubeApiError msg (Some 401) (Some ''AUTHENTICATION_FAILED'') (Some False))
       \<lparr> cls := Class_AuthenticationError, name := ''AuthenticationError'' \<rparr>"

definition new_ForbiddenError :: "string \<Rightarrow> YouTubeApiError" where
  "new_ForbiddenError msg =
     (new_YouTubeApiError msg (Some 403) (Some ''FORBIDDEN'') (Some False))
       \<lparr> cls := Class_ForbiddenError, name := ''ForbiddenError'' \<rparr>"

definition new_NotFoundError :: "string \<Rightarrow> string \<Rightarrow> YouTubeApiError" where
  "new_NotFoundError entityType ident =
     (new_YouTubeApiError (entityType @ '' with ID '' @ [CHR 39] @ ident @ [CHR 39] @ '' not found'')
        (Some 404) (Some ''NOT_FOUND'') (Some False))
       \<lparr> cls := Class_NotFoundError, name := ''NotFoundError'' \<rparr>"

definition new_ValidationError ::
  "string \<Rightarrow> (string \<times> string list) list option \<Rightarrow> YouTubeApiError" where
  "new_ValidationError msg dets =
     (new_YouTubeApiError msg (Some 400) (Some ''VALIDATION_ERROR'') (Some False))
       \<lparr> cls := Class_ValidationError, name := ''ValidationError'',
         details := Some (case dets of None \<Rightarrow> [] | Some d \<Rightarrow> d) \<rparr>"

definition new_QuotaExceededError :: "string \<Rightarrow> YouTubeApiError" where
  "new_QuotaExceededError msg =
     (new_YouTubeApiError msg (Some 403) (Some ''QUOTA_EXCEEDED'') (Some False))
       \<lparr> cls := Class_QuotaExceededError, name := ''QuotaExceededError'' \<rparr>"

text \<open>
  Whatever a \<^verbatim>\<open>throw\<close> or a rejected promise carries: an instance of the classes
  above, any other \<^verbatim>\<open>Error\<close> (a \<^verbatim>\<open>TypeError\<close> of the runtime, a
  \<^verbatim>\<open>SyntaxError\<close> of the JSON parser) with its name, message and stack, or a value
  that is not an \<^verbatim>\<open>Error\<close> at all.
\<close>

datatype thrown =
    Thrown_Api YouTubeApiError
  | Thrown_Error string string "string option"
  | Thrown_Value jsval

section \<open>The paginated envelope (client.ts, toPaginatedResponse)\<close>

record PageInfo =
  pi_totalResults :: number
  pi_resultsPerPage :: number

record 'a YouTubeListResponse =
  lr_kind :: string
  lr_etag :: string
  lr_nextPageToken :: "string option"
  lr_prevPageToken :: "string option"
  lr_pageInfo :: "PageInfo option"
  lr_items :: "'a list option"

record 'a PaginatedResponse =
  items :: "'a list"
  count :: nat
  totalResults :: "number option"
  resultsPerPage :: "number option"
  hasMore :: bool
  nextPageToken :: "string option"
  prevPageToken :: "string option"

definition toPaginatedResponse :: "'a YouTubeListResponse \<Rightarrow> 'a PaginatedResponse" where
  "toPaginatedResponse response =
     \<lparr> items = (case lr_items response of Some xs \<Rightarrow> xs | None \<Rightarrow> []),
       count = (case lr_items response of
                  Some xs \<Rightarrow> (if length xs \<noteq> 0 then length xs else 0)
                | None \<Rightarrow> 0),
       totalResults = map_option pi_totalResults (lr_pageInfo response),
       resultsPerPage = map_option pi_resultsPerPage (lr_pageInfo response),
       hasMore = truthy_str (lr_nextPageToken response),
       nextPageToken = lr_nextPageToken response,
       prevPageToken = lr_prevPageToken response \<rparr>"

section \<open>Credentials and the transport\<close>

record TenantCredentials =
  accessToken :: "string option"
  apiKey :: "string option"

text \<open>
  A value of a \<^verbatim>\<open>params\<close> record (\<^verbatim>\<open>string | number | boolean | undefined\<close>)
  and its \<^verbatim>\<open>String(v)\<close>.
\<close>

datatype param = PString string | PNumber number | PBoolean bool | PUndefined

definition String_param :: "(number \<Rightarrow> string) \<Rightarrow> param \<Rightarrow> string" where
  "String_param num v =
     (case v of PString s \<Rightarrow> s | PNumber n \<Rightarrow> num n
      | PBoolean b \<Rightarrow> (if b then ''true'' else ''false'') | PUndefined \<Rightarrow> ''undefined'')"

text \<open>
  The object spread \<^verbatim>\<open>{ ...a, ...b }\<close> on objects kept as association lists: a key
  of \<^verbatim>\<open>a\<close> keeps its place and takes the value \<^verbatim>\<open>b\<close> gives it, the other keys
  of \<^verbatim>\<open>b\<close> follow.
\<close>

definition spread :: "(string \<times> 'v) list \<Rightarrow> (string \<times> 'v) list \<Rightarrow> (string \<times> 'v) list" where
  "spread a b = foldl (\<lambda>acc kv. AList.update (fst kv) (snd kv) acc) a b"

text \<open>
  A text handed to the platform. \<open>JSON_stringify v indent\<close> stands for the text
  \<^verbatim>\<open>JSON.stringify(v, null, indent)\<close>, kept as the value it serializes (a property
  whose value is \<^verbatim>\<open>undefined\<close> does not appear in that text).
\<close>

datatype payload = JSON_stringify jsval "nat option" | Raw string

text \<open>
  A request body: a text, or a \<^verbatim>\<open>FormData\<close> of named blobs, each a content and
  its media type.
\<close>

datatype body = Body payload | FormData "(string \<times> payload \<times> string) list"

text \<open>
  What \<^verbatim>\<open>fetch\<close> is called with. The query is the list of pairs given to
  \<^verbatim>\<open>URLSearchParams\<close>, whose percent-encoding is the platform's; \<open>req_url\<close> is
  the address before the question mark.
\<close>

record http_request =
  req_url :: string
  req_query :: "(string \<times> string) list"
  req_method :: "string option"
  req_headers :: "(string \<times> string) list"
  req_body :: "body option"

text \<open>
  What \<^verbatim>\<open>fetch\<close> resolves to: the status, the \<^verbatim>\<open>Retry-After\<close> header as
  \<^verbatim>\<open>headers.get\<close> reads it, and the body as \<^verbatim>\<open>response.text()\<close> reads it.
\<close>

record http_response =
  status :: int
  retry_after :: "string option"
  body_text :: string

definition response_ok :: "http_response \<Rightarrow> bool" where
  "response_ok response = (200 \<le> status response \<and> status response \<le> 299)"

text \<open>
  The platform: \<^verbatim>\<open>fetch\<close>, which rejects or resolves; \<^verbatim>\<open>JSON.parse\<close>, which
  throws (\<open>None\<close>) or returns a value; \<^verbatim>\<open>Number.parseInt(s, 10)\<close>; the conversion
  of a number to a string, as \<^verbatim>\<open>String(n)\<close> and a template literal do it; and
  \<^verbatim>\<open>s.toUpperCase()\<close>. \<^verbatim>\<open>response.json() as Promise<T>\<close> is a reader of the
  response at the type \<^verbatim>\<open>T\<close> of the call: it rejects or gives a \<^verbatim>\<open>T\<close>.
\<close>

record platform =
  fetch :: "http_request \<Rightarrow> thrown + http_response"
  JSON_parse :: "string \<Rightarrow> jsval option"
  Number_parseInt :: "string \<Rightarrow> number"
  Number_toString :: "number \<Rightarrow> string"
  String_toUpperCase :: "string \<Rightarrow> string"

type_synonym 'a reader = "http_response \<Rightarrow> thrown + 'a"

text \<open>
  The outcome of an asynchronous operation: the requests it issued, in order, and
  what it threw or returned.
\<close>

type_synonym 'a outcome = "http_request list \<times> (thrown + 'a)"

definition await_then :: "'a outcome \<Rightarrow> ('a \<Rightarrow> 'b outcome) \<Rightarrow> 'b outcome" where
  "await_then m f =
     (case snd m of
        Inl e \<Rightarrow> (fst m, Inl e)
      | Inr v \<Rightarrow> (fst m @ fst (f v), snd (f v)))"

text \<open>
  The \<^verbatim>\<open>TypeError\<close> of reading a property of \<^verbatim>\<open>undefined\<close>, and that of a
  conversion to a string that finds no callable \<^verbatim>\<open>toString\<close> or \<^verbatim>\<open>valueOf\<close>.
  Their messages are the runtime's.
\<close>

definition TypeError_undefined :: thrown where
  "TypeError_undefined =
     Thrown_Error ''TypeError'' ''Cannot read properties of undefined'' None"

definition TypeError_primitive :: thrown where
  "TypeError_primitive =
     Thrown_Error ''TypeError'' ''Cannot convert object to primitive value'' None"

text \<open>\<^verbatim>\<open>String(v)\<close> as a step that returns or throws.\<close>

definition String_or_throw :: "platform \<Rightarrow> jsval \<Rightarrow> thrown + string" where
  "String_or_throw pf v =
     (case js_String (Number_toString pf) v of
        None \<Rightarrow> Inl TypeError_primitive
      | Some s \<Rightarrow> Inr s)"

definition deref :: "'a option \<Rightarrow> thrown + 'a" where
  "deref v = (case v of None \<Rightarrow> Inl TypeError_undefined | Some x \<Rightarrow> Inr x)"

section \<open>The request helper (client.ts, lines 268 to 352)\<close>

definition API_BASE_URL :: string where
  "API_BASE_URL = ''https://www.googleapis.com/youtube/v3''"

definition getAuthParams :: "TenantCredentials \<Rightarrow> thrown + (string \<times> param) list" where
  "getAuthParams credentials =
     (if truthy_str (accessToken credentials) then Inr []
      else case apiKey credentials of
             Some k \<Rightarrow>
               if k \<noteq> [] then Inr [(''key'', PString k)]
               else Inl (Thrown_Api (new_AuthenticationError
                 ''No credentials provided. Include X-YouTube-Access-Token or X-YouTube-API-Key header.''))
           | None \<Rightarrow>
               Inl (Thrown_Api (new_AuthenticationError
                 ''No credentials provided. Include X-YouTube-Access-Token or X-YouTube-API-Key header.'')))"

definition getAuthHeaders :: "TenantCredentials \<Rightarrow> (string \<times> string) list" where
  "getAuthHeaders credentials =
     [(''Content-Type'', ''application/json'')] @
     (case accessToken credentials of
        Some t \<Rightarrow> if t \<noteq> [] then [(''Authorization'', ''Bearer '' @ t)] else []
      | None \<Rightarrow> [])"

record request_options =
  opt_method :: "string option"
  opt_params :: "(string \<times> param) list option"
  opt_body :: "body option"
  opt_headers :: "(string \<times> string) list option"

text \<open>
  The defaults of line 296 and line 310: \<^verbatim>\<open>params = {}\<close> and
  \<^verbatim>\<open>fetchOptions.headers || {}\<close>.
\<close>

definition params_of :: "request_options \<Rightarrow> (string \<times> param) list" where
  "params_of options = (case opt_params options of None \<Rightarrow> [] | Some ps \<Rightarrow> ps)"

definition headers_of :: "request_options \<Rightarrow> (string \<times> string) list" where
  "headers_of options = (case opt_headers options of None \<Rightarrow> [] | Some hs \<Rightarrow> hs)"

text \<open>
  Lines 296 to 312: the request that \<^verbatim>\<open>request\<close> hands to \<^verbatim>\<open>fetch\<close>, or the
  error of \<^verbatim>\<open>getAuthParams\<close>.
\<close>

definition request_prepare ::
  "platform \<Rightarrow> TenantCredentials \<Rightarrow> string \<Rightarrow> request_options
     \<Rightarrow> thrown + http_request" where
  "request_prepare pf credentials endpoint options =
     (case getAuthParams credentials of
        Inl e \<Rightarrow> Inl e
      | Inr auth \<Rightarrow>
          let allParams = spread auth (params_of options);
              filteredParams =
                map (\<lambda>kv. (fst kv, String_param (Number_toString pf) (snd kv)))
                  (filter (\<lambda>kv. snd kv \<noteq> PUndefined) allParams)
          in Inr \<lparr> req_url = API_BASE_URL @ endpoint,
                   req_query = filteredParams,
                   req_method = opt_method options,
                   req_headers = spread (getAuthHeaders credentials) (headers_of options),
                   req_body = opt_body options \<rparr>)"

text \<open>
  Lines 336 to 343: the value of the variable \<^verbatim>\<open>message\<close> after the
  \<^verbatim>\<open>try\<close>. A body that does not parse, or parses to \<^verbatim>\<open>null\<close> (reading its
  property throws), leaves the default: the \<^verbatim>\<open>catch\<close> swallows the throw. The
  assignment converts nothing.
\<close>

definition request_errorMessage :: "jsval option \<Rightarrow> string \<Rightarrow> jsval" where
  "request_errorMessage parsed dflt =
     (case parsed of
        None \<Rightarrow> JStr dflt
      | Some errorJson \<Rightarrow>
          if nullish errorJson then JStr dflt
          else
            let err = get_prop errorJson ''error'';
                m1 = (if nullish err then JUndefined else get_prop err ''message'');
                m2 = get_prop errorJson ''message''
            in if truthy m1 then m1
               else if truthy m2 then m2
               else JStr dflt)"

text \<open>
  Lines 314 to 351: what \<^verbatim>\<open>request\<close> makes of the response. The constructor
  of the generic error hands \<^verbatim>\<open>message\<close> to \<^verbatim>\<open>Error\<close> (errors.ts, line 16),
  which converts it to a string; that conversion stands after the \<^verbatim>\<open>catch\<close>, so
  its \<^verbatim>\<open>TypeError\<close> leaves \<^verbatim>\<open>request\<close>.
\<close>

definition request_respond ::
  "platform \<Rightarrow> 'a reader \<Rightarrow> http_response \<Rightarrow> thrown + 'a option" where
  "request_respond pf response_json response =
     (if status response = 429 then
        Inl (Thrown_Api (new_RateLimitError ''Rate limit exceeded''
          (case retry_after response of
             None \<Rightarrow> Finite 60
           | Some retryAfter \<Rightarrow>
               if retryAfter \<noteq> [] then Number_parseInt pf retryAfter else Finite 60)))
      else if status response = 401 then
        Inl (Thrown_Api (new_AuthenticationError
          ''Authentication failed. Check your OAuth token or API key.''))
      else if status response = 403 then
        (if String_includes (body_text response) ''quotaExceeded''
         then Inl (Thrown_Api (new_QuotaExceededError ''YouTube API quota exceeded.''))
         else Inl (Thrown_Api (new_ForbiddenError
           ''Access forbidden. You may lack required permissions.'')))
      else if status response = 404 then
        Inl (Thrown_Api (new_NotFoundError ''Resource'' ''unknown''))
      else if \<not> response_ok response then
        (case String_or_throw pf
                (request_errorMessage (JSON_parse pf (body_text response))
                   (''API error: '' @ Number_toString pf (Finite (of_int (status response))))) of
           Inl e \<Rightarrow> Inl e
         | Inr msg \<Rightarrow>
             Inl (Thrown_Api (new_YouTubeApiError msg (Some (status response)) None None)))
      else if status response = 204 then Inr None
      else (case response_json response of Inl e \<Rightarrow> Inl e | Inr v \<Rightarrow> Inr (Some v)))"

definition request ::
  "platform \<Rightarrow> TenantCredentials \<Rightarrow> 'a reader \<Rightarrow> string \<Rightarrow> request_options
     \<Rightarrow> 'a option outcome" where
  "request pf credentials response_json endpoint options =
     (case request_prepare pf credentials endpoint options of
        Inl e \<Rightarrow> ([], Inl e)
      | Inr req \<Rightarrow>
          (case fetch pf req of
             Inl e \<Rightarrow> ([req], Inl e)
           | Inr response \<Rightarrow> ([req], request_respond pf response_json response)))"

text \<open>
  The taxonomy table of the specification (its section 4.6), kind by kind: the status
  an error of that kind carries and whether it is retryable. The generic kind
  carries the upstream status.
\<close>

definition spec_taxonomy :: "error_class \<Rightarrow> int \<Rightarrow> int option \<times> bool" where
  "spec_taxonomy kind upstream =
     (case kind of
        Class_AuthenticationError \<Rightarrow> (Some 401, False)
      | Class_ForbiddenError \<Rightarrow> (Some 403, False)
      | Class_QuotaExceededError \<Rightarrow> (Some 403, False)
      | Class_NotFoundError \<Rightarrow> (Some 404, False)
      | Class_RateLimitError \<Rightarrow> (Some 429, True)
      | Class_ValidationError \<Rightarrow> (Some 400, False)
      | Class_YouTubeApiError \<Rightarrow> (Some upstream, False))"

section \<open>Entities (types/entities.ts)\<close>

text \<open>
  The fields the modelled functions read, at their declared types; an optional field
  is an \<open>option\<close>. Every other field of an entity lives in the extension of its
  record.
\<close>

record ResourceId =
  ResourceId_kind :: string
  ResourceId_videoId :: "string option"
  ResourceId_channelId :: "string option"
  ResourceId_playlistId :: "string option"

record VideoSnippet =
  VideoSnippet_title :: string
  VideoSnippet_description :: string
  VideoSnippet_channelTitle :: string
  VideoSnippet_tags :: "string list option"
  VideoSnippet_categoryId :: string
  VideoSnippet_defaultLanguage :: "string option"

record VideoContentDetails =
  VideoContentDetails_duration :: string

record VideoStatus =
  VideoStatus_privacyStatus :: string
  VideoStatus_embeddable :: bool
  VideoStatus_publicStatsViewable :: bool
  VideoStatus_madeForKids :: bool

record VideoStatistics =
  VideoStatistics_viewCount :: string

record Video =
  Video_id :: string
  Video_snippet :: "VideoSnippet option"
  Video_contentDetails :: "VideoContentDetails option"
  Video_status :: "VideoStatus option"
  Video_statistics :: "VideoStatistics option"

record ChannelSnippet =
  ChannelSnippet_title :: string

record ChannelStatistics =
  ChannelStatistics_subscriberCount :: "string option"
  ChannelStatistics_videoCount :: string

record Channel =
  Channel_id :: string
  Channel_snippet :: "ChannelSnippet option"
  Channel_statistics :: "ChannelStatistics option"

record PlaylistSnippet =
  PlaylistSnippet_title :: string
  PlaylistSnippet_description :: string
  PlaylistSnippet_defaultLanguage :: "string option"

record PlaylistStatus =
  PlaylistStatus_privacyStatus :: string

record PlaylistContentDetails =
  PlaylistContentDetails_itemCount :: number

record Playlist =
  Playlist_id :: string
  Playlist_snippet :: "PlaylistSnippet option"
  Playlist_status :: "PlaylistStatus option"
  Playlist_contentDetails :: "PlaylistContentDetails option"

record PlaylistItemSnippet =
  PlaylistItemSnippet_title :: string
  PlaylistItemSnippet_position :: number
  PlaylistItemSnippet_resourceId :: ResourceId

record PlaylistItemContentDetails =
  PlaylistItemContentDetails_videoId :: string

record PlaylistItem =
  PlaylistItem_id :: string
  PlaylistItem_snippet :: "PlaylistItemSnippet option"
  PlaylistItem_contentDetails :: "PlaylistItemContentDetails option"

record SearchResultSnippet =
  SearchResultSnippet_title :: string
  SearchResultSnippet_channelTitle :: string

record SearchResult =
  SearchResult_id :: ResourceId
  SearchResult_snippet :: "SearchResultSnippet option"

record CommentSnippet =
  CommentSnippet_authorDisplayName :: string
  CommentSnippet_textDisplay :: string
  CommentSnippet_likeCount :: number

record Comment =
  Comment_id :: string
  Comment_snippet :: "CommentSnippet option"

record CommentThreadSnippet =
  CommentThreadSnippet_topLevelComment :: Comment
  CommentThreadSnippet_totalReplyCount :: number

record CommentThread =
  CommentThread_id :: string
  CommentThread_snippet :: "CommentThreadSnippet option"

record SubscriptionSnippet =
  SubscriptionSnippet_title :: string

record SubscriptionContentDetails =
  SubscriptionContentDetails_newItemCount :: number

record Subscription =
  Subscription_id :: string
  Subscription_snippet :: "SubscriptionSnippet option"
  Subscription_contentDetails :: "SubscriptionContentDetails option"

section \<open>Inputs of the update and caption operations (client.ts, lines 171 to 229)\<close>

record VideoUpdateInput =
  VideoUpdateInput_title :: "string option"
  VideoUpdateInput_description :: "string option"
  VideoUpdateInput_tags :: "string list option"
  VideoUpdateInput_categoryId :: "string option"
  VideoUpdateInput_privacyStatus :: "string option"
  VideoUpdateInput_embeddable :: "bool option"
  VideoUpdateInput_publicStatsViewable :: "bool option"
  VideoUpdateInput_madeForKids :: "bool option"
  VideoUpdateInput_defaultLanguage :: "string option"

record ChannelUpdateInput =
  ChannelUpdateInput_description :: "string option"
  ChannelUpdateInput_keywords :: "string option"
  ChannelUpdateInput_defaultLanguage :: "string option"
  ChannelUpdateInput_country :: "string option"
  ChannelUpdateInput_unsubscribedTrailer :: "string option"

record PlaylistUpdateInput =
  PlaylistUpdateInput_title :: "string option"
  PlaylistUpdateInput_description :: "string option"
  PlaylistUpdateInput_privacyStatus :: "string option"
  PlaylistUpdateInput_defaultLanguage :: "string option"

record CaptionInsertInput =
  CaptionInsertInput_language :: string
  CaptionInsertInput_name :: string
  CaptionInsertInput_isDraft :: "bool option"
  CaptionInsertInput_captionData :: string

record CaptionUpdateInput =
  CaptionUpdateInput_isDraft :: "bool option"
  CaptionUpdateInput_captionData :: "string option"

text \<open>The update inputs of a call that supplies no field.\<close>

definition no_video_updates :: VideoUpdateInput where
  "no_video_updates =
     \<lparr> VideoUpdateInput_title = None, VideoUpdateInput_description = None,
       VideoUpdateInput_tags = None, VideoUpdateInput_categoryId = None,
       VideoUpdateInput_privacyStatus = None, VideoUpdateInput_embeddable = None,
       VideoUpdateInput_publicStatsViewable = None, VideoUpdateInput_madeForKids = None,
       VideoUpdateInput_defaultLanguage = None \<rparr>"

definition no_playlist_updates :: PlaylistUpdateInput where
  "no_playlist_updates =
     \<lparr> PlaylistUpdateInput_title = None, PlaylistUpdateInput_description = None,
       PlaylistUpdateInput_privacyStatus = None, PlaylistUpdateInput_defaultLanguage = None \<rparr>"

text \<open>
  An optional typed value as the property of an object literal, the nullish
  coalescing \<^verbatim>\<open>a ?? b\<close> and an optional string inside a template literal.
\<close>

definition opt_str :: "string option \<Rightarrow> jsval" where
  "opt_str s = (case s of None \<Rightarrow> JUndefined | Some t \<Rightarrow> JStr t)"

definition opt_bool :: "bool option \<Rightarrow> jsval" where
  "opt_bool b = (case b of None \<Rightarrow> JUndefined | Some t \<Rightarrow> JBool t)"

definition opt_strs :: "string list option \<Rightarrow> jsval" where
  "opt_strs xs = (case xs of None \<Rightarrow> JUndefined | Some ts \<Rightarrow> JArr (map JStr ts))"

definition coalesce :: "'a option \<Rightarrow> 'a option \<Rightarrow> 'a option" where
  "coalesce a b = (case a of Some x \<Rightarrow> Some x | None \<Rightarrow> b)"

definition template_str :: "string option \<Rightarrow> string" where
  "template_str s = (case s of None \<Rightarrow> ''undefined'' | Some t \<Rightarrow> t)"

section \<open>Operations (client.ts)\<close>

definition get_options :: "(string \<times> param) list \<Rightarrow> request_options" where
  "get_options ps =
     \<lparr> opt_method = None, opt_params = Some ps, opt_body = None, opt_headers = None \<rparr>"

definition put_options :: "(string \<times> param) list \<Rightarrow> jsval \<Rightarrow> request_options" where
  "put_options ps b =
     \<lparr> opt_method = Some ''PUT'', opt_params = Some ps,
       opt_body = Some (Body (JSON_stringify b None)), opt_headers = None \<rparr>"

definition throw :: "thrown \<Rightarrow> 'a outcome" where
  "throw e = ([], Inl e)"

definition return :: "'a \<Rightarrow> 'a outcome" where
  "return v = ([], Inr v)"

subsection \<open>Videos\<close>

definition listVideos ::
  "platform \<Rightarrow> TenantCredentials \<Rightarrow> Video YouTubeListResponse reader \<Rightarrow> string list
     \<Rightarrow> string list option \<Rightarrow> Video PaginatedResponse outcome" where
  "listVideos pf credentials rd ids parts =
     await_then
       (request pf credentials rd ''/videos''
          (get_options
             [(''part'', PString (join '',''
                 (case parts of None \<Rightarrow> [''snippet'', ''contentDetails'', ''statistics'']
                  | Some ps \<Rightarrow> ps))),
              (''id'', PString (join '','' ids))]))
       (\<lambda>response.
          case deref response of
            Inl e \<Rightarrow> throw e
          | Inr r \<Rightarrow> return (toPaginatedResponse r))"

definition getVideo ::
  "platform \<Rightarrow> TenantCredentials \<Rightarrow> Video YouTubeListResponse reader \<Rightarrow> string
     \<Rightarrow> string list option \<Rightarrow> Video outcome" where
  "getVideo pf credentials rd videoId parts =
     await_then
       (listVideos pf credentials rd [videoId]
          (Some (case parts of
                   None \<Rightarrow> [''snippet'', ''contentDetails'', ''statistics'', ''status'']
                 | Some ps \<Rightarrow> ps)))
       (\<lambda>result.
          case items result of
            [] \<Rightarrow> throw (Thrown_Api (new_NotFoundError ''Video'' videoId))
          | x # xs \<Rightarrow> return x)"

text \<open>The object \<^verbatim>\<open>body\<close> that \<^verbatim>\<open>updateVideo\<close> builds (lines 422 to 440).\<close>

definition updateVideo_body :: "string \<Rightarrow> VideoUpdateInput \<Rightarrow> Video \<Rightarrow> jsval" where
  "updateVideo_body videoId updates current =
     JObj
       ([(''id'', JStr videoId),
         (''snippet'', JObj
            [(''title'', opt_str (coalesce (VideoUpdateInput_title updates)
                (map_option VideoSnippet_title (Video_snippet current)))),
             (''description'', opt_str (coalesce (VideoUpdateInput_description updates)
                (map_option VideoSnippet_description (Video_snippet current)))),
             (''tags'', opt_strs (coalesce (VideoUpdateInput_tags updates)
                (Option.bind (Video_snippet current) VideoSnippet_tags))),
             (''categoryId'', opt_str (coalesce (VideoUpdateInput_categoryId updates)
                (map_option VideoSnippet_categoryId (Video_snippet current)))),
             (''defaultLanguage'', opt_str (coalesce (VideoUpdateInput_defaultLanguage updates)
                (Option.bind (Video_snippet current) VideoSnippet_defaultLanguage)))])]
        @ (if truthy_str (VideoUpdateInput_privacyStatus updates)
              \<or> VideoUpdateInput_embeddable updates \<noteq> None
              \<or> VideoUpdateInput_publicStatsViewable updates \<noteq> None
              \<or> VideoUpdateInput_madeForKids updates \<noteq> None
           then
             [(''status'', JObj
                [(''privacyStatus'', opt_str (coalesce (VideoUpdateInput_privacyStatus updates)
                    (map_option VideoStatus_privacyStatus (Video_status current)))),
                 (''embeddable'', opt_bool (coalesce (VideoUpdateInput_embeddable updates)
                    (map_option VideoStatus_embeddable (Video_status current)))),
                 (''publicStatsViewable'',
                    opt_bool (coalesce (VideoUpdateInput_publicStatsViewable updates)
                      (map_option VideoStatus_publicStatsViewable (Video_status current)))),
                 (''madeForKids'', opt_bool (coalesce (VideoUpdateInput_madeForKids updates)
                    (map_option VideoStatus_madeForKids (Video_status current))))])]
           else []))"

definition updateVideo ::
  "platform \<Rightarrow> TenantCredentials \<Rightarrow> Video YouTubeListResponse reader \<Rightarrow> Video reader
     \<Rightarrow> string \<Rightarrow> VideoUpdateInput \<Rightarrow> Video option outcome" where
  "updateVideo pf credentials rd_list rd videoId updates =
     await_then (getVideo pf credentials rd_list videoId (Some [''snippet'', ''status'']))
       (\<lambda>current.
          request pf credentials rd ''/videos''
            (put_options [(''part'', PString ''snippet,status'')]
               (updateVideo_body videoId updates current)))"

subsection \<open>Channels\<close>

definition listChannels ::
  "platform \<Rightarrow> TenantCredentials \<Rightarrow> Channel YouTubeListResponse reader \<Rightarrow> string list
     \<Rightarrow> string list option \<Rightarrow> Channel PaginatedResponse outcome" where
  "listChannels pf credentials rd ids parts =
     await_then
       (request pf credentials rd ''/channels''
          (get_options
             [(''part'', PString (join '',''
                 (case parts of None \<Rightarrow> [''snippet'', ''contentDetails'', ''statistics'']
                  | Some ps \<Rightarrow> ps))),
              (''id'', PString (join '','' ids))]))
       (\<lambda>response.
          case deref response of
            Inl e \<Rightarrow> throw e
          | Inr r \<Rightarrow> return (toPaginatedResponse r))"

definition getChannel ::
  "platform \<Rightarrow> TenantCredentials \<Rightarrow> Channel YouTubeListResponse reader \<Rightarrow> string
     \<Rightarrow> string list option \<Rightarrow> Channel outcome" where
  "getChannel pf credentials rd channelId parts =
     await_then
       (listChannels pf credentials rd [channelId]
          (Some (case parts of
                   None \<Rightarrow> [''snippet'', ''contentDetails'', ''statistics'']
                 | Some ps \<Rightarrow> ps)))
       (\<lambda>result.
          case items result of
            [] \<Rightarrow> throw (Thrown_Api (new_NotFoundError ''Channel'' channelId))
          | x # xs \<Rightarrow> return x)"

definition updateChannel_body :: "string \<Rightarrow> ChannelUpdateInput \<Rightarrow> jsval" where
  "updateChannel_body channelId updates =
     JObj
       [(''id'', JStr channelId),
        (''brandingSettings'', JObj
           [(''channel'', JObj
               [(''description'', opt_str (ChannelUpdateInput_description updates)),
                (''keywords'', opt_str (ChannelUpdateInput_keywords updates)),
                (''defaultLanguage'', opt_str (ChannelUpdateInput_defaultLanguage updates)),
                (''country'', opt_str (ChannelUpdateInput_country updates)),
                (''unsubscribedTrailer'',
                   opt_str (ChannelUpdateInput_unsubscribedTrailer updates))])])]"

definition updateChannel ::
  "platform \<Rightarrow> TenantCredentials \<Rightarrow> Channel reader \<Rightarrow> string \<Rightarrow> ChannelUpdateInput
     \<Rightarrow> Channel option outcome" where
  "updateChannel pf credentials rd channelId updates =
     request pf credentials rd ''/channels''
       (put_options [(''part'', PString ''brandingSettings'')]
          (updateChannel_body channelId updates))"

subsection \<open>Playlists\<close>

definition getPlaylist ::
  "platform \<Rightarrow> TenantCredentials \<Rightarrow> Playlist YouTubeListResponse reader \<Rightarrow> string
     \<Rightarrow> string list option \<Rightarrow> Playlist outcome" where
  "getPlaylist pf credentials rd playlistId parts =
     await_then
       (request pf credentials rd ''/playlists''
          (get_options
             [(''part'', PString (join '',''
                 (case parts of None \<Rightarrow> [''snippet'', ''contentDetails'', ''status'']
                  | Some ps \<Rightarrow> ps))),
              (''id'', PString playlistId)]))
       (\<lambda>response.
          case deref response of
            Inl e \<Rightarrow> throw e
          | Inr r \<Rightarrow>
              (case lr_items r of
                 None \<Rightarrow> throw (Thrown_Api (new_NotFoundError ''Playlist'' playlistId))
               | Some [] \<Rightarrow> throw (Thrown_Api (new_NotFoundError ''Playlist'' playlistId))
               | Some (x # xs) \<Rightarrow> return x))"

definition updatePlaylist_body :: "string \<Rightarrow> PlaylistUpdateInput \<Rightarrow> Playlist \<Rightarrow> jsval" where
  "updatePlaylist_body playlistId updates current =
     JObj
       [(''id'', JStr playlistId),
        (''snippet'', JObj
           [(''title'', opt_str (coalesce (PlaylistUpdateInput_title updates)
               (map_option PlaylistSnippet_title (Playlist_snippet current)))),
            (''description'', opt_str (coalesce (PlaylistUpdateInput_description updates)
               (map_option PlaylistSnippet_description (Playlist_snippet current)))),
            (''defaultLanguage'', opt_str (coalesce (PlaylistUpdateInput_defaultLanguage updates)
               (Option.bind (Playlist_snippet current) PlaylistSnippet_defaultLanguage)))]),
        (''status'', JObj
           [(''privacyStatus'', opt_str (coalesce (PlaylistUpdateInput_privacyStatus updates)
               (map_option PlaylistStatus_privacyStatus (Playlist_status current))))])]"

definition updatePlaylist ::
  "platform \<Rightarrow> TenantCredentials \<Rightarrow> Playlist YouTubeListResponse reader \<Rightarrow> Playlist reader
     \<Rightarrow> string \<Rightarrow> PlaylistUpdateInput \<Rightarrow> Playlist option outcome" where
  "updatePlaylist pf credentials rd_list rd playlistId updates =
     await_then (getPlaylist pf credentials rd_list playlistId (Some [''snippet'', ''status'']))
       (\<lambda>current.
          request pf credentials rd ''/playlists''
            (put_options [(''part'', PString ''snippet,status'')]
               (updatePlaylist_body playlistId updates current)))"

subsection \<open>Comment threads\<close>

definition getCommentThread ::
  "platform \<Rightarrow> TenantCredentials \<Rightarrow> CommentThread YouTubeListResponse reader \<Rightarrow> string
     \<Rightarrow> string list option \<Rightarrow> CommentThread outcome" where
  "getCommentThread pf credentials rd commentThreadId parts =
     await_then
       (request pf credentials rd ''/commentThreads''
          (get_options
             [(''part'', PString (join '',''
                 (case parts of None \<Rightarrow> [''snippet'', ''replies''] | Some ps \<Rightarrow> ps))),
              (''id'', PString commentThreadId)]))
       (\<lambda>response.
          case deref response of
            Inl e \<Rightarrow> throw e
          | Inr r \<Rightarrow>
              (case lr_items r of
                 None \<Rightarrow> throw (Thrown_Api (new_NotFoundError ''CommentThread'' commentThreadId))
               | Some [] \<Rightarrow>
                   throw (Thrown_Api (new_NotFoundError ''CommentThread'' commentThreadId))
               | Some (x # xs) \<Rightarrow> return x))"

subsection \<open>Captions\<close>

text \<open>
  Both upload paths call \<^verbatim>\<open>fetch\<close> themselves, with the one header they build
  from the access token by a template literal.
\<close>

definition upload_request :: "TenantCredentials \<Rightarrow> string \<Rightarrow> body \<Rightarrow> http_request" where
  "upload_request credentials method formData =
     \<lparr> req_url = ''https://www.googleapis.com/upload/youtube/v3/captions'',
       req_query = [(''uploadType'', ''multipart''), (''part'', ''snippet'')],
       req_method = Some method,
       req_headers = [(''Authorization'', ''Bearer '' @ template_str (accessToken credentials))],
       req_body = Some formData \<rparr>"

definition insertCaption ::
  "platform \<Rightarrow> TenantCredentials \<Rightarrow> 'a reader \<Rightarrow> string \<Rightarrow> CaptionInsertInput
     \<Rightarrow> 'a outcome" where
  "insertCaption pf credentials rd videoId caption =
     (let metadata =
            JObj [(''snippet'', JObj
              [(''videoId'', JStr videoId),
               (''language'', JStr (CaptionInsertInput_language caption)),
               (''name'', JStr (CaptionInsertInput_name caption)),
               (''isDraft'', JBool (case CaptionInsertInput_isDraft caption of
                                      None \<Rightarrow> False | Some b \<Rightarrow> b))])];
          formData =
            FormData
              [(''metadata'', JSON_stringify metadata None, ''application/json''),
               (''media'', Raw (CaptionInsertInput_captionData caption), ''text/plain'')];
          req = upload_request credentials ''POST'' formData
      in case fetch pf req of
           Inl e \<Rightarrow> ([req], Inl e)
         | Inr response \<Rightarrow>
             if \<not> response_ok response then
               ([req], Inl (Thrown_Api (new_YouTubeApiError
                  (''Failed to insert caption: '' @ body_text response)
                  (Some (status response)) None None)))
             else ([req], rd response))"

definition updateCaption ::
  "platform \<Rightarrow> TenantCredentials \<Rightarrow> 'a reader \<Rightarrow> string \<Rightarrow> CaptionUpdateInput
     \<Rightarrow> 'a option outcome" where
  "updateCaption pf credentials rd captionId updates =
     (let body =
            JObj ([(''id'', JStr captionId)] @
                  (case CaptionUpdateInput_isDraft updates of
                     None \<Rightarrow> []
                   | Some b \<Rightarrow> [(''snippet'', JObj [(''isDraft'', JBool b)])]))
      in if truthy_str (CaptionUpdateInput_captionData updates) then
           (let formData =
                  FormData
                    [(''metadata'', JSON_stringify body None, ''application/json''),
                     (''media'', Raw (template_str (CaptionUpdateInput_captionData updates)),
                        ''text/plain'')];
                req = upload_request credentials ''PUT'' formData
            in case fetch pf req of
                 Inl e \<Rightarrow> ([req], Inl e)
               | Inr response \<Rightarrow>
                   if \<not> response_ok response then
                     ([req], Inl (Thrown_Api (new_YouTubeApiError
                        (''Failed to update caption: '' @ body_text response)
                        (Some (status response)) None None)))
                   else ([req], map_sum id Some (rd response)))
         else
           request pf credentials rd ''/captions''
             (put_options [(''part'', PString ''snippet'')] body))"

section \<open>Error payloads (utils/errors.ts and utils/formatters.ts)\<close>

record content_item =
  content_type :: string
  content_text :: payload

record ToolResponse =
  content :: "content_item list"
  isError :: "bool option"

text \<open>
  \<^verbatim>\<open>formatErrorForLogging\<close> (errors.ts, lines 110 to 130). Its last line converts a
  value that is not an \<^verbatim>\<open>Error\<close> with \<^verbatim>\<open>String\<close>, which returns or throws.
\<close>

definition formatErrorForLogging :: "platform \<Rightarrow> thrown \<Rightarrow> thrown + (string \<times> jsval) list" where
  "formatErrorForLogging pf error =
     (case error of
        Thrown_Api e \<Rightarrow>
          Inr ([(''name'', JStr (name e)),
                (''message'', JStr (message e)),
                (''code'', JStr (code e)),
                (''statusCode'',
                   (case statusCode e of
                      None \<Rightarrow> JUndefined
                    | Some n \<Rightarrow> JNum (Finite (of_int n)))),
                (''retryable'', JBool (retryable e))]
               @ (if cls e = Class_RateLimitError
                  then [(''retryAfterSeconds'',
                          (case retryAfterSeconds e of None \<Rightarrow> JUndefined | Some n \<Rightarrow> JNum n))]
                  else [])
               @ (if cls e = Class_ValidationError
                  then [(''details'',
                          (case details e of
                             None \<Rightarrow> JUndefined
                           | Some d \<Rightarrow> JObj (map (\<lambda>kv. (fst kv, JArr (map JStr (snd kv)))) d)))]
                  else []))
      | Thrown_Error nm msg stack \<Rightarrow>
          Inr [(''name'', JStr nm), (''message'', JStr msg), (''stack'', opt_str stack)]
      | Thrown_Value v \<Rightarrow>
          (case String_or_throw pf v of
             Inl e \<Rightarrow> Inl e
           | Inr s \<Rightarrow> Inr [(''error'', JStr s)]))"

text \<open>
  \<^verbatim>\<open>formatError\<close> (formatters.ts, lines 51 to 75): it has no \<^verbatim>\<open>try\<close>, so what
  \<^verbatim>\<open>formatErrorForLogging\<close> or its own \<^verbatim>\<open>String(error)\<close> throws leaves it.
\<close>

definition formatError :: "platform \<Rightarrow> thrown \<Rightarrow> thrown + ToolResponse" where
  "formatError pf error =
     (case formatErrorForLogging pf error of
        Inl e \<Rightarrow> Inl e
      | Inr errorInfo \<Rightarrow>
          (case (case error of
                   Thrown_Api e \<Rightarrow>
                     Inr ((''Error: '' @ message e) @ (if retryable e then '' (retryable)'' else []))
                 | Thrown_Error nm m stack \<Rightarrow> Inr (''Error: '' @ m)
                 | Thrown_Value v \<Rightarrow>
                     (case String_or_throw pf v of
                        Inl e \<Rightarrow> Inl e
                      | Inr s \<Rightarrow> Inr (''Error: '' @ s))) of
             Inl e \<Rightarrow> Inl e
           | Inr msg \<Rightarrow>
               Inr \<lparr> content =
                       [\<lparr> content_type = ''text'',
                          content_text =
                            JSON_stringify
                              (JObj [(''error'', JStr msg), (''details'', JObj errorInfo)])
                              (Some 2) \<rparr>],
                     isError = Some True \<rparr>))"

section \<open>Markdown tables (utils/formatters.ts)\<close>

text \<open>
  The casts \<^verbatim>\<open>data.items as Video[]\<close> and the like of the markdown formatter, on
  items of type \<^verbatim>\<open>unknown\<close>: one reading of an item per entity type. The generic
  table reads an item as a \<^verbatim>\<open>Record<string, unknown>\<close>, of which nothing is known:
  \<open>Object_keys\<close> is \<^verbatim>\<open>Object.keys(item)\<close>, which throws on \<^verbatim>\<open>null\<close> and
  \<^verbatim>\<open>undefined\<close>, and \<open>property_String item k\<close> is what reading
  \<^verbatim>\<open>item[k]\<close> and converting it gives: the read or the conversion throws, the
  value is \<^verbatim>\<open>null\<close> or \<^verbatim>\<open>undefined\<close> (\<open>None\<close>), or \<^verbatim>\<open>String\<close> of the
  value.
\<close>

record 'a casts =
  as_Video :: "'a \<Rightarrow> Video"
  as_Channel :: "'a \<Rightarrow> Channel"
  as_Playlist :: "'a \<Rightarrow> Playlist"
  as_PlaylistItem :: "'a \<Rightarrow> PlaylistItem"
  as_SearchResult :: "'a \<Rightarrow> SearchResult"
  as_Comment :: "'a \<Rightarrow> Comment"
  as_CommentThread :: "'a \<Rightarrow> CommentThread"
  as_Subscription :: "'a \<Rightarrow> Subscription"
  Object_keys :: "'a \<Rightarrow> thrown + string list"
  property_String :: "'a \<Rightarrow> string \<Rightarrow> thrown + string option"

text \<open>
  \<^verbatim>\<open>str.substring(0, maxLength - 3)\<close> reads a negative end as 0, which is what the
  subtraction on \<^typ>\<open>nat\<close> gives.
\<close>

definition truncate :: "string \<Rightarrow> nat \<Rightarrow> string" where
  "truncate str maxLength =
     (if length str \<le> maxLength then str else take (maxLength - 3) str @ ''...'')"

definition newline :: string where
  "newline = [char_of (10::nat)]"

text \<open>
  \<^verbatim>\<open>str.charAt(0).toUpperCase() + str.slice(1)\<close>: the first code unit, or the empty
  string, goes through the platform's \<^verbatim>\<open>toUpperCase\<close>.
\<close>

definition capitalize :: "platform \<Rightarrow> string \<Rightarrow> string" where
  "capitalize pf str = String_toUpperCase pf (take 1 str) @ drop 1 str"

text \<open>
  \<^verbatim>\<open>s || d\<close> on an optional string, and an optional number inside a template
  literal after \<^verbatim>\<open>?? '-'\<close>.
\<close>

definition str_or :: "string option \<Rightarrow> string \<Rightarrow> string" where
  "str_or s d = (case s of None \<Rightarrow> d | Some t \<Rightarrow> if t = [] then d else t)"

definition num_or_dash :: "platform \<Rightarrow> number option \<Rightarrow> string" where
  "num_or_dash pf n = (case n of None \<Rightarrow> ''-'' | Some i \<Rightarrow> Number_toString pf i)"

text \<open>\<^verbatim>\<open>s.replace(pat, rep)\<close> with a string pattern: the first occurrence only.\<close>

fun String_replace :: "string \<Rightarrow> string \<Rightarrow> string \<Rightarrow> string" where
  "String_replace [] pat rep = (if pat = [] then rep else [])"
| "String_replace (c # cs) pat rep =
     (if prefix pat (c # cs) then rep @ drop (length pat) (c # cs)
      else c # String_replace cs pat rep)"

definition formatVideosTable :: "Video list \<Rightarrow> string" where
  "formatVideosTable videos =
     join newline
       ([''| ID | Title | Channel | Views | Duration |'', ''|---|---|---|---|---|''] @
        map (\<lambda>video.
               let title = truncate
                     (str_or (map_option VideoSnippet_title (Video_snippet video)) ''-'') 40;
                   channel =
                     str_or (map_option VideoSnippet_channelTitle (Video_snippet video)) ''-'';
                   views =
                     str_or (map_option VideoStatistics_viewCount (Video_statistics video)) ''-'';
                   duration =
                     str_or (map_option VideoContentDetails_duration
                       (Video_contentDetails video)) ''-''
               in ''| '' @ Video_id video @ '' | '' @ title @ '' | '' @ channel @ '' | ''
                    @ views @ '' | '' @ duration @ '' |'')
          videos)"

definition formatChannelsTable :: "Channel list \<Rightarrow> string" where
  "formatChannelsTable channels =
     join newline
       ([''| ID | Title | Subscribers | Videos |'', ''|---|---|---|---|''] @
        map (\<lambda>channel.
               let title = truncate
                     (str_or (map_option ChannelSnippet_title (Channel_snippet channel)) ''-'') 40;
                   subs = str_or (Option.bind (Channel_statistics channel)
                            ChannelStatistics_subscriberCount) ''-'';
                   videos = str_or (map_option ChannelStatistics_videoCount
                              (Channel_statistics channel)) ''-''
               in ''| '' @ Channel_id channel @ '' | '' @ title @ '' | '' @ subs @ '' | ''
                    @ videos @ '' |'')
          channels)"

definition formatPlaylistsTable :: "platform \<Rightarrow> Playlist list \<Rightarrow> string" where
  "formatPlaylistsTable pf playlists =
     join newline
       ([''| ID | Title | Items | Privacy |'', ''|---|---|---|---|''] @
        map (\<lambda>playlist.
               let title = truncate
                     (str_or (map_option PlaylistSnippet_title (Playlist_snippet playlist))
                        ''-'') 40;
                   its = num_or_dash pf (map_option PlaylistContentDetails_itemCount
                           (Playlist_contentDetails playlist));
                   privacy = str_or (map_option PlaylistStatus_privacyStatus
                               (Playlist_status playlist)) ''-''
               in ''| '' @ Playlist_id playlist @ '' | '' @ title @ '' | '' @ its @ '' | ''
                    @ privacy @ '' |'')
          playlists)"

definition formatPlaylistItemsTable :: "platform \<Rightarrow> PlaylistItem list \<Rightarrow> string" where
  "formatPlaylistItemsTable pf its =
     join newline
       ([''| ID | Position | Video Title | Video ID |'', ''|---|---|---|---|''] @
        map (\<lambda>item.
               let title = truncate
                     (str_or (map_option PlaylistItemSnippet_title (PlaylistItem_snippet item))
                        ''-'') 40;
                   position = num_or_dash pf (map_option PlaylistItemSnippet_position
                                (PlaylistItem_snippet item));
                   videoId =
                     str_or (map_option PlaylistItemContentDetails_videoId
                               (PlaylistItem_contentDetails item))
                       (str_or (Option.bind (PlaylistItem_snippet item)
                                  (\<lambda>sn. ResourceId_videoId (PlaylistItemSnippet_resourceId sn)))
                          ''-'')
               in ''| '' @ PlaylistItem_id item @ '' | '' @ position @ '' | '' @ title @ '' | ''
                    @ videoId @ '' |'')
          its)"

definition formatSearchResultsTable :: "SearchResult list \<Rightarrow> string" where
  "formatSearchResultsTable results =
     join newline
       ([''| Type | ID | Title | Channel |'', ''|---|---|---|---|''] @
        map (\<lambda>result.
               let type = String_replace (ResourceId_kind (SearchResult_id result))
                            ''youtube#'' [];
                   ident =
                     str_or (ResourceId_videoId (SearchResult_id result))
                       (str_or (ResourceId_channelId (SearchResult_id result))
                          (str_or (ResourceId_playlistId (SearchResult_id result)) ''-''));
                   title = truncate
                     (str_or (map_option SearchResultSnippet_title (SearchResult_snippet result))
                        ''-'') 40;
                   channel = str_or (map_option SearchResultSnippet_channelTitle
                               (SearchResult_snippet result)) ''-''
               in ''| '' @ type @ '' | '' @ ident @ '' | '' @ title @ '' | '' @ channel @ '' |'')
          results)"

definition formatCommentsTable :: "platform \<Rightarrow> Comment list \<Rightarrow> string" where
  "formatCommentsTable pf comments =
     join newline
       ([''| ID | Author | Comment | Likes |'', ''|---|---|---|---|''] @
        map (\<lambda>comment.
               let author = str_or (map_option CommentSnippet_authorDisplayName
                              (Comment_snippet comment)) ''-'';
                   txt = truncate
                     (str_or (map_option CommentSnippet_textDisplay (Comment_snippet comment))
                        ''-'') 50;
                   likes = num_or_dash pf (map_option CommentSnippet_likeCount
                             (Comment_snippet comment))
               in ''| '' @ Comment_id comment @ '' | '' @ author @ '' | '' @ txt @ '' | ''
                    @ likes @ '' |'')
          comments)"

definition formatCommentThreadsTable :: "platform \<Rightarrow> CommentThread list \<Rightarrow> string" where
  "formatCommentThreadsTable pf threads =
     join newline
       ([''| ID | Author | Comment | Replies |'', ''|---|---|---|---|''] @
        map (\<lambda>thread.
               let comment = map_option CommentThreadSnippet_topLevelComment
                               (CommentThread_snippet thread);
                   author = str_or (map_option CommentSnippet_authorDisplayName
                              (Option.bind comment Comment_snippet)) ''-'';
                   txt = truncate
                     (str_or (map_option CommentSnippet_textDisplay
                        (Option.bind comment Comment_snippet)) ''-'') 50;
                   replies = num_or_dash pf (map_option CommentThreadSnippet_totalReplyCount
                               (CommentThread_snippet thread))
               in ''| '' @ CommentThread_id thread @ '' | '' @ author @ '' | '' @ txt @ '' | ''
                    @ replies @ '' |'')
          threads)"

definition formatSubscriptionsTable :: "platform \<Rightarrow> Subscription list \<Rightarrow> string" where
  "formatSubscriptionsTable pf subscriptions =
     join newline
       ([''| ID | Channel | New Items |'', ''|---|---|---|''] @
        map (\<lambda>sub.
               let title = truncate
                     (str_or (map_option SubscriptionSnippet_title (Subscription_snippet sub))
                        ''-'') 40;
                   newItems = num_or_dash pf (map_option SubscriptionContentDetails_newItemCount
                                (Subscription_contentDetails sub))
               in ''| '' @ Subscription_id sub @ '' | '' @ title @ '' | '' @ newItems @ '' |'')
          subscriptions)"

text \<open>The first throw of a sequence of steps, or all their results.\<close>

fun collect :: "(thrown + 'a) list \<Rightarrow> thrown + 'a list" where
  "collect [] = Inr []"
| "collect (x # xs) =
     (case x of
        Inl e \<Rightarrow> Inl e
      | Inr v \<Rightarrow> (case collect xs of Inl e \<Rightarrow> Inl e | Inr vs \<Rightarrow> Inr (v # vs)))"

text \<open>
  \<^verbatim>\<open>formatGenericTable\<close> (lines 314 to 331). The keys are read from the first
  item; every item is then read at these keys, in order, a value that is \<^verbatim>\<open>null\<close>
  or \<^verbatim>\<open>undefined\<close> giving a dash.
\<close>

definition formatGenericTable :: "'a casts \<Rightarrow> 'a list \<Rightarrow> thrown + string" where
  "formatGenericTable cs its =
     (case its of
        [] \<Rightarrow> Inr ''_No items_''
      | first # rest \<Rightarrow>
          (case Object_keys cs first of
             Inl e \<Rightarrow> Inl e
           | Inr all_keys \<Rightarrow>
               let keys = take 5 all_keys
               in case collect
                         (map (\<lambda>item.
                                 case collect
                                        (map (\<lambda>k. case property_String cs item k of
                                                     Inl e \<Rightarrow> Inl e
                                                   | Inr None \<Rightarrow> Inr ''-''
                                                   | Inr (Some v) \<Rightarrow> Inr v)
                                           keys) of
                                   Inl e \<Rightarrow> Inl e
                                 | Inr values \<Rightarrow> Inr (''| '' @ join '' | '' values @ '' |''))
                            its) of
                    Inl e \<Rightarrow> Inl e
                  | Inr rows \<Rightarrow>
                      Inr (join newline
                             ([''| '' @ join '' | '' keys @ '' |'',
                               ''|'' @ join ''|'' (map (\<lambda>k. ''---'') keys) @ ''|''] @ rows))))"

text \<open>
  The lines \<^verbatim>\<open>formatPaginatedAsMarkdown\<close> pushes before it looks at the items
  (lines 112 to 126).
\<close>

definition paginated_header :: "platform \<Rightarrow> 'a PaginatedResponse \<Rightarrow> string \<Rightarrow> string list" where
  "paginated_header pf data entityType =
     [''## '' @ capitalize pf entityType, []]
     @ [case totalResults data of
          Some n \<Rightarrow>
            ''**Total:** '' @ Number_toString pf n @ '' | **Showing:** ''
              @ Number_toString pf (Finite (of_nat (count data)))
        | None \<Rightarrow> ''**Showing:** '' @ Number_toString pf (Finite (of_nat (count data)))]
     @ (if hasMore data \<and> truthy_str (nextPageToken data)
        then [''**More available:** Yes (nextPageToken: `''
                @ template_str (nextPageToken data) @ ''`)'']
        else [])
     @ [[]]"

text \<open>The \<^verbatim>\<open>switch\<close> on the entity type (lines 133 to 160).\<close>

definition entity_table :: "platform \<Rightarrow> 'a casts \<Rightarrow> string \<Rightarrow> 'a list \<Rightarrow> thrown + string" where
  "entity_table pf cs entityType its =
     (if entityType = ''videos'' then Inr (formatVideosTable (map (as_Video cs) its))
      else if entityType = ''channels'' then Inr (formatChannelsTable (map (as_Channel cs) its))
      else if entityType = ''playlists''
        then Inr (formatPlaylistsTable pf (map (as_Playlist cs) its))
      else if entityType = ''playlistItems''
        then Inr (formatPlaylistItemsTable pf (map (as_PlaylistItem cs) its))
      else if entityType = ''searchResults''
        then Inr (formatSearchResultsTable (map (as_SearchResult cs) its))
      else if entityType = ''comments''
        then Inr (formatCommentsTable pf (map (as_Comment cs) its))
      else if entityType = ''commentThreads''
        then Inr (formatCommentThreadsTable pf (map (as_CommentThread cs) its))
      else if entityType = ''subscriptions''
        then Inr (formatSubscriptionsTable pf (map (as_Subscription cs) its))
      else formatGenericTable cs its)"

definition formatPaginatedAsMarkdown ::
  "platform \<Rightarrow> 'a casts \<Rightarrow> 'a PaginatedResponse \<Rightarrow> string \<Rightarrow> thrown + string" where
  "formatPaginatedAsMarkdown pf cs data entityType =
     (let lines = paginated_header pf data entityType
      in if length (items data) = 0
         then Inr (join newline (lines @ [''_No items found._'']))
         else (case entity_table pf cs entityType (items data) of
                 Inl e \<Rightarrow> Inl e
               | Inr table \<Rightarrow> Inr (join newline (lines @ [table]))))"

section \<open>Example data\<close>

definition example_token_credentials :: TenantCredentials where
  "example_token_credentials = \<lparr> accessToken = Some ''ya29.token'', apiKey = None \<rparr>"

definition example_key_credentials :: TenantCredentials where
  "example_key_credentials = \<lparr> accessToken = None, apiKey = Some ''AIzaKey'' \<rparr>"

definition example_no_credentials :: TenantCredentials where
  "example_no_credentials = \<lparr> accessToken = None, apiKey = None \<rparr>"

definition example_error_body :: string where
  \<open>example_error_body = ''{"error":{"message":"Backend Error"}}''\<close>

definition example_message_body :: string where
  \<open>example_message_body = ''{"message":"Bad Gateway"}''\<close>

definition example_toString_body :: string where
  \<open>example_toString_body = ''{"message":{"toString":"x"}}''\<close>

definition example_response :: "int \<Rightarrow> string option \<Rightarrow> string \<Rightarrow> http_response" where
  "example_response st ra txt = \<lparr> status = st, retry_after = ra, body_text = txt \<rparr>"

text \<open>
  The conversion of a number to a string in the examples: on an integer of magnitude
  below \<open>10\<^sup>2\<^sup>1\<close>, on \<^verbatim>\<open>NaN\<close> and on the infinities it is the conversion of
  ECMAScript (the decimal digits, after a minus sign for a negative integer). The
  examples convert no other number; on those it gives the empty string.
\<close>

definition digit_char :: "nat \<Rightarrow> char" where
  "digit_char d = char_of (48 + d)"

fun decimal_digits :: "nat \<Rightarrow> string" where
  "decimal_digits n =
     (if n < 10 then [digit_char n] else decimal_digits (n div 10) @ [digit_char (n mod 10)])"

declare decimal_digits.simps [simp del]

definition example_Number_toString :: "number \<Rightarrow> string" where
  "example_Number_toString n =
     (case n of
        Finite q \<Rightarrow>
          if snd (quotient_of q) = 1 \<and> \<bar>q\<bar> < 10 ^ 21
          then (if q < 0 then CHR ''-'' # decimal_digits (nat (- fst (quotient_of q)))
                else decimal_digits (nat (fst (quotient_of q))))
          else []
      | NaN \<Rightarrow> ''NaN''
      | PosInfinity \<Rightarrow> ''Infinity''
      | NegInfinity \<Rightarrow> ''-Infinity'')"

text \<open>
  \<^verbatim>\<open>Number.parseInt(s, 10)\<close> in the examples: leading white space is skipped, one
  sign is read, then the longest run of decimal digits; no digit gives \<^verbatim>\<open>NaN\<close>.
  The integer read is rounded to the nearest double, to the even one of two nearest,
  and to an infinity from \<open>2\<^sup>1\<^sup>0\<^sup>2\<^sup>4 - 2\<^sup>9\<^sup>7\<^sup>0\<close> on.
\<close>

definition is_white_space :: "char \<Rightarrow> bool" where
  "is_white_space c = (of_char c \<in> {9::nat, 10, 11, 12, 13, 32, 160})"

definition is_digit :: "char \<Rightarrow> bool" where
  "is_digit c = (48 \<le> (of_char c :: nat) \<and> (of_char c :: nat) \<le> 57)"

definition digits_value :: "string \<Rightarrow> nat" where
  "digits_value ds = foldl (\<lambda>acc c. 10 * acc + (of_char c - 48)) 0 ds"

fun bit_length :: "nat \<Rightarrow> nat" where
  "bit_length n = (if n = 0 then 0 else Suc (bit_length (n div 2)))"

declare bit_length.simps [simp del]

definition nearest_double :: "nat \<Rightarrow> nat option" where
  "nearest_double n =
     (if bit_length n \<le> 53 then Some n
      else
        let e = bit_length n - 53;
            q = n div 2 ^ e;
            r = n mod 2 ^ e;
            h = 2 ^ (e - 1);
            q' = (if h < r \<or> (r = h \<and> odd q) then q + 1 else q)
        in if 2 ^ 1024 \<le> q' * 2 ^ e then None else Some (q' * 2 ^ e))"

definition example_parseInt :: "string \<Rightarrow> number" where
  "example_parseInt s =
     (let S = dropWhile is_white_space s;
          negative = (S \<noteq> [] \<and> hd S = CHR ''-'');
          S' = (if S \<noteq> [] \<and> (hd S = CHR ''+'' \<or> hd S = CHR ''-'') then tl S else S);
          Z = takeWhile is_digit S'
      in if Z = [] then NaN
         else case nearest_double (digits_value Z) of
                None \<Rightarrow> (if negative then NegInfinity else PosInfinity)
              | Some v \<Rightarrow> Finite (if negative then - of_nat v else of_nat v))"

text \<open>
  \<^verbatim>\<open>toUpperCase\<close> in the examples: the letters a to z are mapped to A to Z, which
  is \<^verbatim>\<open>toUpperCase\<close> on a string of ASCII code units; the examples convert no
  other string.
\<close>

definition example_toUpperCase :: "string \<Rightarrow> string" where
  "example_toUpperCase s =
     map (\<lambda>c. if 97 \<le> (of_char c :: nat) \<and> (of_char c :: nat) \<le> 122
               then char_of ((of_char c :: nat) - 32) else c) s"

text \<open>
  A platform that answers every request with the same response. Its
  \<^verbatim>\<open>JSON.parse\<close> parses the three bodies above and the empty object; the other
  bodies of the examples are no JSON texts.
\<close>

definition example_platform :: "http_response \<Rightarrow> platform" where
  "example_platform answer =
     \<lparr> fetch = (\<lambda>req. Inr answer),
       JSON_parse =
         (\<lambda>s. if s = example_error_body
                then Some (JObj [(''error'', JObj [(''message'', JStr ''Backend Error'')])])
              else if s = example_message_body
                then Some (JObj [(''message'', JStr ''Bad Gateway'')])
              else if s = example_toString_body
                then Some (JObj [(''message'', JObj [(''toString'', JStr ''x'')])])
              else if s = ''{}'' then Some (JObj [])
              else None),
       Number_parseInt = example_parseInt,
       Number_toString = example_Number_toString,
       String_toUpperCase = example_toUpperCase \<rparr>"

definition example_reader :: "'a \<Rightarrow> 'a reader" where
  "example_reader v = (\<lambda>response. Inr v)"

definition example_empty_list :: "'a YouTubeListResponse" where
  "example_empty_list =
     \<lparr> lr_kind = ''youtube#videoListResponse'', lr_etag = ''etag'',
       lr_nextPageToken = None, lr_prevPageToken = None, lr_pageInfo = None,
       lr_items = Some [] \<rparr>"

definition example_video :: Video where
  "example_video =
     \<lparr> Video_id = ''dQw4'',
       Video_snippet = Some \<lparr> VideoSnippet_title = ''Launch'',
                              VideoSnippet_description = ''First flight'',
                              VideoSnippet_channelTitle = ''Rockets'',
                              VideoSnippet_tags = Some [''space''],
                              VideoSnippet_categoryId = ''28'',
                              VideoSnippet_defaultLanguage = None \<rparr>,
       Video_contentDetails = None,
       Video_status = Some \<lparr> VideoStatus_privacyStatus = ''public'',
                             VideoStatus_embeddable = True,
                             VideoStatus_publicStatsViewable = True,
                             VideoStatus_madeForKids = False \<rparr>,
       Video_statistics = None \<rparr>"

definition example_video_list :: "Video YouTubeListResponse" where
  "example_video_list =
     \<lparr> lr_kind = ''youtube#videoListResponse'', lr_etag = ''etag'',
       lr_nextPageToken = None, lr_prevPageToken = None, lr_pageInfo = None,
       lr_items = Some [example_video] \<rparr>"

definition example_video_updates :: VideoUpdateInput where
  "example_video_updates = no_video_updates\<lparr>VideoUpdateInput_title := Some ''Relaunch''\<rparr>"

definition example_playlist :: Playlist where
  "example_playlist =
     \<lparr> Playlist_id = ''PL42'',
       Playlist_snippet = Some \<lparr> PlaylistSnippet_title = ''Flights'',
                                 PlaylistSnippet_description = ''All launches'',
                                 PlaylistSnippet_defaultLanguage = Some ''en'' \<rparr>,
       Playlist_status = Some \<lparr> PlaylistStatus_privacyStatus = ''private'' \<rparr>,
       Playlist_contentDetails = None \<rparr>"

definition example_playlist_list :: "Playlist YouTubeListResponse" where
  "example_playlist_list =
     \<lparr> lr_kind = ''youtube#playlistListResponse'', lr_etag = ''etag'',
       lr_nextPageToken = None, lr_prevPageToken = None, lr_pageInfo = None,
       lr_items = Some [example_playlist] \<rparr>"

definition example_channel :: Channel where
  "example_channel =
     \<lparr> Channel_id = ''UC12'',
       Channel_snippet = Some \<lparr> ChannelSnippet_title = ''Rockets'' \<rparr>,
       Channel_statistics = Some \<lparr> ChannelStatistics_subscriberCount = None,
                                   ChannelStatistics_videoCount = ''7'' \<rparr> \<rparr>"

definition example_channel_list :: "Channel YouTubeListResponse" where
  "example_channel_list =
     \<lparr> lr_kind = ''youtube#channelListResponse'', lr_etag = ''etag'',
       lr_nextPageToken = None, lr_prevPageToken = None, lr_pageInfo = None,
       lr_items = Some [example_channel] \<rparr>"

definition example_comment :: Comment where
  "example_comment =
     \<lparr> Comment_id = ''Ug99.1'',
       Comment_snippet = Some \<lparr> CommentSnippet_authorDisplayName = ''Ada'',
                                CommentSnippet_textDisplay = ''Nice flight'',
                                CommentSnippet_likeCount = Finite 3 \<rparr> \<rparr>"

definition example_thread :: CommentThread where
  "example_thread =
     \<lparr> CommentThread_id = ''Ug99'',
       CommentThread_snippet =
         Some \<lparr> CommentThreadSnippet_topLevelComment = example_comment,
                CommentThreadSnippet_totalReplyCount = Finite 0 \<rparr> \<rparr>"

definition example_thread_list :: "CommentThread YouTubeListResponse" where
  "example_thread_list =
     \<lparr> lr_kind = ''youtube#commentThreadListResponse'', lr_etag = ''etag'',
       lr_nextPageToken = None, lr_prevPageToken = None, lr_pageInfo = None,
       lr_items = Some [example_thread, example_thread] \<rparr>"

definition example_page :: "Video YouTubeListResponse" where
  "example_page =
     \<lparr> lr_kind = ''youtube#videoListResponse'', lr_etag = ''etag'',
       lr_nextPageToken = Some ''ABC'', lr_prevPageToken = None,
       lr_pageInfo = Some \<lparr> pi_totalResults = Finite 120, pi_resultsPerPage = Finite 25 \<rparr>,
       lr_items = Some (replicate 25 example_video) \<rparr>"

text \<open>
  An item of an envelope in the examples: an id, a title when it has one, a number
  when it has one, and one more property of any value (none when that value is
  \<^verbatim>\<open>undefined\<close>). \<open>example_properties\<close> are its own properties as
  \<^verbatim>\<open>JSON.parse\<close> gives them; the casts read it at each entity type, and as a
  record by its own properties (none of these keys is defined by a prototype, so a
  key that is not an own property reads as \<^verbatim>\<open>undefined\<close>).
\<close>

datatype example_item =
  Item (item_id: string) (item_title: "string option") (item_count: "number option")
    (item_extra: jsval)

definition example_properties :: "example_item \<Rightarrow> (string \<times> jsval) list" where
  "example_properties it =
     [(''id'', JStr (item_id it))]
     @ (case item_title it of None \<Rightarrow> [] | Some t \<Rightarrow> [(''title'', JStr t)])
     @ (case item_count it of None \<Rightarrow> [] | Some n \<Rightarrow> [(''count'', JNum n)])
     @ (if item_extra it = JUndefined then [] else [(''extra'', item_extra it)])"

definition example_casts :: "example_item casts" where
  "example_casts =
     \<lparr> as_Video =
         (\<lambda>it. \<lparr> Video_id = item_id it,
                  Video_snippet =
                    map_option (\<lambda>t. \<lparr> VideoSnippet_title = t,
                                        VideoSnippet_description = ''First flight'',
                                        VideoSnippet_channelTitle = ''Rockets'',
                                        VideoSnippet_tags = None,
                                        VideoSnippet_categoryId = ''28'',
                                        VideoSnippet_defaultLanguage = None \<rparr>) (item_title it),
                  Video_contentDetails =
                    map_option (\<lambda>n. \<lparr> VideoContentDetails_duration = ''PT5M'' \<rparr>)
                      (item_count it),
                  Video_status = None,
                  Video_statistics =
                    map_option (\<lambda>n. \<lparr> VideoStatistics_viewCount = ''1000'' \<rparr>)
                      (item_count it) \<rparr>),
       as_Channel =
         (\<lambda>it. \<lparr> Channel_id = item_id it,
                  Channel_snippet =
                    map_option (\<lambda>t. \<lparr> ChannelSnippet_title = t \<rparr>) (item_title it),
                  Channel_statistics =
                    map_option (\<lambda>n. \<lparr> ChannelStatistics_subscriberCount = None,
                                        ChannelStatistics_videoCount = ''7'' \<rparr>)
                      (item_count it) \<rparr>),
       as_Playlist =
         (\<lambda>it. \<lparr> Playlist_id = item_id it,
                  Playlist_snippet =
                    map_option (\<lambda>t. \<lparr> PlaylistSnippet_title = t,
                                        PlaylistSnippet_description = ''All launches'',
                                        PlaylistSnippet_defaultLanguage = None \<rparr>)
                      (item_title it),
                  Playlist_status =
                    map_option (\<lambda>t. \<lparr> PlaylistStatus_privacyStatus = ''public'' \<rparr>)
                      (item_title it),
                  Playlist_contentDetails =
                    map_option (\<lambda>n. \<lparr> PlaylistContentDetails_itemCount = n \<rparr>)
                      (item_count it) \<rparr>),
       as_PlaylistItem =
         (\<lambda>it. \<lparr> PlaylistItem_id = item_id it,
                  PlaylistItem_snippet =
                    map_option
                      (\<lambda>t. \<lparr> PlaylistItemSnippet_title = t,
                               PlaylistItemSnippet_position = Finite 0,
                               PlaylistItemSnippet_resourceId =
                                 \<lparr> ResourceId_kind = ''youtube#video'',
                                   ResourceId_videoId = Some ''dQw4'',
                                   ResourceId_channelId = None,
                                   ResourceId_playlistId = None \<rparr> \<rparr>)
                      (item_title it),
                  PlaylistItem_contentDetails =
                    map_option (\<lambda>n. \<lparr> PlaylistItemContentDetails_videoId = ''xyz9'' \<rparr>)
                      (item_count it) \<rparr>),
       as_SearchResult =
         (\<lambda>it. \<lparr> SearchResult_id =
                    \<lparr> ResourceId_kind = ''youtube#channel'',
                      ResourceId_videoId = None,
                      ResourceId_channelId = map_option (\<lambda>t. item_id it) (item_title it),
                      ResourceId_playlistId = None \<rparr>,
                  SearchResult_snippet =
                    map_option (\<lambda>t. \<lparr> SearchResultSnippet_title = t,
                                        SearchResultSnippet_channelTitle = ''Rockets'' \<rparr>)
                      (item_title it) \<rparr>),
       as_Comment =
         (\<lambda>it. \<lparr> Comment_id = item_id it,
                  Comment_snippet =
                    map_option (\<lambda>t. \<lparr> CommentSnippet_authorDisplayName = ''Ada'',
                                        CommentSnippet_textDisplay = t,
                                        CommentSnippet_likeCount = Finite 3 \<rparr>)
                      (item_title it) \<rparr>),
       as_CommentThread =
         (\<lambda>it. \<lparr> CommentThread_id = item_id it,
                  CommentThread_snippet =
                    map_option
                      (\<lambda>n. \<lparr> CommentThreadSnippet_topLevelComment =
                                 \<lparr> Comment_id = item_id it,
                                   Comment_snippet =
                                     map_option
                                       (\<lambda>t. \<lparr> CommentSnippet_authorDisplayName = ''Ada'',
                                                CommentSnippet_textDisplay = t,
                                                CommentSnippet_likeCount = Finite 3 \<rparr>)
                                       (item_title it) \<rparr>,
                               CommentThreadSnippet_totalReplyCount = n \<rparr>)
                      (item_count it) \<rparr>),
       as_Subscription =
         (\<lambda>it. \<lparr> Subscription_id = item_id it,
                  Subscription_snippet =
                    map_option (\<lambda>t. \<lparr> SubscriptionSnippet_title = t \<rparr>) (item_title it),
                  Subscription_contentDetails =
                    map_option (\<lambda>n. \<lparr> SubscriptionContentDetails_newItemCount = n \<rparr>)
                      (item_count it) \<rparr>),
       Object_keys = (\<lambda>it. Inr (map fst (example_properties it))),
       property_String =
         (\<lambda>it k. case map_of (example_properties it) k of
                   None \<Rightarrow> Inr None
                 | Some v \<Rightarrow>
                     if nullish v then Inr None
                     else (case js_String example_Number_toString v of
                             None \<Rightarrow> Inl TypeError_primitive
                           | Some s \<Rightarrow> Inr (Some s))) \<rparr>"

definition example_items :: "example_item list" where
  "example_items =
     [Item ''a1'' (Some ''Launch'') (Some (Finite 3)) JUndefined,
      Item ''b2'' None None JUndefined,
      Item ''c3'' (Some ''A title that is much longer than any cell of a table allows'')
        (Some (Finite 120)) JUndefined]"

definition example_envelope :: "example_item PaginatedResponse" where
  "example_envelope =
     \<lparr> items = example_items, count = 3, totalResults = Some (Finite 120),
       resultsPerPage = Some (Finite 25), hasMore = True, nextPageToken = Some ''ABC'',
       prevPageToken = None \<rparr>"



definition example_empty_envelope :: "example_item PaginatedResponse" where
  "example_empty_envelope =
     \<lparr> items = [], count = 0, totalResults = None, resultsPerPage = None,
       hasMore = False, nextPageToken = None, prevPageToken = None \<rparr>"

definition example_caption :: CaptionInsertInput where
  "example_caption =
     \<lparr> CaptionInsertInput_language = ''en'', CaptionInsertInput_name = ''English'',
       CaptionInsertInput_isDraft = None, CaptionInsertInput_captionData = ''1 Hello'' \<rparr>"

definition example_get_request :: "string \<Rightarrow> string \<Rightarrow> string \<Rightarrow> http_request" where
  "example_get_request endpoint parts ident =
     \<lparr> req_url = ''https://www.googleapis.com/youtube/v3'' @ endpoint,
       req_query = [(''part'', parts), (''id'', ident)],
       req_method = None,
       req_headers = [(''Content-Type'', ''application/json''),
                      (''Authorization'', ''Bearer ya29.token'')],
       req_body = None \<rparr>"



section \<open>Auxiliary facts\<close>

subsection \<open>Unfolding\<close>

lemmas new_defs = new_YouTubeApiError_def new_RateLimitError_def new_AuthenticationError_def
  new_ForbiddenError_def new_NotFoundError_def new_ValidationError_def new_QuotaExceededError_def

lemmas example_defs = example_token_credentials_def example_key_credentials_def
  example_no_credentials_def example_response_def example_platform_def example_reader_def
  example_empty_list_def example_video_def example_video_list_def no_video_updates_def
  no_playlist_updates_def example_playlist_def example_playlist_list_def example_page_def
  example_casts_def example_caption_def example_channel_def example_channel_list_def
  example_comment_def example_thread_def example_thread_list_def

lemmas request_defs = request_def request_prepare_def getAuthParams_def getAuthHeaders_def
  params_of_def headers_of_def get_options_def put_options_def spread_def String_param_def
  truthy_str_def API_BASE_URL_def await_then_def throw_def return_def deref_def

lemmas eval_defs = getVideo_def listVideos_def getChannel_def listChannels_def getPlaylist_def
  getCommentThread_def request_defs example_defs request_respond_def response_ok_def
  toPaginatedResponse_def Let_def


subsection \<open>Strings and object spread\<close>

lemma parse_date: "example_parseInt ''Wed, 21 Oct 2015 07:28:00 GMT'' = NaN"
  by code_simp

lemma those_map_Some [simp]: "those (map Some xs) = Some xs"
  by (induction xs) simp_all

lemma collect_map_Inr [simp]: "collect (map Inr xs) = Inr xs"
  by (induction xs) simp_all

lemma String_includes_mid: "String_includes (p @ t @ s) t"
  by (auto simp: String_includes_def sublist_def)

lemma keys_spread: "fst ` set (spread a b) = fst ` set a \<union> fst ` set b"
  unfolding spread_def
proof (induction b arbitrary: a)
  case Nil
  then show ?case by simp
next
  case (Cons kv b)
  show ?case
    by (simp add: Cons.IH AList.dom_update)
qed

lemma map_of_spread:
  "map_of (spread a b) k = (case map_of (rev b) k of Some v \<Rightarrow> Some v | None \<Rightarrow> map_of a k)"
  unfolding spread_def
proof (induction b arbitrary: a)
  case Nil
  then show ?case by simp
next
  case (Cons kv b)
  show ?case
    by (simp add: Cons.IH AList.update_conv' map_add_def split: option.split)
qed

lemma spread_Nil [simp]: "spread a [] = a"
  by (simp add: spread_def)

lemma spread_head:
  "k \<notin> fst ` set b \<Longrightarrow> spread ((k, v) # a) b = (k, v) # spread a b"
  unfolding spread_def
  by (induction b arbitrary: a) auto

lemma map_of_rev_absent: "k \<notin> fst ` set b \<Longrightarrow> map_of (rev b) k = None"
  by (simp add: map_of_eq_None_iff)

lemma keys_query:
  "fst ` set (map (\<lambda>kv. (fst kv, f (snd kv))) (filter P xs)) \<subseteq> fst ` set xs"
  by force


subsection \<open>Sequencing\<close>

lemma fst_await_then_pure:
  "(\<And>v. fst (f v) = []) \<Longrightarrow> fst (await_then m f) = fst m"
  by (simp add: await_then_def split: sum.split)

lemma snd_await_then:
  "snd m = Inr v \<Longrightarrow> snd (await_then m f) = snd (f v)"
  by (simp add: await_then_def)

lemma fst_await_then_Inr:
  "snd m = Inr v \<Longrightarrow> fst (await_then m f) = fst m @ fst (f v)"
  by (simp add: await_then_def)

lemma snd_await_then_Inr:
  "snd (await_then m f) = Inr x \<Longrightarrow> \<exists>v. snd m = Inr v \<and> snd (f v) = Inr x"
  by (auto simp: await_then_def split: sum.splits)

lemma await_then_failed:
  "snd m = Inl e \<Longrightarrow> await_then m f = (fst m, Inl e)"
  by (simp add: await_then_def)

lemma fst_throw [simp]: "fst (throw e) = []"
  by (simp add: throw_def)

lemma fst_return [simp]: "fst (return v) = []"
  by (simp add: return_def)

lemma snd_throw [simp]: "snd (throw e) = Inl e"
  by (simp add: throw_def)

lemma snd_return [simp]: "snd (return v) = Inr v"
  by (simp add: return_def)


subsection \<open>The request helper\<close>

lemma request_errorMessage_Some:
  "request_errorMessage (Some j) d =
     (if truthy (get_prop (get_prop j ''error'') ''message'')
      then get_prop (get_prop j ''error'') ''message''
      else if truthy (get_prop j ''message'') then get_prop j ''message''
      else JStr d)"
  by (cases j; cases "get_prop j ''error''")
     (auto simp: request_errorMessage_def nullish_def Let_def)

lemma request_errorMessage_None: "request_errorMessage None d = JStr d"
  by (simp add: request_errorMessage_def)

lemma getAuthParams_token:
  "accessToken c = Some t \<Longrightarrow> t \<noteq> [] \<Longrightarrow> getAuthParams c = Inr []"
  by (simp add: getAuthParams_def truthy_str_def)

lemma getAuthParams_key:
  "\<not> truthy_str (accessToken c) \<Longrightarrow> apiKey c = Some k \<Longrightarrow> k \<noteq> [] \<Longrightarrow>
     getAuthParams c = Inr [(''key'', PString k)]"
  by (simp add: getAuthParams_def)

lemma getAuthParams_none:
  "\<not> truthy_str (accessToken c) \<Longrightarrow> \<not> truthy_str (apiKey c) \<Longrightarrow>
     getAuthParams c = Inl (Thrown_Api (new_AuthenticationError
       ''No credentials provided. Include X-YouTube-Access-Token or X-YouTube-API-Key header.''))"
  by (simp add: getAuthParams_def truthy_str_def split: option.splits)

lemma getAuthParams_cases:
  "getAuthParams c = Inr auth \<Longrightarrow> auth = [] \<or> (\<exists>k. auth = [(''key'', PString k)])"
  by (auto simp: getAuthParams_def split: if_splits option.splits)

lemma request_prepare_Inr:
  "getAuthParams c = Inr auth \<Longrightarrow>
   request_prepare pf c endpoint options =
     Inr \<lparr> req_url = API_BASE_URL @ endpoint,
           req_query = map (\<lambda>kv. (fst kv, String_param (Number_toString pf) (snd kv)))
                         (filter (\<lambda>kv. snd kv \<noteq> PUndefined) (spread auth (params_of options))),
           req_method = opt_method options,
           req_headers = spread (getAuthHeaders c) (headers_of options),
           req_body = opt_body options \<rparr>"
  by (simp add: request_prepare_def Let_def)

lemma request_prepare_fields:
  "request_prepare pf c ep opts = Inr req \<Longrightarrow>
     req_url req = API_BASE_URL @ ep \<and> req_method req = opt_method opts
     \<and> req_body req = opt_body opts
     \<and> (\<exists>auth. getAuthParams c = Inr auth
          \<and> req_query req = map (\<lambda>kv. (fst kv, String_param (Number_toString pf) (snd kv)))
              (filter (\<lambda>kv. snd kv \<noteq> PUndefined) (spread auth (params_of opts))))"
  by (auto simp: request_prepare_def Let_def split: sum.splits)

lemma request_prepare_id:
  assumes "request_prepare pf c ep (get_options [(''part'', PString p), (''id'', PString i)]) = Inr req"
  shows "map_of (req_query req) ''id'' = Some i \<and> req_method req = None
         \<and> req_url req = API_BASE_URL @ ep"
proof -
  from request_prepare_fields [OF assms] obtain auth where
    a: "getAuthParams c = Inr auth" and
    q: "req_query req = map (\<lambda>kv. (fst kv, String_param (Number_toString pf) (snd kv)))
              (filter (\<lambda>kv. snd kv \<noteq> PUndefined)
                 (spread auth (params_of (get_options [(''part'', PString p), (''id'', PString i)]))))"
    and m: "req_method req = opt_method (get_options [(''part'', PString p), (''id'', PString i)])"
    and u: "req_url req = API_BASE_URL @ ep"
    by blast
  from getAuthParams_cases [OF a] have "map_of (req_query req) ''id'' = Some i"
    unfolding q by (auto simp: spread_def params_of_def get_options_def String_param_def)
  then show ?thesis
    using m u by (simp add: get_options_def)
qed

lemma request_prepare_again:
  "request_prepare pf c ep opts = Inr req \<Longrightarrow>
     \<exists>req'. request_prepare pf c ep' opts' = Inr req'"
  by (auto simp: request_prepare_def Let_def split: sum.splits)

lemma request_log:
  "request_prepare pf c endpoint options = Inr req \<Longrightarrow>
     fst (request pf c rd endpoint options) = [req]"
  by (simp add: request_def split: sum.split)

lemma request_answered:
  "fst (request pf c rd ep opts) = [req] \<Longrightarrow> fetch pf req = Inr response \<Longrightarrow>
     snd (request pf c rd ep opts) = request_respond pf rd response"
  by (auto simp: request_def split: sum.splits)

lemma request_respond_ok:
  "response_ok response \<Longrightarrow> status response \<noteq> 204 \<Longrightarrow> rd response = Inr r \<Longrightarrow>
     request_respond pf rd response = Inr (Some r)"
  by (auto simp: request_respond_def response_ok_def)

lemma request_success_log:
  "snd (request pf c rd ep opts) = Inr v \<Longrightarrow>
     \<exists>req. request_prepare pf c ep opts = Inr req \<and> fst (request pf c rd ep opts) = [req]"
  by (auto simp: request_def split: sum.splits)

lemma request_auth_token:
  assumes "accessToken c = Some t" "t \<noteq> []"
  shows "\<exists>req. request_prepare pf c endpoint options = Inr req
         \<and> fst (request pf c rd endpoint options) = [req]
         \<and> (''Authorization'' \<notin> fst ` set (headers_of options) \<longrightarrow>
              map_of (req_headers req) ''Authorization'' = Some (''Bearer '' @ t))
         \<and> fst ` set (req_query req) \<subseteq> fst ` set (params_of options)"
proof -
  note prep = request_prepare_Inr [OF getAuthParams_token [OF assms], of pf endpoint options]
  have hdrs: "getAuthHeaders c =
      [(''Content-Type'', ''application/json''), (''Authorization'', ''Bearer '' @ t)]"
    using assms by (simp add: getAuthHeaders_def)
  have "''Authorization'' \<notin> fst ` set (headers_of options) \<Longrightarrow>
      map_of (spread (getAuthHeaders c) (headers_of options)) ''Authorization''
        = Some (''Bearer '' @ t)"
    by (simp add: map_of_spread map_of_rev_absent hdrs)
  moreover have "fst ` set (map (\<lambda>kv. (fst kv, String_param (Number_toString pf) (snd kv)))
        (filter (\<lambda>kv. snd kv \<noteq> PUndefined) (spread [] (params_of options))))
      \<subseteq> fst ` set (params_of options)"
    using keys_query [of "String_param (Number_toString pf)" _ "spread [] (params_of options)"]
    by (simp add: keys_spread)
  ultimately show ?thesis
    using request_log [OF prep, of rd] by (simp add: prep)
qed

lemma request_auth_key:
  assumes "\<not> truthy_str (accessToken c)" "apiKey c = Some k" "k \<noteq> []"
  shows "\<exists>req. request_prepare pf c endpoint options = Inr req
         \<and> fst (request pf c rd endpoint options) = [req]
         \<and> (''key'' \<notin> fst ` set (params_of options) \<longrightarrow>
              map_of (req_query req) ''key'' = Some k)
         \<and> (''Authorization'' \<notin> fst ` set (headers_of options) \<longrightarrow>
              ''Authorization'' \<notin> fst ` set (req_headers req))"
proof -
  note prep = request_prepare_Inr [OF getAuthParams_key [OF assms], of pf endpoint options]
  have hdrs: "getAuthHeaders c = [(''Content-Type'', ''application/json'')]"
    using assms(1) by (simp add: getAuthHeaders_def truthy_str_def split: option.splits)
  have "''Authorization'' \<notin> fst ` set (headers_of options) \<Longrightarrow>
      ''Authorization'' \<notin> fst ` set (spread (getAuthHeaders c) (headers_of options))"
    by (simp add: keys_spread hdrs)
  moreover have "''key'' \<notin> fst ` set (params_of options) \<Longrightarrow>
      map_of (map (\<lambda>kv. (fst kv, String_param (Number_toString pf) (snd kv)))
        (filter (\<lambda>kv. snd kv \<noteq> PUndefined)
           (spread [(''key'', PString k)] (params_of options)))) ''key'' = Some k"
    by (simp add: spread_head String_param_def)
  ultimately show ?thesis
    using request_log [OF prep, of rd] by (simp add: prep)
qed

lemma request_auth_none:
  assumes "\<not> truthy_str (accessToken c)" "\<not> truthy_str (apiKey c)"
  shows "\<exists>e. request pf c rd endpoint options = ([], Inl (Thrown_Api e))
         \<and> cls e = Class_AuthenticationError \<and> statusCode e = Some 401"
  by (simp add: request_def request_prepare_def getAuthParams_none [OF assms] new_defs)


text \<open>
  The status mapping, case by case. The generic error is raised when the message
  converts to a string; the conversion throws otherwise.
\<close>

lemma request_respond_cases:
  "(status response = 429 \<longrightarrow>
      request_respond pf rd response =
        Inl (Thrown_Api (new_RateLimitError ''Rate limit exceeded''
          (case retry_after response of
             None \<Rightarrow> Finite 60
           | Some h \<Rightarrow> if h = [] then Finite 60 else Number_parseInt pf h))))
   \<and> (status response = 401 \<longrightarrow>
      request_respond pf rd response =
        Inl (Thrown_Api (new_AuthenticationError
          ''Authentication failed. Check your OAuth token or API key.'')))
   \<and> (status response = 403 \<longrightarrow>
      request_respond pf rd response =
        (if String_includes (body_text response) ''quotaExceeded''
         then Inl (Thrown_Api (new_QuotaExceededError ''YouTube API quota exceeded.''))
         else Inl (Thrown_Api (new_ForbiddenError
           ''Access forbidden. You may lack required permissions.''))))
   \<and> (status response = 404 \<longrightarrow>
      request_respond pf rd response =
        Inl (Thrown_Api (new_NotFoundError ''Resource'' ''unknown'')))
   \<and> (status response \<notin> {429, 401, 403, 404} \<and> \<not> response_ok response \<longrightarrow>
      request_respond pf rd response =
        (case js_String (Number_toString pf)
                (request_errorMessage (JSON_parse pf (body_text response))
                   (''API error: '' @ Number_toString pf (Finite (of_int (status response))))) of
           None \<Rightarrow> Inl TypeError_primitive
         | Some m \<Rightarrow> Inl (Thrown_Api (new_YouTubeApiError m (Some (status response)) None None))))
   \<and> (status response = 204 \<longrightarrow> request_respond pf rd response = Inr None)
   \<and> (response_ok response \<and> status response \<noteq> 204 \<longrightarrow>
        request_respond pf rd response = map_sum id Some (rd response))
   \<and> (\<forall>e. request_respond pf rd response = Inl (Thrown_Api e) \<and> \<not> response_ok response \<longrightarrow>
        (statusCode e, retryable e) = spec_taxonomy (cls e) (status response)
        \<and> (retryable e \<longleftrightarrow> cls e = Class_RateLimitError))"
proof -
  let ?generic = "case js_String (Number_toString pf)
                (request_errorMessage (JSON_parse pf (body_text response))
                   (''API error: '' @ Number_toString pf (Finite (of_int (status response))))) of
           None \<Rightarrow> Inl TypeError_primitive
         | Some m \<Rightarrow> Inl (Thrown_Api (new_YouTubeApiError m (Some (status response)) None None))"
  have c429: "status response = 429 \<Longrightarrow>
      request_respond pf rd response =
        Inl (Thrown_Api (new_RateLimitError ''Rate limit exceeded''
          (case retry_after response of
             None \<Rightarrow> Finite 60
           | Some h \<Rightarrow> if h = [] then Finite 60 else Number_parseInt pf h)))"
    by (simp add: request_respond_def split: option.split)
  have c401: "status response = 401 \<Longrightarrow>
      request_respond pf rd response =
        Inl (Thrown_Api (new_AuthenticationError
          ''Authentication failed. Check your OAuth token or API key.''))"
    by (simp add: request_respond_def)
  have c403: "status response = 403 \<Longrightarrow>
      request_respond pf rd response =
        (if String_includes (body_text response) ''quotaExceeded''
         then Inl (Thrown_Api (new_QuotaExceededError ''YouTube API quota exceeded.''))
         else Inl (Thrown_Api (new_ForbiddenError
           ''Access forbidden. You may lack required permissions.'')))"
    by (simp add: request_respond_def)
  have c404: "status response = 404 \<Longrightarrow>
      request_respond pf rd response =
        Inl (Thrown_Api (new_NotFoundError ''Resource'' ''unknown''))"
    by (simp add: request_respond_def)
  have cother: "status response \<notin> {429, 401, 403, 404} \<Longrightarrow> \<not> response_ok response \<Longrightarrow>
      request_respond pf rd response = ?generic"
    by (simp add: request_respond_def String_or_throw_def split: option.split)
  have c204: "status response = 204 \<Longrightarrow> request_respond pf rd response = Inr None"
    by (simp add: request_respond_def response_ok_def)
  have cok: "response_ok response \<Longrightarrow> status response \<noteq> 204 \<Longrightarrow>
      request_respond pf rd response = map_sum id Some (rd response)"
    by (cases "rd response") (auto simp: request_respond_def response_ok_def)
  have tax: "(statusCode e, retryable e) = spec_taxonomy (cls e) (status response)
        \<and> (retryable e \<longleftrightarrow> cls e = Class_RateLimitError)"
    if r: "request_respond pf rd response = Inl (Thrown_Api e)" and n: "\<not> response_ok response"
    for e
  proof -
    consider "status response = 429" | "status response = 401" | "status response = 403"
      | "status response = 404" | "status response \<notin> {429, 401, 403, 404}"
      by blast
    then show ?thesis
    proof cases
      case 1
      with r c429 have "e = new_RateLimitError ''Rate limit exceeded''
          (case retry_after response of
             None \<Rightarrow> Finite 60
           | Some h \<Rightarrow> if h = [] then Finite 60 else Number_parseInt pf h)"
        by simp
      then show ?thesis
        using 1 by (simp add: new_defs spec_taxonomy_def)
    next
      case 2
      with r c401 have "e = new_AuthenticationError
          ''Authentication failed. Check your OAuth token or API key.''"
        by simp
      then show ?thesis
        using 2 by (simp add: new_defs spec_taxonomy_def)
    next
      case 3
      with r c403 have "e = new_QuotaExceededError ''YouTube API quota exceeded.''
          \<or> e = new_ForbiddenError ''Access forbidden. You may lack required permissions.''"
        by (simp split: if_splits)
      then show ?thesis
        using 3 by (auto simp: new_defs spec_taxonomy_def)
    next
      case 4
      with r c404 have "e = new_NotFoundError ''Resource'' ''unknown''"
        by simp
      then show ?thesis
        using 4 by (simp add: new_defs spec_taxonomy_def)
    next
      case 5
      with r cother n obtain m where
        "e = new_YouTubeApiError m (Some (status response)) None None"
        by (auto simp: TypeError_primitive_def split: option.splits)
      then show ?thesis
        by (simp add: new_defs spec_taxonomy_def)
    qed
  qed
  show ?thesis
    using c429 c401 c403 c404 cother c204 cok tax by blast
qed

text \<open>
  The message of the generic error: the \<^verbatim>\<open>error.message\<close> of the body, else its
  \<^verbatim>\<open>message\<close>, else the default text with the status.
\<close>

lemma request_respond_examples:
  "request_respond (example_platform (example_response 200 None ''{}'')) (example_reader ())
      (example_response 500 None example_error_body)
     = Inl (Thrown_Api (new_YouTubeApiError ''Backend Error'' (Some 500) None None))
   \<and> request_respond (example_platform (example_response 200 None ''{}'')) (example_reader ())
      (example_response 502 None example_message_body)
     = Inl (Thrown_Api (new_YouTubeApiError ''Bad Gateway'' (Some 502) None None))
   \<and> request_respond (example_platform (example_response 200 None ''{}'')) (example_reader ())
      (example_response 500 None ''Internal Server Error'')
     = Inl (Thrown_Api (new_YouTubeApiError ''API error: 500'' (Some 500) None None))
   \<and> request_respond (example_platform (example_response 200 None ''{}'')) (example_reader ())
      (example_response 503 None ''{}'')
     = Inl (Thrown_Api (new_YouTubeApiError ''API error: 503'' (Some 503) None None))
   \<and> request_respond (example_platform (example_response 200 None ''{}'')) (example_reader ())
      (example_response 429 (Some ''120'') [])
     = Inl (Thrown_Api (new_RateLimitError ''Rate limit exceeded'' (Finite 120)))
   \<and> request_respond (example_platform (example_response 200 None ''{}'')) (example_reader ())
      (example_response 429 None [])
     = Inl (Thrown_Api (new_RateLimitError ''Rate limit exceeded'' (Finite 60)))"
proof -
  have n: "example_Number_toString (Finite 500) = ''500''"
    "example_Number_toString (Finite 503) = ''503''"
    "example_parseInt ''120'' = Finite 120"
    by code_simp+
  show ?thesis
    by (simp add: request_respond_def String_or_throw_def request_errorMessage_Some
        request_errorMessage_None response_ok_def example_response_def example_platform_def
        example_error_body_def example_message_body_def example_toString_body_def n)
qed

subsection \<open>Reading one resource\<close>

lemma fst_listVideos:
  "fst (listVideos pf c rd ids parts) =
     fst (request pf c rd ''/videos''
       (get_options
          [(''part'', PString (join '',''
              (case parts of None \<Rightarrow> [''snippet'', ''contentDetails'', ''statistics'']
               | Some ps \<Rightarrow> ps))),
           (''id'', PString (join '','' ids))]))"
  unfolding listVideos_def
  by (rule fst_await_then_pure) (simp split: sum.split)

lemma fst_listChannels:
  "fst (listChannels pf c rd ids parts) =
     fst (request pf c rd ''/channels''
       (get_options
          [(''part'', PString (join '',''
              (case parts of None \<Rightarrow> [''snippet'', ''contentDetails'', ''statistics'']
               | Some ps \<Rightarrow> ps))),
           (''id'', PString (join '','' ids))]))"
  unfolding listChannels_def
  by (rule fst_await_then_pure) (simp split: sum.split)

lemma getVideo_answered:
  assumes "fst (getVideo pf c rd videoId parts) = [req]" "fetch pf req = Inr response"
    "response_ok response" "status response \<noteq> 204" "rd response = Inr r"
  shows "snd (getVideo pf c rd videoId parts) =
     (case lr_items r of
        Some (x # xs) \<Rightarrow> Inr x
      | _ \<Rightarrow> Inl (Thrown_Api (new_NotFoundError ''Video'' videoId)))"
proof -
  let ?ps = "Some (case parts of
                   None \<Rightarrow> [''snippet'', ''contentDetails'', ''statistics'', ''status'']
                 | Some ps \<Rightarrow> ps)"
  have "fst (getVideo pf c rd videoId parts) = fst (listVideos pf c rd [videoId] ?ps)"
    unfolding getVideo_def by (rule fst_await_then_pure) (simp split: list.split)
  then have log: "fst (request pf c rd ''/videos''
       (get_options [(''part'', PString (join '','' (case ?ps of None \<Rightarrow> [''snippet'', ''contentDetails'', ''statistics'']
               | Some ps \<Rightarrow> ps))), (''id'', PString (join '','' [videoId]))])) = [req]"
    using assms(1) by (simp only: fst_listVideos)
  have "snd (request pf c rd ''/videos''
       (get_options [(''part'', PString (join '','' (case ?ps of None \<Rightarrow> [''snippet'', ''contentDetails'', ''statistics'']
               | Some ps \<Rightarrow> ps))), (''id'', PString (join '','' [videoId]))])) = Inr (Some r)"
    using request_answered [OF log assms(2)] request_respond_ok [of response rd r pf] assms(3,4,5)
    by simp
  then have "snd (listVideos pf c rd [videoId] ?ps) = Inr (toPaginatedResponse r)"
    unfolding listVideos_def by (simp add: snd_await_then deref_def)
  then show ?thesis
    unfolding getVideo_def
    by (simp add: snd_await_then toPaginatedResponse_def split: option.split list.split)
qed

lemma getChannel_answered:
  assumes "fst (getChannel pf c rd channelId parts) = [req]" "fetch pf req = Inr response"
    "response_ok response" "status response \<noteq> 204" "rd response = Inr r"
  shows "snd (getChannel pf c rd channelId parts) =
     (case lr_items r of
        Some (x # xs) \<Rightarrow> Inr x
      | _ \<Rightarrow> Inl (Thrown_Api (new_NotFoundError ''Channel'' channelId)))"
proof -
  let ?ps = "Some (case parts of
                   None \<Rightarrow> [''snippet'', ''contentDetails'', ''statistics'']
                 | Some ps \<Rightarrow> ps)"
  have "fst (getChannel pf c rd channelId parts) = fst (listChannels pf c rd [channelId] ?ps)"
    unfolding getChannel_def by (rule fst_await_then_pure) (simp split: list.split)
  then have log: "fst (request pf c rd ''/channels''
       (get_options [(''part'', PString (join '','' (case ?ps of None \<Rightarrow> [''snippet'', ''contentDetails'', ''statistics'']
               | Some ps \<Rightarrow> ps))), (''id'', PString (join '','' [channelId]))])) = [req]"
    using assms(1) by (simp only: fst_listChannels)
  have "snd (request pf c rd ''/channels''
       (get_options [(''part'', PString (join '','' (case ?ps of None \<Rightarrow> [''snippet'', ''contentDetails'', ''statistics'']
               | Some ps \<Rightarrow> ps))), (''id'', PString (join '','' [channelId]))])) = Inr (Some r)"
    using request_answered [OF log assms(2)] request_respond_ok [of response rd r pf] assms(3,4,5)
    by simp
  then have "snd (listChannels pf c rd [channelId] ?ps) = Inr (toPaginatedResponse r)"
    unfolding listChannels_def by (simp add: snd_await_then deref_def)
  then show ?thesis
    unfolding getChannel_def
    by (simp add: snd_await_then toPaginatedResponse_def split: option.split list.split)
qed

lemma getPlaylist_answered:
  assumes "fst (getPlaylist pf c rd playlistId parts) = [req]" "fetch pf req = Inr response"
    "response_ok response" "status response \<noteq> 204" "rd response = Inr r"
  shows "snd (getPlaylist pf c rd playlistId parts) =
     (case lr_items r of
        Some (x # xs) \<Rightarrow> Inr x
      | _ \<Rightarrow> Inl (Thrown_Api (new_NotFoundError ''Playlist'' playlistId)))"
proof -
  let ?rq = "request pf c rd ''/playlists''
          (get_options
             [(''part'', PString (join '',''
                 (case parts of None \<Rightarrow> [''snippet'', ''contentDetails'', ''status'']
                  | Some ps \<Rightarrow> ps))),
              (''id'', PString playlistId)])"
  have "fst (getPlaylist pf c rd playlistId parts) = fst ?rq"
    unfolding getPlaylist_def
    by (rule fst_await_then_pure) (simp split: sum.split option.split list.split)
  then have log: "fst ?rq = [req]"
    using assms(1) by simp
  have "snd ?rq = Inr (Some r)"
    using request_answered [OF log assms(2)] request_respond_ok [of response rd r pf] assms(3,4,5)
    by simp
  then show ?thesis
    unfolding getPlaylist_def
    by (simp add: snd_await_then deref_def split: option.split list.split)
qed

lemma getCommentThread_answered:
  assumes "fst (getCommentThread pf c rd threadId parts) = [req]" "fetch pf req = Inr response"
    "response_ok response" "status response \<noteq> 204" "rd response = Inr r"
  shows "snd (getCommentThread pf c rd threadId parts) =
     (case lr_items r of
        Some (x # xs) \<Rightarrow> Inr x
      | _ \<Rightarrow> Inl (Thrown_Api (new_NotFoundError ''CommentThread'' threadId)))"
proof -
  let ?rq = "request pf c rd ''/commentThreads''
          (get_options
             [(''part'', PString (join '',''
                 (case parts of None \<Rightarrow> [''snippet'', ''replies''] | Some ps \<Rightarrow> ps))),
              (''id'', PString threadId)])"
  have "fst (getCommentThread pf c rd threadId parts) = fst ?rq"
    unfolding getCommentThread_def
    by (rule fst_await_then_pure) (simp split: sum.split option.split list.split)
  then have log: "fst ?rq = [req]"
    using assms(1) by simp
  have "snd ?rq = Inr (Some r)"
    using request_answered [OF log assms(2)] request_respond_ok [of response rd r pf] assms(3,4,5)
    by simp
  then show ?thesis
    unfolding getCommentThread_def
    by (simp add: snd_await_then deref_def split: option.split list.split)
qed

lemma getVideo_outcome:
  assumes "request_prepare pf c ''/videos''
             (get_options
                [(''part'', PString (join '',''
                    (case parts of
                       None \<Rightarrow> [''snippet'', ''contentDetails'', ''statistics'', ''status'']
                     | Some ps \<Rightarrow> ps))),
                 (''id'', PString videoId)]) = Inr req"
    "fetch pf req = Inr response"
    "response_ok response" "status response \<noteq> 204" "rd response = Inr r"
  shows "getVideo pf c rd videoId parts =
     ([req], case lr_items r of
               Some (x # xs) \<Rightarrow> Inr x
             | _ \<Rightarrow> Inl (Thrown_Api (new_NotFoundError ''Video'' videoId)))"
proof -
  let ?ps = "Some (case parts of
                   None \<Rightarrow> [''snippet'', ''contentDetails'', ''statistics'', ''status'']
                 | Some ps \<Rightarrow> ps)"
  have "fst (getVideo pf c rd videoId parts) = fst (listVideos pf c rd [videoId] ?ps)"
    unfolding getVideo_def by (rule fst_await_then_pure) (simp split: list.split)
  then have log: "fst (getVideo pf c rd videoId parts) = [req]"
    using request_log [OF assms(1), of rd] by (simp add: fst_listVideos)
  show ?thesis
    using log getVideo_answered [OF log assms(2-5)] by (simp add: prod_eq_iff)
qed

lemma getChannel_outcome:
  assumes "request_prepare pf c ''/channels''
             (get_options
                [(''part'', PString (join '',''
                    (case parts of
                       None \<Rightarrow> [''snippet'', ''contentDetails'', ''statistics'']
                     | Some ps \<Rightarrow> ps))),
                 (''id'', PString channelId)]) = Inr req"
    "fetch pf req = Inr response"
    "response_ok response" "status response \<noteq> 204" "rd response = Inr r"
  shows "getChannel pf c rd channelId parts =
     ([req], case lr_items r of
               Some (x # xs) \<Rightarrow> Inr x
             | _ \<Rightarrow> Inl (Thrown_Api (new_NotFoundError ''Channel'' channelId)))"
proof -
  let ?ps = "Some (case parts of
                   None \<Rightarrow> [''snippet'', ''contentDetails'', ''statistics'']
                 | Some ps \<Rightarrow> ps)"
  have "fst (getChannel pf c rd channelId parts) = fst (listChannels pf c rd [channelId] ?ps)"
    unfolding getChannel_def by (rule fst_await_then_pure) (simp split: list.split)
  then have log: "fst (getChannel pf c rd channelId parts) = [req]"
    using request_log [OF assms(1), of rd] by (simp add: fst_listChannels)
  show ?thesis
    using log getChannel_answered [OF log assms(2-5)] by (simp add: prod_eq_iff)
qed

lemma getPlaylist_outcome:
  assumes "request_prepare pf c ''/playlists''
             (get_options
                [(''part'', PString (join '',''
                    (case parts of
                       None \<Rightarrow> [''snippet'', ''contentDetails'', ''status'']
                     | Some ps \<Rightarrow> ps))),
                 (''id'', PString playlistId)]) = Inr req"
    "fetch pf req = Inr response"
    "response_ok response" "status response \<noteq> 204" "rd response = Inr r"
  shows "getPlaylist pf c rd playlistId parts =
     ([req], case lr_items r of
               Some (x # xs) \<Rightarrow> Inr x
             | _ \<Rightarrow> Inl (Thrown_Api (new_NotFoundError ''Playlist'' playlistId)))"
proof -
  have "fst (getPlaylist pf c rd playlistId parts) =
      fst (request pf c rd ''/playlists''
          (get_options
             [(''part'', PString (join '',''
                 (case parts of None \<Rightarrow> [''snippet'', ''contentDetails'', ''status'']
                  | Some ps \<Rightarrow> ps))),
              (''id'', PString playlistId)]))"
    unfolding getPlaylist_def
    by (rule fst_await_then_pure) (simp split: sum.split option.split list.split)
  then have log: "fst (getPlaylist pf c rd playlistId parts) = [req]"
    using request_log [OF assms(1), of rd] by simp
  show ?thesis
    using log getPlaylist_answered [OF log assms(2-5)] by (simp add: prod_eq_iff)
qed

lemma getCommentThread_outcome:
  assumes "request_prepare pf c ''/commentThreads''
             (get_options
                [(''part'', PString (join '',''
                    (case parts of None \<Rightarrow> [''snippet'', ''replies''] | Some ps \<Rightarrow> ps))),
                 (''id'', PString threadId)]) = Inr req"
    "fetch pf req = Inr response"
    "response_ok response" "status response \<noteq> 204" "rd response = Inr r"
  shows "getCommentThread pf c rd threadId parts =
     ([req], case lr_items r of
               Some (x # xs) \<Rightarrow> Inr x
             | _ \<Rightarrow> Inl (Thrown_Api (new_NotFoundError ''CommentThread'' threadId)))"
proof -
  have "fst (getCommentThread pf c rd threadId parts) =
      fst (request pf c rd ''/commentThreads''
          (get_options
             [(''part'', PString (join '',''
                 (case parts of None \<Rightarrow> [''snippet'', ''replies''] | Some ps \<Rightarrow> ps))),
              (''id'', PString threadId)]))"
    unfolding getCommentThread_def
    by (rule fst_await_then_pure) (simp split: sum.split option.split list.split)
  then have log: "fst (getCommentThread pf c rd threadId parts) = [req]"
    using request_log [OF assms(1), of rd] by simp
  show ?thesis
    using log getCommentThread_answered [OF log assms(2-5)] by (simp add: prod_eq_iff)
qed

lemma NotFoundError_names:
  "cls (new_NotFoundError entityType ident) = Class_NotFoundError
   \<and> statusCode (new_NotFoundError entityType ident) = Some 404
   \<and> message (new_NotFoundError entityType ident)
       = entityType @ '' with ID '' @ [CHR 0x27] @ ident @ [CHR 0x27] @ '' not found''
   \<and> String_includes (message (new_NotFoundError entityType ident)) entityType
   \<and> String_includes (message (new_NotFoundError entityType ident)) ident"
proof -
  have m: "message (new_NotFoundError entityType ident)
      = entityType @ '' with ID '' @ [CHR 39] @ ident @ [CHR 39] @ '' not found''"
    by (simp add: new_NotFoundError_def new_YouTubeApiError_def)
  have a: "String_includes (message (new_NotFoundError entityType ident)) entityType"
    unfolding m using String_includes_mid [of "[]" entityType] by simp
  have b: "String_includes (message (new_NotFoundError entityType ident)) ident"
    unfolding m
    using String_includes_mid [of "entityType @ '' with ID '' @ [CHR 39]" ident "[CHR 39] @ '' not found''"]
    by simp
  show ?thesis
    using a b by (simp add: new_NotFoundError_def new_YouTubeApiError_def)
qed

lemma getVideo_success:
  assumes "snd (getVideo pf c rd videoId (Some ps)) = Inr current"
  shows "\<exists>get. fst (getVideo pf c rd videoId (Some ps)) = [get]
           \<and> request_prepare pf c ''/videos''
               (get_options [(''part'', PString (join '','' ps)), (''id'', PString videoId)])
               = Inr get"
proof -
  let ?rq = "request pf c rd ''/videos''
       (get_options [(''part'', PString (join '','' ps)), (''id'', PString videoId)])"
  have f: "fst (getVideo pf c rd videoId (Some ps)) = fst ?rq"
  proof -
    have "fst (getVideo pf c rd videoId (Some ps)) = fst (listVideos pf c rd [videoId] (Some ps))"
      unfolding getVideo_def by (simp, rule fst_await_then_pure) (simp split: list.split)
    then show ?thesis by (simp add: fst_listVideos)
  qed
  from assms obtain page where "snd (listVideos pf c rd [videoId] (Some ps)) = Inr page"
    unfolding getVideo_def using snd_await_then_Inr by fastforce
  then obtain v where "snd ?rq = Inr v"
    unfolding listVideos_def using snd_await_then_Inr by fastforce
  from request_success_log [OF this] show ?thesis
    using f by auto
qed

lemma getPlaylist_success:
  assumes "snd (getPlaylist pf c rd playlistId (Some ps)) = Inr current"
  shows "\<exists>get. fst (getPlaylist pf c rd playlistId (Some ps)) = [get]
           \<and> request_prepare pf c ''/playlists''
               (get_options [(''part'', PString (join '','' ps)), (''id'', PString playlistId)])
               = Inr get"
proof -
  let ?rq = "request pf c rd ''/playlists''
       (get_options [(''part'', PString (join '','' ps)), (''id'', PString playlistId)])"
  have f: "fst (getPlaylist pf c rd playlistId (Some ps)) = fst ?rq"
    unfolding getPlaylist_def
    by (simp, rule fst_await_then_pure) (simp split: sum.split option.split list.split)
  from assms obtain v where "snd ?rq = Inr v"
    unfolding getPlaylist_def using snd_await_then_Inr by fastforce
  from request_success_log [OF this] show ?thesis
    using f by auto
qed


subsection \<open>Updating a resource\<close>

lemma updateVideo_requests:
  assumes "snd (getVideo pf c rdl videoId (Some [''snippet'', ''status''])) = Inr current"
  shows "\<exists>get put.
           fst (getVideo pf c rdl videoId (Some [''snippet'', ''status''])) = [get]
         \<and> fst (updateVideo pf c rdl rd videoId updates) = [get, put]
         \<and> req_method get = None \<and> req_url get = API_BASE_URL @ ''/videos''
         \<and> map_of (req_query get) ''id'' = Some videoId
         \<and> req_method put = Some ''PUT'' \<and> req_url put = API_BASE_URL @ ''/videos''
         \<and> req_body put =
             Some (Body (JSON_stringify (updateVideo_body videoId updates current) None))"
proof -
  from getVideo_success [OF assms] obtain get where
    g: "fst (getVideo pf c rdl videoId (Some [''snippet'', ''status''])) = [get]" and
    p: "request_prepare pf c ''/videos''
          (get_options [(''part'', PString (join '','' [''snippet'', ''status''])),
                        (''id'', PString videoId)]) = Inr get"
    by blast
  let ?opts = "put_options [(''part'', PString ''snippet,status'')]
                 (updateVideo_body videoId updates current)"
  from request_prepare_again [OF p] obtain put where
    pp: "request_prepare pf c ''/videos'' ?opts = Inr put"
    by blast
  have l: "fst (updateVideo pf c rdl rd videoId updates) = [get, put]"
    unfolding updateVideo_def
    by (simp add: fst_await_then_Inr [OF assms] g request_log [OF pp])
  show ?thesis
    using g l request_prepare_id [OF p] request_prepare_fields [OF pp]
    by (simp add: put_options_def)
qed

lemma updatePlaylist_requests:
  assumes "snd (getPlaylist pf c rdl playlistId (Some [''snippet'', ''status''])) = Inr current"
  shows "\<exists>get put.
           fst (getPlaylist pf c rdl playlistId (Some [''snippet'', ''status''])) = [get]
         \<and> fst (updatePlaylist pf c rdl rd playlistId updates) = [get, put]
         \<and> req_method get = None \<and> req_url get = API_BASE_URL @ ''/playlists''
         \<and> map_of (req_query get) ''id'' = Some playlistId
         \<and> req_method put = Some ''PUT'' \<and> req_url put = API_BASE_URL @ ''/playlists''
         \<and> req_body put =
             Some (Body (JSON_stringify (updatePlaylist_body playlistId updates current) None))"
proof -
  from getPlaylist_success [OF assms] obtain get where
    g: "fst (getPlaylist pf c rdl playlistId (Some [''snippet'', ''status''])) = [get]" and
    p: "request_prepare pf c ''/playlists''
          (get_options [(''part'', PString (join '','' [''snippet'', ''status''])),
                        (''id'', PString playlistId)]) = Inr get"
    by blast
  let ?opts = "put_options [(''part'', PString ''snippet,status'')]
                 (updatePlaylist_body playlistId updates current)"
  from request_prepare_again [OF p] obtain put where
    pp: "request_prepare pf c ''/playlists'' ?opts = Inr put"
    by blast
  have l: "fst (updatePlaylist pf c rdl rd playlistId updates) = [get, put]"
    unfolding updatePlaylist_def
    by (simp add: fst_await_then_Inr [OF assms] g request_log [OF pp])
  show ?thesis
    using g l request_prepare_id [OF p] request_prepare_fields [OF pp]
    by (simp add: put_options_def)
qed

lemma updateVideo_body_snippet:
  "get_prop (updateVideo_body videoId updates current) ''snippet'' =
     JObj
       [(''title'', opt_str (case VideoUpdateInput_title updates of
            Some v \<Rightarrow> Some v | None \<Rightarrow> map_option VideoSnippet_title (Video_snippet current))),
        (''description'', opt_str (case VideoUpdateInput_description updates of
            Some v \<Rightarrow> Some v
          | None \<Rightarrow> map_option VideoSnippet_description (Video_snippet current))),
        (''tags'', opt_strs (case VideoUpdateInput_tags updates of
            Some v \<Rightarrow> Some v | None \<Rightarrow> Option.bind (Video_snippet current) VideoSnippet_tags)),
        (''categoryId'', opt_str (case VideoUpdateInput_categoryId updates of
            Some v \<Rightarrow> Some v
          | None \<Rightarrow> map_option VideoSnippet_categoryId (Video_snippet current))),
        (''defaultLanguage'', opt_str (case VideoUpdateInput_defaultLanguage updates of
            Some v \<Rightarrow> Some v
          | None \<Rightarrow> Option.bind (Video_snippet current) VideoSnippet_defaultLanguage))]"
  by (simp add: updateVideo_body_def coalesce_def)

lemma updateVideo_body_status:
  "get_prop (updateVideo_body videoId updates current) ''status'' =
     (if truthy_str (VideoUpdateInput_privacyStatus updates)
         \<or> VideoUpdateInput_embeddable updates \<noteq> None
         \<or> VideoUpdateInput_publicStatsViewable updates \<noteq> None
         \<or> VideoUpdateInput_madeForKids updates \<noteq> None
      then JObj
        [(''privacyStatus'', opt_str (case VideoUpdateInput_privacyStatus updates of
             Some v \<Rightarrow> Some v
           | None \<Rightarrow> map_option VideoStatus_privacyStatus (Video_status current))),
         (''embeddable'', opt_bool (case VideoUpdateInput_embeddable updates of
             Some v \<Rightarrow> Some v
           | None \<Rightarrow> map_option VideoStatus_embeddable (Video_status current))),
         (''publicStatsViewable'', opt_bool (case VideoUpdateInput_publicStatsViewable updates of
             Some v \<Rightarrow> Some v
           | None \<Rightarrow> map_option VideoStatus_publicStatsViewable (Video_status current))),
         (''madeForKids'', opt_bool (case VideoUpdateInput_madeForKids updates of
             Some v \<Rightarrow> Some v
           | None \<Rightarrow> map_option VideoStatus_madeForKids (Video_status current)))]
      else JUndefined)"
  by (simp add: updateVideo_body_def coalesce_def)

lemma updatePlaylist_body_fields:
  "get_prop (updatePlaylist_body playlistId updates current) ''snippet'' =
     JObj
       [(''title'', opt_str (case PlaylistUpdateInput_title updates of
            Some v \<Rightarrow> Some v
          | None \<Rightarrow> map_option PlaylistSnippet_title (Playlist_snippet current))),
        (''description'', opt_str (case PlaylistUpdateInput_description updates of
            Some v \<Rightarrow> Some v
          | None \<Rightarrow> map_option PlaylistSnippet_description (Playlist_snippet current))),
        (''defaultLanguage'', opt_str (case PlaylistUpdateInput_defaultLanguage updates of
            Some v \<Rightarrow> Some v
          | None \<Rightarrow> Option.bind (Playlist_snippet current) PlaylistSnippet_defaultLanguage))]
   \<and> get_prop (updatePlaylist_body playlistId updates current) ''status'' =
     JObj
       [(''privacyStatus'', opt_str (case PlaylistUpdateInput_privacyStatus updates of
            Some v \<Rightarrow> Some v
          | None \<Rightarrow> map_option PlaylistStatus_privacyStatus (Playlist_status current)))]"
  by (simp add: updatePlaylist_body_def coalesce_def)


text \<open>
  \<^verbatim>\<open>updateChannel\<close> reads nothing: it issues at most one request, the
  \<^verbatim>\<open>PUT\<close>, whose body holds the supplied values alone.
\<close>

lemma updateChannel_requests:
  "fst (updateChannel pf c rd channelId updates) = []
   \<or> (\<exists>put. fst (updateChannel pf c rd channelId updates) = [put]
         \<and> req_method put = Some ''PUT''
         \<and> req_body put =
             Some (Body (JSON_stringify (updateChannel_body channelId updates) None)))"
  by (auto simp: updateChannel_def request_def request_prepare_def put_options_def Let_def
      split: sum.splits)

lemma updateChannel_example:
  "fst (updateChannel (example_platform (example_response 200 None ''{}''))
          example_token_credentials
          (example_reader \<lparr> Channel_id = ''UC12'', Channel_snippet = None,
                              Channel_statistics = None \<rparr>) ''UC12''
          \<lparr> ChannelUpdateInput_description = Some ''About rockets'',
            ChannelUpdateInput_keywords = None,
            ChannelUpdateInput_defaultLanguage = None,
            ChannelUpdateInput_country = None,
            ChannelUpdateInput_unsubscribedTrailer = None \<rparr>)
   = [\<lparr> req_url = ''https://www.googleapis.com/youtube/v3/channels'',
        req_query = [(''part'', ''brandingSettings'')],
        req_method = Some ''PUT'',
        req_headers = [(''Content-Type'', ''application/json''),
                       (''Authorization'', ''Bearer ya29.token'')],
        req_body = Some (Body (JSON_stringify
          (JObj [(''id'', JStr ''UC12''),
                 (''brandingSettings'', JObj
                    [(''channel'', JObj
                        [(''description'', JStr ''About rockets''),
                         (''keywords'', JUndefined),
                         (''defaultLanguage'', JUndefined),
                         (''country'', JUndefined),
                         (''unsubscribedTrailer'', JUndefined)])])]) None)) \<rparr>]"
  by (simp add: updateChannel_def updateChannel_body_def opt_str_def request_defs
      example_defs Let_def)

subsection \<open>Markdown and the examples\<close>

lemma collect_map_cong:
  "(\<And>x. x \<in> set xs \<Longrightarrow> f x = Inr (g x)) \<Longrightarrow> collect (map f xs) = Inr (map g xs)"
  by (induction xs) simp_all

lemma String_replace_prefix: "String_replace (pat @ s) pat rep = rep @ s"
  by (cases pat; cases s) simp_all

lemma String_replace_absent:
  "\<not> sublist pat s \<Longrightarrow> String_replace s pat rep = s"
proof (induction s)
  case Nil
  then show ?case by (cases pat) simp_all
next
  case (Cons c cs)
  from Cons.prems have "\<not> prefix pat (c # cs)"
    using prefix_imp_sublist by blast
  moreover from Cons.prems have "\<not> sublist pat cs"
    by (simp add: sublist_Cons_right)
  ultimately show ?case
    using Cons.IH by simp
qed

lemma formatGenericTable_rows:
  assumes "Object_keys cs first = Inr ks"
    "\<forall>item \<in> set (first # rest). \<forall>k \<in> set (take 5 ks).
       \<exists>c. property_String cs item k = Inr c"
  shows "formatGenericTable cs (first # rest) =
     Inr (join newline
            ([''| '' @ join '' | '' (take 5 ks) @ '' |'',
              ''|'' @ join ''|'' (map (\<lambda>k. ''---'') (take 5 ks)) @ ''|''] @
             map (\<lambda>item.
                    ''| '' @ join '' | ''
                      (map (\<lambda>k. case property_String cs item k of
                                   Inr (Some v) \<Rightarrow> v
                                 | _ \<Rightarrow> ''-'')
                         (take 5 ks)) @ '' |'')
               (first # rest)))"
proof -
  have cells: "collect
        (map (\<lambda>k. case property_String cs item k of
                     Inl e \<Rightarrow> Inl e
                   | Inr None \<Rightarrow> Inr ''-''
                   | Inr (Some v) \<Rightarrow> Inr v)
           (take 5 ks))
      = Inr (map (\<lambda>k. case property_String cs item k of
                        Inr (Some v) \<Rightarrow> v
                      | _ \<Rightarrow> ''-'')
               (take 5 ks))"
    if "item \<in> set (first # rest)" for item
  proof (rule collect_map_cong)
    fix k
    assume "k \<in> set (take 5 ks)"
    with assms(2) that obtain c where "property_String cs item k = Inr c"
      by blast
    then show "(case property_String cs item k of
                  Inl e \<Rightarrow> Inl e
                | Inr None \<Rightarrow> Inr ''-''
                | Inr (Some v) \<Rightarrow> Inr v)
             = Inr (case property_String cs item k of
                      Inr (Some v) \<Rightarrow> v
                    | _ \<Rightarrow> ''-'')"
      by (cases c) simp_all
  qed
  have rows: "collect
        (map (\<lambda>item.
                case collect
                       (map (\<lambda>k. case property_String cs item k of
                                    Inl e \<Rightarrow> Inl e
                                  | Inr None \<Rightarrow> Inr ''-''
                                  | Inr (Some v) \<Rightarrow> Inr v)
                          (take 5 ks)) of
                  Inl e \<Rightarrow> Inl e
                | Inr values \<Rightarrow> Inr (''| '' @ join '' | '' values @ '' |''))
           (first # rest))
      = Inr (map (\<lambda>item.
                    ''| '' @ join '' | ''
                      (map (\<lambda>k. case property_String cs item k of
                                   Inr (Some v) \<Rightarrow> v
                                 | _ \<Rightarrow> ''-'')
                         (take 5 ks)) @ '' |'')
               (first # rest))"
    by (rule collect_map_cong) (simp only: cells sum.case)
  show ?thesis
    unfolding formatGenericTable_def
    by (simp only: list.case assms(1) sum.case Let_def rows)
qed

lemma example_results:
  "snd (getVideo (example_platform (example_response 200 None ''{}'')) example_token_credentials
          (example_reader example_video_list) ''dQw4'' (Some [''snippet'', ''status'']))
   = Inr example_video"
  "snd (getPlaylist (example_platform (example_response 200 None ''{}''))
          example_token_credentials
          (example_reader example_playlist_list) ''PL42'' (Some [''snippet'', ''status'']))
   = Inr example_playlist"
  by (simp_all add: eval_defs)


section \<open>The status mapping of the request helper\<close>

text \<open>
  C1. The status mapping of \<^verbatim>\<open>request\<close> misses two responses. A response of
  status 500 whose body is \<^verbatim>\<open>{"message":{"toString":"x"}}\<close> does not raise the
  generic API error: the upstream message is an object that has no callable
  \<^verbatim>\<open>toString\<close>, the constructor of the error converts it to a string, and the
  \<^verbatim>\<open>TypeError\<close> of that conversion is what \<^verbatim>\<open>request\<close> throws, after the one
  request it issued; that error has no status code and no retryable flag. A response
  of status 429 whose \<^verbatim>\<open>Retry-After\<close> header is an HTTP date raises a rate-limit
  error whose retry-after seconds are \<^verbatim>\<open>NaN\<close>: neither seconds read from the
  header nor the default 60.
\<close>

theorem request_status_mapping_misses:
  "request (example_platform (example_response 500 None example_toString_body))
      example_token_credentials (example_reader ()) ''/videos''
      (get_options [(''part'', PString ''snippet''), (''id'', PString ''dQw4'')])
     = ([example_get_request ''/videos'' ''snippet'' ''dQw4''], Inl TypeError_primitive)
   \<and> request (example_platform
         (example_response 429 (Some ''Wed, 21 Oct 2015 07:28:00 GMT'') []))
      example_token_credentials (example_reader ()) ''/videos''
      (get_options [(''part'', PString ''snippet''), (''id'', PString ''dQw4'')])
     = ([example_get_request ''/videos'' ''snippet'' ''dQw4''],
        Inl (Thrown_Api (new_RateLimitError ''Rate limit exceeded'' NaN)))
   \<and> retryAfterSeconds (new_RateLimitError ''Rate limit exceeded'' NaN) = Some NaN"
proof -
  have a: "request (example_platform (example_response 500 None example_toString_body))
      example_token_credentials (example_reader ()) ''/videos''
      (get_options [(''part'', PString ''snippet''), (''id'', PString ''dQw4'')])
     = ([example_get_request ''/videos'' ''snippet'' ''dQw4''], Inl TypeError_primitive)"
    by (simp add: eval_defs example_get_request_def String_or_throw_def
        request_errorMessage_Some example_toString_body_def example_error_body_def
        example_message_body_def)
  have b: "request (example_platform
         (example_response 429 (Some ''Wed, 21 Oct 2015 07:28:00 GMT'') []))
      example_token_credentials (example_reader ()) ''/videos''
      (get_options [(''part'', PString ''snippet''), (''id'', PString ''dQw4'')])
     = ([example_get_request ''/videos'' ''snippet'' ''dQw4''],
        Inl (Thrown_Api (new_RateLimitError ''Rate limit exceeded'' NaN)))"
    by (simp add: eval_defs example_get_request_def parse_date)
  have c: "retryAfterSeconds (new_RateLimitError ''Rate limit exceeded'' NaN) = Some NaN"
    by (simp add: new_defs)
  show ?thesis
    using a b c by blast
qed


section \<open>Authentication of a request\<close>

text \<open>
  C6. For every request the request helper builds (the caller overriding neither the
  \<^verbatim>\<open>Authorization\<close> header nor the \<^verbatim>\<open>key\<close> parameter): with a non-empty
  access token the request that is fetched carries \<^verbatim>\<open>Authorization: Bearer\<close>
  followed by the token, and its query holds only keys the caller gave, so no
  \<^verbatim>\<open>key\<close> parameter is added; with no access token and a non-empty API key the
  query carries \<^verbatim>\<open>key\<close> with the API key and there is no
  \<^verbatim>\<open>Authorization\<close> header; with neither, the call throws an authentication
  error (status 401) and no request is issued.
\<close>

theorem request_auth:
  "(\<forall>t. accessToken c = Some t \<and> t \<noteq> [] \<longrightarrow>
      (\<exists>req. request_prepare pf c endpoint options = Inr req
         \<and> fst (request pf c rd endpoint options) = [req]
         \<and> (''Authorization'' \<notin> fst ` set (headers_of options) \<longrightarrow>
              map_of (req_headers req) ''Authorization'' = Some (''Bearer '' @ t))
         \<and> fst ` set (req_query req) \<subseteq> fst ` set (params_of options)))
   \<and> (\<forall>k. \<not> truthy_str (accessToken c) \<and> apiKey c = Some k \<and> k \<noteq> [] \<longrightarrow>
      (\<exists>req. request_prepare pf c endpoint options = Inr req
         \<and> fst (request pf c rd endpoint options) = [req]
         \<and> (''key'' \<notin> fst ` set (params_of options) \<longrightarrow>
              map_of (req_query req) ''key'' = Some k)
         \<and> (''Authorization'' \<notin> fst ` set (headers_of options) \<longrightarrow>
              ''Authorization'' \<notin> fst ` set (req_headers req))))
   \<and> (\<not> truthy_str (accessToken c) \<and> \<not> truthy_str (apiKey c) \<longrightarrow>
      (\<exists>e. request pf c rd endpoint options = ([], Inl (Thrown_Api e))
         \<and> cls e = Class_AuthenticationError \<and> statusCode e = Some 401))"
  using request_auth_token [where c = c and endpoint = endpoint and options = options
      and pf = pf and rd = rd]
    request_auth_key [where c = c and endpoint = endpoint and options = options
      and pf = pf and rd = rd]
    request_auth_none [where c = c and endpoint = endpoint and options = options
      and pf = pf and rd = rd]
  by blast

theorem request_auth_witness:
  "(\<exists>req. request_prepare (example_platform (example_response 200 None ''{}''))
             example_token_credentials ''/videos''
             (get_options [(''part'', PString ''snippet'')]) = Inr req
        \<and> fst (request (example_platform (example_response 200 None ''{}''))
                 example_token_credentials (example_reader ()) ''/videos''
                 (get_options [(''part'', PString ''snippet'')])) = [req]
        \<and> map_of (req_headers req) ''Authorization'' = Some ''Bearer ya29.token''
        \<and> fst ` set (req_query req) \<subseteq> {''part''})
   \<and> (\<exists>req. request_prepare (example_platform (example_response 200 None ''{}''))
             example_key_credentials ''/videos''
             (get_options [(''part'', PString ''snippet'')]) = Inr req
        \<and> fst (request (example_platform (example_response 200 None ''{}''))
                 example_key_credentials (example_reader ()) ''/videos''
                 (get_options [(''part'', PString ''snippet'')])) = [req]
        \<and> map_of (req_query req) ''key'' = Some ''AIzaKey''
        \<and> ''Authorization'' \<notin> fst ` set (req_headers req))
   \<and> (\<exists>e. request (example_platform (example_response 200 None ''{}''))
                 example_no_credentials (example_reader ()) ''/videos''
                 (get_options [(''part'', PString ''snippet'')]) = ([], Inl (Thrown_Api e))
        \<and> cls e = Class_AuthenticationError \<and> statusCode e = Some 401)"
proof -
  let ?P = "example_platform (example_response 200 None ''{}'')"
  let ?R = "example_reader ()"
  let ?O = "get_options [(''part'', PString ''snippet'')]"
  have o: "headers_of ?O = []" "params_of ?O = [(''part'', PString ''snippet'')]"
    by (simp_all add: headers_of_def params_of_def get_options_def)
  have a: "\<exists>req. request_prepare ?P example_token_credentials ''/videos'' ?O = Inr req
        \<and> fst (request ?P example_token_credentials ?R ''/videos'' ?O) = [req]
        \<and> map_of (req_headers req) ''Authorization'' = Some ''Bearer ya29.token''
        \<and> fst ` set (req_query req) \<subseteq> {''part''}"
    using request_auth [where c = example_token_credentials and endpoint = "''/videos''" and options = ?O
        and pf = ?P and rd = ?R]
    by (auto simp: o example_token_credentials_def)
  have b: "\<exists>req. request_prepare ?P example_key_credentials ''/videos'' ?O = Inr req
        \<and> fst (request ?P example_key_credentials ?R ''/videos'' ?O) = [req]
        \<and> map_of (req_query req) ''key'' = Some ''AIzaKey''
        \<and> ''Authorization'' \<notin> fst ` set (req_headers req)"
    using request_auth [where c = example_key_credentials and endpoint = "''/videos''" and options = ?O
        and pf = ?P and rd = ?R]
    by (auto simp: o example_key_credentials_def truthy_str_def)
  have c: "\<exists>e. request ?P example_no_credentials ?R ''/videos'' ?O = ([], Inl (Thrown_Api e))
        \<and> cls e = Class_AuthenticationError \<and> statusCode e = Some 401"
    using request_auth [where c = example_no_credentials and endpoint = "''/videos''" and options = ?O
        and pf = ?P and rd = ?R]
    by (auto simp: example_no_credentials_def truthy_str_def)
  show ?thesis
    using a b c by blast
qed


section \<open>The paginated envelope\<close>

text \<open>
  C4. The \<^verbatim>\<open>hasMore\<close> field of a normalized envelope is true if and only if the
  upstream response carries a continuation token, that is a non-empty
  \<^verbatim>\<open>nextPageToken\<close>; the token is passed on unchanged as the envelope's
  \<^verbatim>\<open>nextPageToken\<close>, in particular when \<^verbatim>\<open>hasMore\<close> is true.
\<close>

theorem toPaginatedResponse_hasMore:
  "hasMore (toPaginatedResponse response)
     = (\<exists>t. lr_nextPageToken response = Some t \<and> t \<noteq> [])
   \<and> nextPageToken (toPaginatedResponse response) = lr_nextPageToken response"
  by (simp add: toPaginatedResponse_def truthy_str_def split: option.split)

theorem toPaginatedResponse_hasMore_witness:
  "hasMore (toPaginatedResponse example_page)
   \<and> nextPageToken (toPaginatedResponse example_page) = Some ''ABC''
   \<and> \<not> hasMore (toPaginatedResponse example_video_list)"
  using toPaginatedResponse_hasMore [of example_page]
    toPaginatedResponse_hasMore [of example_video_list]
  by (simp add: example_page_def example_video_list_def)


text \<open>
  C5. The count of a normalized envelope is the length of its items, and an upstream
  response without an items field normalizes to no items and the count 0.
\<close>

theorem toPaginatedResponse_count:
  "count (toPaginatedResponse response) = length (items (toPaginatedResponse response))
   \<and> items (toPaginatedResponse (response\<lparr>lr_items := None\<rparr>)) = []
   \<and> count (toPaginatedResponse (response\<lparr>lr_items := None\<rparr>)) = 0"
  by (simp add: toPaginatedResponse_def split: option.split)

theorem toPaginatedResponse_count_witness:
  "count (toPaginatedResponse example_page) = 25
   \<and> totalResults (toPaginatedResponse example_page) = Some (Finite 120)
   \<and> count (toPaginatedResponse (example_page\<lparr>lr_items := None\<rparr>)) = 0"
  using toPaginatedResponse_count [of example_page]
  by (simp add: example_page_def toPaginatedResponse_def)


section \<open>Reading one resource by its id\<close>

text \<open>
  C3. \<^verbatim>\<open>getVideo\<close>, \<^verbatim>\<open>getChannel\<close>, \<^verbatim>\<open>getPlaylist\<close> and
  \<^verbatim>\<open>getCommentThread\<close> issue one request: the \<^verbatim>\<open>GET\<close> of their endpoint with
  the parts (the given ones, or the defaults of the operation) and the requested id.
  When that request is answered by a success response (status 200 to 299, not 204)
  whose body is the list response \<open>r\<close>, the operation throws the not-found error of
  its entity type and of the requested id if the items of \<open>r\<close> are absent or empty,
  and returns the first item otherwise. The message of a not-found error is the
  entity type, \<^verbatim>\<open>with ID\<close>, the id between quotes and \<^verbatim>\<open>not found\<close>, so it
  contains the entity type and the id; its status code is 404.
\<close>

theorem get_by_id_not_found:
  "(request_prepare pf c ''/videos''
       (get_options
          [(''part'', PString (join '',''
              (case parts of
                 None \<Rightarrow> [''snippet'', ''contentDetails'', ''statistics'', ''status'']
               | Some ps \<Rightarrow> ps))),
           (''id'', PString ident)]) = Inr req
      \<and> fetch pf req = Inr response
      \<and> response_ok response \<and> status response \<noteq> 204 \<and> rdv response = Inr rv
    \<longrightarrow> getVideo pf c rdv ident parts =
          ([req], case lr_items rv of
                    Some (x # xs) \<Rightarrow> Inr x
                  | _ \<Rightarrow> Inl (Thrown_Api (new_NotFoundError ''Video'' ident))))
   \<and> (request_prepare pf c ''/channels''
       (get_options
          [(''part'', PString (join '',''
              (case parts of
                 None \<Rightarrow> [''snippet'', ''contentDetails'', ''statistics'']
               | Some ps \<Rightarrow> ps))),
           (''id'', PString ident)]) = Inr req
      \<and> fetch pf req = Inr response
      \<and> response_ok response \<and> status response \<noteq> 204 \<and> rdc response = Inr rc
    \<longrightarrow> getChannel pf c rdc ident parts =
          ([req], case lr_items rc of
                    Some (x # xs) \<Rightarrow> Inr x
                  | _ \<Rightarrow> Inl (Thrown_Api (new_NotFoundError ''Channel'' ident))))
   \<and> (request_prepare pf c ''/playlists''
       (get_options
          [(''part'', PString (join '',''
              (case parts of
                 None \<Rightarrow> [''snippet'', ''contentDetails'', ''status'']
               | Some ps \<Rightarrow> ps))),
           (''id'', PString ident)]) = Inr req
      \<and> fetch pf req = Inr response
      \<and> response_ok response \<and> status response \<noteq> 204 \<and> rdp response = Inr rp
    \<longrightarrow> getPlaylist pf c rdp ident parts =
          ([req], case lr_items rp of
                    Some (x # xs) \<Rightarrow> Inr x
                  | _ \<Rightarrow> Inl (Thrown_Api (new_NotFoundError ''Playlist'' ident))))
   \<and> (request_prepare pf c ''/commentThreads''
       (get_options
          [(''part'', PString (join '',''
              (case parts of None \<Rightarrow> [''snippet'', ''replies''] | Some ps \<Rightarrow> ps))),
           (''id'', PString ident)]) = Inr req
      \<and> fetch pf req = Inr response
      \<and> response_ok response \<and> status response \<noteq> 204 \<and> rdt response = Inr rt
    \<longrightarrow> getCommentThread pf c rdt ident parts =
          ([req], case lr_items rt of
                    Some (x # xs) \<Rightarrow> Inr x
                  | _ \<Rightarrow> Inl (Thrown_Api (new_NotFoundError ''CommentThread'' ident))))
   \<and> cls (new_NotFoundError entityType ident) = Class_NotFoundError
   \<and> statusCode (new_NotFoundError entityType ident) = Some 404
   \<and> message (new_NotFoundError entityType ident)
       = entityType @ '' with ID '' @ [CHR 0x27] @ ident @ [CHR 0x27] @ '' not found''
   \<and> String_includes (message (new_NotFoundError entityType ident)) entityType
   \<and> String_includes (message (new_NotFoundError entityType ident)) ident"
  using getVideo_outcome [of pf c parts ident req response rdv rv]
    getChannel_outcome [of pf c parts ident req response rdc rc]
    getPlaylist_outcome [of pf c parts ident req response rdp rp]
    getCommentThread_outcome [of pf c parts ident req response rdt rt]
    NotFoundError_names [of entityType ident]
  by blast

theorem get_by_id_not_found_witness:
  "getVideo (example_platform (example_response 200 None ''{}'')) example_token_credentials
      (example_reader example_video_list) ''dQw4'' None
     = ([example_get_request ''/videos'' ''snippet,contentDetails,statistics,status'' ''dQw4''],
        Inr example_video)
   \<and> getVideo (example_platform (example_response 200 None ''{}'')) example_token_credentials
      (example_reader example_empty_list) ''dQw4'' None
     = ([example_get_request ''/videos'' ''snippet,contentDetails,statistics,status'' ''dQw4''],
        Inl (Thrown_Api (new_NotFoundError ''Video'' ''dQw4'')))
   \<and> getChannel (example_platform (example_response 200 None ''{}'')) example_token_credentials
      (example_reader example_channel_list) ''UC12'' None
     = ([example_get_request ''/channels'' ''snippet,contentDetails,statistics'' ''UC12''],
        Inr example_channel)
   \<and> getChannel (example_platform (example_response 200 None ''{}'')) example_token_credentials
      (example_reader example_empty_list) ''UC12'' (Some [''snippet''])
     = ([example_get_request ''/channels'' ''snippet'' ''UC12''],
        Inl (Thrown_Api (new_NotFoundError ''Channel'' ''UC12'')))
   \<and> getPlaylist (example_platform (example_response 200 None ''{}'')) example_token_credentials
      (example_reader example_playlist_list) ''PL42'' None
     = ([example_get_request ''/playlists'' ''snippet,contentDetails,status'' ''PL42''],
        Inr example_playlist)
   \<and> getPlaylist (example_platform (example_response 200 None ''{}'')) example_token_credentials
      (example_reader example_empty_list) ''PL42'' None
     = ([example_get_request ''/playlists'' ''snippet,contentDetails,status'' ''PL42''],
        Inl (Thrown_Api (new_NotFoundError ''Playlist'' ''PL42'')))
   \<and> getCommentThread (example_platform (example_response 200 None ''{}''))
      example_token_credentials (example_reader example_thread_list) ''Ug99'' None
     = ([example_get_request ''/commentThreads'' ''snippet,replies'' ''Ug99''],
        Inr example_thread)
   \<and> getCommentThread (example_platform (example_response 200 None ''{}''))
      example_token_credentials
      (example_reader (example_empty_list\<lparr>lr_items := None\<rparr>)) ''Ug99'' None
     = ([example_get_request ''/commentThreads'' ''snippet,replies'' ''Ug99''],
        Inl (Thrown_Api (new_NotFoundError ''CommentThread'' ''Ug99'')))
   \<and> message (new_NotFoundError ''Video'' ''dQw4'') = ''Video with ID 'dQw4' not found''
   \<and> String_includes (message (new_NotFoundError ''Video'' ''dQw4'')) ''Video''
   \<and> String_includes (message (new_NotFoundError ''Video'' ''dQw4'')) ''dQw4''"
proof -
  let ?P = "example_platform (example_response 200 None ''{}'')"
  let ?A = "example_response 200 None ''{}''"
  let ?C = "example_token_credentials"
  note t = get_by_id_not_found [where pf = ?P and c = ?C and response = ?A]
  have prep: "\<And>ep p i. request_prepare ?P ?C ep
        (get_options [(''part'', PString p), (''id'', PString i)])
      = Inr (example_get_request ep p i)"
    by (simp add: request_defs example_defs example_get_request_def Let_def)
  have f: "\<And>req. fetch ?P req = Inr ?A" "response_ok ?A" "status ?A \<noteq> 204"
    by (simp_all add: example_platform_def example_response_def response_ok_def)
  have hv: "\<And>r. request_prepare ?P ?C ''/videos''
       (get_options
          [(''part'', PString (join '',''
              (case None of
                 None \<Rightarrow> [''snippet'', ''contentDetails'', ''statistics'', ''status'']
               | Some ps \<Rightarrow> ps))),
           (''id'', PString ''dQw4'')])
        = Inr (example_get_request ''/videos'' ''snippet,contentDetails,statistics,status''
                 ''dQw4'')
      \<and> fetch ?P (example_get_request ''/videos'' ''snippet,contentDetails,statistics,status''
                    ''dQw4'') = Inr ?A
      \<and> response_ok ?A \<and> status ?A \<noteq> 204
      \<and> example_reader (r :: Video YouTubeListResponse) ?A = Inr r"
    using f by (simp add: prep example_reader_def)
  have v1: "getVideo ?P ?C (example_reader example_video_list) ''dQw4'' None
     = ([example_get_request ''/videos'' ''snippet,contentDetails,statistics,status'' ''dQw4''],
        Inr example_video)"
    using t [where rdv = "example_reader example_video_list" and ident = "''dQw4''"
        and rv = example_video_list and parts = None
        and req = "example_get_request ''/videos'' ''snippet,contentDetails,statistics,status''
                     ''dQw4''",
        THEN conjunct1, THEN mp, OF hv]
    by (simp add: example_video_list_def)
  have v2: "getVideo ?P ?C (example_reader example_empty_list) ''dQw4'' None
     = ([example_get_request ''/videos'' ''snippet,contentDetails,statistics,status'' ''dQw4''],
        Inl (Thrown_Api (new_NotFoundError ''Video'' ''dQw4'')))"
    using t [where rdv = "example_reader example_empty_list" and ident = "''dQw4''"
        and rv = example_empty_list and parts = None
        and req = "example_get_request ''/videos'' ''snippet,contentDetails,statistics,status''
                     ''dQw4''",
        THEN conjunct1, THEN mp, OF hv]
    by (simp add: example_empty_list_def)
  have hc1: "\<And>r. request_prepare ?P ?C ''/channels''
       (get_options
          [(''part'', PString (join '',''
              (case None of
                 None \<Rightarrow> [''snippet'', ''contentDetails'', ''statistics'']
               | Some ps \<Rightarrow> ps))),
           (''id'', PString ''UC12'')])
        = Inr (example_get_request ''/channels'' ''snippet,contentDetails,statistics'' ''UC12'')
      \<and> fetch ?P (example_get_request ''/channels'' ''snippet,contentDetails,statistics''
                    ''UC12'') = Inr ?A
      \<and> response_ok ?A \<and> status ?A \<noteq> 204
      \<and> example_reader (r :: Channel YouTubeListResponse) ?A = Inr r"
    using f by (simp add: prep example_reader_def)
  have c1: "getChannel ?P ?C (example_reader example_channel_list) ''UC12'' None
     = ([example_get_request ''/channels'' ''snippet,contentDetails,statistics'' ''UC12''],
        Inr example_channel)"
    using t [where rdc = "example_reader example_channel_list" and ident = "''UC12''"
        and rc = example_channel_list and parts = None
        and req = "example_get_request ''/channels'' ''snippet,contentDetails,statistics''
                     ''UC12''",
        THEN conjunct2, THEN conjunct1, THEN mp, OF hc1]
    by (simp add: example_channel_list_def)
  have hc2: "request_prepare ?P ?C ''/channels''
       (get_options
          [(''part'', PString (join '',''
              (case Some [''snippet''] of
                 None \<Rightarrow> [''snippet'', ''contentDetails'', ''statistics'']
               | Some ps \<Rightarrow> ps))),
           (''id'', PString ''UC12'')])
        = Inr (example_get_request ''/channels'' ''snippet'' ''UC12'')
      \<and> fetch ?P (example_get_request ''/channels'' ''snippet'' ''UC12'') = Inr ?A
      \<and> response_ok ?A \<and> status ?A \<noteq> 204
      \<and> example_reader (example_empty_list :: Channel YouTubeListResponse) ?A
          = Inr example_empty_list"
    using f by (simp add: prep example_reader_def)
  have c2: "getChannel ?P ?C (example_reader example_empty_list) ''UC12'' (Some [''snippet''])
     = ([example_get_request ''/channels'' ''snippet'' ''UC12''],
        Inl (Thrown_Api (new_NotFoundError ''Channel'' ''UC12'')))"
    using t [where rdc = "example_reader example_empty_list" and ident = "''UC12''"
        and rc = example_empty_list and parts = "Some [''snippet'']"
        and req = "example_get_request ''/channels'' ''snippet'' ''UC12''",
        THEN conjunct2, THEN conjunct1, THEN mp, OF hc2]
    by (simp add: example_empty_list_def)
  have hp: "\<And>r. request_prepare ?P ?C ''/playlists''
       (get_options
          [(''part'', PString (join '',''
              (case None of
                 None \<Rightarrow> [''snippet'', ''contentDetails'', ''status'']
               | Some ps \<Rightarrow> ps))),
           (''id'', PString ''PL42'')])
        = Inr (example_get_request ''/playlists'' ''snippet,contentDetails,status'' ''PL42'')
      \<and> fetch ?P (example_get_request ''/playlists'' ''snippet,contentDetails,status''
                    ''PL42'') = Inr ?A
      \<and> response_ok ?A \<and> status ?A \<noteq> 204
      \<and> example_reader (r :: Playlist YouTubeListResponse) ?A = Inr r"
    using f by (simp add: prep example_reader_def)
  have p1: "getPlaylist ?P ?C (example_reader example_playlist_list) ''PL42'' None
     = ([example_get_request ''/playlists'' ''snippet,contentDetails,status'' ''PL42''],
        Inr example_playlist)"
    using t [where rdp = "example_reader example_playlist_list" and ident = "''PL42''"
        and rp = example_playlist_list and parts = None
        and req = "example_get_request ''/playlists'' ''snippet,contentDetails,status''
                     ''PL42''",
        THEN conjunct2, THEN conjunct2, THEN conjunct1, THEN mp, OF hp]
    by (simp add: example_playlist_list_def)
  have p2: "getPlaylist ?P ?C (example_reader example_empty_list) ''PL42'' None
     = ([example_get_request ''/playlists'' ''snippet,contentDetails,status'' ''PL42''],
        Inl (Thrown_Api (new_NotFoundError ''Playlist'' ''PL42'')))"
    using t [where rdp = "example_reader example_empty_list" and ident = "''PL42''"
        and rp = example_empty_list and parts = None
        and req = "example_get_request ''/playlists'' ''snippet,contentDetails,status''
                     ''PL42''",
        THEN conjunct2, THEN conjunct2, THEN conjunct1, THEN mp, OF hp]
    by (simp add: example_empty_list_def)
  have ht: "\<And>r. request_prepare ?P ?C ''/commentThreads''
       (get_options
          [(''part'', PString (join '',''
              (case None of None \<Rightarrow> [''snippet'', ''replies''] | Some ps \<Rightarrow> ps))),
           (''id'', PString ''Ug99'')])
        = Inr (example_get_request ''/commentThreads'' ''snippet,replies'' ''Ug99'')
      \<and> fetch ?P (example_get_request ''/commentThreads'' ''snippet,replies'' ''Ug99'')
          = Inr ?A
      \<and> response_ok ?A \<and> status ?A \<noteq> 204
      \<and> example_reader (r :: CommentThread YouTubeListResponse) ?A = Inr r"
    using f by (simp add: prep example_reader_def)
  have t1: "getCommentThread ?P ?C (example_reader example_thread_list) ''Ug99'' None
     = ([example_get_request ''/commentThreads'' ''snippet,replies'' ''Ug99''],
        Inr example_thread)"
    using t [where rdt = "example_reader example_thread_list" and ident = "''Ug99''"
        and rt = example_thread_list and parts = None
        and req = "example_get_request ''/commentThreads'' ''snippet,replies'' ''Ug99''",
        THEN conjunct2, THEN conjunct2, THEN conjunct2, THEN conjunct1, THEN mp, OF ht]
    by (simp add: example_thread_list_def)
  have t2: "getCommentThread ?P ?C
        (example_reader (example_empty_list\<lparr>lr_items := None\<rparr>)) ''Ug99'' None
     = ([example_get_request ''/commentThreads'' ''snippet,replies'' ''Ug99''],
        Inl (Thrown_Api (new_NotFoundError ''CommentThread'' ''Ug99'')))"
    using t [where rdt = "example_reader (example_empty_list\<lparr>lr_items := None\<rparr>)"
        and ident = "''Ug99''"
        and rt = "example_empty_list\<lparr>lr_items := None\<rparr>" and parts = None
        and req = "example_get_request ''/commentThreads'' ''snippet,replies'' ''Ug99''",
        THEN conjunct2, THEN conjunct2, THEN conjunct2, THEN conjunct1, THEN mp, OF ht]
    by (simp add: example_empty_list_def)
  have n: "message (new_NotFoundError ''Video'' ''dQw4'') = ''Video with ID 'dQw4' not found''
     \<and> String_includes (message (new_NotFoundError ''Video'' ''dQw4'')) ''Video''
     \<and> String_includes (message (new_NotFoundError ''Video'' ''dQw4'')) ''dQw4''"
  proof -
    note nn = t [where entityType = "''Video''" and ident = "''dQw4''",
        THEN conjunct2, THEN conjunct2, THEN conjunct2, THEN conjunct2,
        THEN conjunct2, THEN conjunct2]
    have "message (new_NotFoundError ''Video'' ''dQw4'') = ''Video with ID 'dQw4' not found''"
      using nn [THEN conjunct1] by simp
    then show ?thesis
      using nn [THEN conjunct2] by blast
  qed
  show ?thesis
    using v1 v2 c1 c2 p1 p2 t1 t2 n by blast
qed


section \<open>Updating a video or a playlist\<close>

text \<open>
  C2, as amended. \<^verbatim>\<open>updateVideo\<close> and \<^verbatim>\<open>updatePlaylist\<close> first fetch the
  resource by its id. If that read fails, its error is the outcome and nothing is
  written. If it succeeds, exactly one \<^verbatim>\<open>PUT\<close> follows, whose body carries for
  every snippet field, and for the privacy status of a playlist, the value the caller
  supplied, or the fetched value when the caller supplied none. The body of
  \<^verbatim>\<open>updateVideo\<close> has a \<^verbatim>\<open>status\<close> object only when the caller supplied at
  least one status field; each of its four fields is then the supplied value or else
  the fetched one. A call that supplies no field sends back the fetched snippet
  values (for a playlist also the fetched privacy status).
\<close>

theorem update_merges_over_current:
  "(snd (getVideo pf c rvl videoId (Some [''snippet'', ''status''])) = Inr cv \<longrightarrow>
      (\<exists>get put.
           fst (getVideo pf c rvl videoId (Some [''snippet'', ''status''])) = [get]
         \<and> fst (updateVideo pf c rvl rv videoId vu) = [get, put]
         \<and> req_method get = None \<and> req_url get = API_BASE_URL @ ''/videos''
         \<and> map_of (req_query get) ''id'' = Some videoId
         \<and> req_method put = Some ''PUT'' \<and> req_url put = API_BASE_URL @ ''/videos''
         \<and> req_body put = Some (Body (JSON_stringify (updateVideo_body videoId vu cv) None))))
   \<and> (\<forall>e. snd (getVideo pf c rvl videoId (Some [''snippet'', ''status''])) = Inl e \<longrightarrow>
         updateVideo pf c rvl rv videoId vu =
           (fst (getVideo pf c rvl videoId (Some [''snippet'', ''status''])), Inl e))
   \<and> get_prop (updateVideo_body videoId vu cv) ''snippet'' =
       JObj
         [(''title'', opt_str (case VideoUpdateInput_title vu of
              Some v \<Rightarrow> Some v | None \<Rightarrow> map_option VideoSnippet_title (Video_snippet cv))),
          (''description'', opt_str (case VideoUpdateInput_description vu of
              Some v \<Rightarrow> Some v
            | None \<Rightarrow> map_option VideoSnippet_description (Video_snippet cv))),
          (''tags'', opt_strs (case VideoUpdateInput_tags vu of
              Some v \<Rightarrow> Some v | None \<Rightarrow> Option.bind (Video_snippet cv) VideoSnippet_tags)),
          (''categoryId'', opt_str (case VideoUpdateInput_categoryId vu of
              Some v \<Rightarrow> Some v
            | None \<Rightarrow> map_option VideoSnippet_categoryId (Video_snippet cv))),
          (''defaultLanguage'', opt_str (case VideoUpdateInput_defaultLanguage vu of
              Some v \<Rightarrow> Some v
            | None \<Rightarrow> Option.bind (Video_snippet cv) VideoSnippet_defaultLanguage))]
   \<and> get_prop (updateVideo_body videoId vu cv) ''status'' =
       (if truthy_str (VideoUpdateInput_privacyStatus vu)
           \<or> VideoUpdateInput_embeddable vu \<noteq> None
           \<or> VideoUpdateInput_publicStatsViewable vu \<noteq> None
           \<or> VideoUpdateInput_madeForKids vu \<noteq> None
        then JObj
          [(''privacyStatus'', opt_str (case VideoUpdateInput_privacyStatus vu of
               Some v \<Rightarrow> Some v
             | None \<Rightarrow> map_option VideoStatus_privacyStatus (Video_status cv))),
           (''embeddable'', opt_bool (case VideoUpdateInput_embeddable vu of
               Some v \<Rightarrow> Some v
             | None \<Rightarrow> map_option VideoStatus_embeddable (Video_status cv))),
           (''publicStatsViewable'', opt_bool (case VideoUpdateInput_publicStatsViewable vu of
               Some v \<Rightarrow> Some v
             | None \<Rightarrow> map_option VideoStatus_publicStatsViewable (Video_status cv))),
           (''madeForKids'', opt_bool (case VideoUpdateInput_madeForKids vu of
               Some v \<Rightarrow> Some v
             | None \<Rightarrow> map_option VideoStatus_madeForKids (Video_status cv)))]
        else JUndefined)
   \<and> (snd (getPlaylist pf c rpl playlistId (Some [''snippet'', ''status''])) = Inr cp \<longrightarrow>
      (\<exists>get put.
           fst (getPlaylist pf c rpl playlistId (Some [''snippet'', ''status''])) = [get]
         \<and> fst (updatePlaylist pf c rpl rp playlistId pu) = [get, put]
         \<and> req_method get = None \<and> req_url get = API_BASE_URL @ ''/playlists''
         \<and> map_of (req_query get) ''id'' = Some playlistId
         \<and> req_method put = Some ''PUT'' \<and> req_url put = API_BASE_URL @ ''/playlists''
         \<and> req_body put =
              Some (Body (JSON_stringify (updatePlaylist_body playlistId pu cp) None))))
   \<and> (\<forall>e. snd (getPlaylist pf c rpl playlistId (Some [''snippet'', ''status''])) = Inl e \<longrightarrow>
         updatePlaylist pf c rpl rp playlistId pu =
           (fst (getPlaylist pf c rpl playlistId (Some [''snippet'', ''status''])), Inl e))
   \<and> get_prop (updatePlaylist_body playlistId pu cp) ''snippet'' =
       JObj
         [(''title'', opt_str (case PlaylistUpdateInput_title pu of
              Some v \<Rightarrow> Some v
            | None \<Rightarrow> map_option PlaylistSnippet_title (Playlist_snippet cp))),
          (''description'', opt_str (case PlaylistUpdateInput_description pu of
              Some v \<Rightarrow> Some v
            | None \<Rightarrow> map_option PlaylistSnippet_description (Playlist_snippet cp))),
          (''defaultLanguage'', opt_str (case PlaylistUpdateInput_defaultLanguage pu of
              Some v \<Rightarrow> Some v
            | None \<Rightarrow> Option.bind (Playlist_snippet cp) PlaylistSnippet_defaultLanguage))]
   \<and> get_prop (updatePlaylist_body playlistId pu cp) ''status'' =
       JObj
         [(''privacyStatus'', opt_str (case PlaylistUpdateInput_privacyStatus pu of
              Some v \<Rightarrow> Some v
            | None \<Rightarrow> map_option PlaylistStatus_privacyStatus (Playlist_status cp)))]
   \<and> get_prop (updateVideo_body videoId no_video_updates cv) ''snippet'' =
       JObj
         [(''title'', opt_str (map_option VideoSnippet_title (Video_snippet cv))),
          (''description'', opt_str (map_option VideoSnippet_description (Video_snippet cv))),
          (''tags'', opt_strs (Option.bind (Video_snippet cv) VideoSnippet_tags)),
          (''categoryId'', opt_str (map_option VideoSnippet_categoryId (Video_snippet cv))),
          (''defaultLanguage'',
             opt_str (Option.bind (Video_snippet cv) VideoSnippet_defaultLanguage))]
   \<and> updatePlaylist_body playlistId no_playlist_updates cp =
       JObj
         [(''id'', JStr playlistId),
          (''snippet'', JObj
             [(''title'', opt_str (map_option PlaylistSnippet_title (Playlist_snippet cp))),
              (''description'',
                 opt_str (map_option PlaylistSnippet_description (Playlist_snippet cp))),
              (''defaultLanguage'',
                 opt_str (Option.bind (Playlist_snippet cp) PlaylistSnippet_defaultLanguage))]),
          (''status'', JObj
             [(''privacyStatus'',
                 opt_str (map_option PlaylistStatus_privacyStatus (Playlist_status cp)))])]"
proof -
  have v1: "snd (getVideo pf c rvl videoId (Some [''snippet'', ''status''])) = Inr cv \<Longrightarrow>
      (\<exists>get put.
           fst (getVideo pf c rvl videoId (Some [''snippet'', ''status''])) = [get]
         \<and> fst (updateVideo pf c rvl rv videoId vu) = [get, put]
         \<and> req_method get = None \<and> req_url get = API_BASE_URL @ ''/videos''
         \<and> map_of (req_query get) ''id'' = Some videoId
         \<and> req_method put = Some ''PUT'' \<and> req_url put = API_BASE_URL @ ''/videos''
         \<and> req_body put = Some (Body (JSON_stringify (updateVideo_body videoId vu cv) None)))"
    by (rule updateVideo_requests)
  have v2: "\<And>e. snd (getVideo pf c rvl videoId (Some [''snippet'', ''status''])) = Inl e \<Longrightarrow>
         updateVideo pf c rvl rv videoId vu =
           (fst (getVideo pf c rvl videoId (Some [''snippet'', ''status''])), Inl e)"
    unfolding updateVideo_def by (rule await_then_failed)
  have p1: "snd (getPlaylist pf c rpl playlistId (Some [''snippet'', ''status''])) = Inr cp \<Longrightarrow>
      (\<exists>get put.
           fst (getPlaylist pf c rpl playlistId (Some [''snippet'', ''status''])) = [get]
         \<and> fst (updatePlaylist pf c rpl rp playlistId pu) = [get, put]
         \<and> req_method get = None \<and> req_url get = API_BASE_URL @ ''/playlists''
         \<and> map_of (req_query get) ''id'' = Some playlistId
         \<and> req_method put = Some ''PUT'' \<and> req_url put = API_BASE_URL @ ''/playlists''
         \<and> req_body put =
              Some (Body (JSON_stringify (updatePlaylist_body playlistId pu cp) None)))"
    by (rule updatePlaylist_requests)
  have p2: "\<And>e. snd (getPlaylist pf c rpl playlistId (Some [''snippet'', ''status''])) = Inl e \<Longrightarrow>
         updatePlaylist pf c rpl rp playlistId pu =
           (fst (getPlaylist pf c rpl playlistId (Some [''snippet'', ''status''])), Inl e)"
    unfolding updatePlaylist_def by (rule await_then_failed)
  have n1: "get_prop (updateVideo_body videoId no_video_updates cv) ''snippet'' =
       JObj
         [(''title'', opt_str (map_option VideoSnippet_title (Video_snippet cv))),
          (''description'', opt_str (map_option VideoSnippet_description (Video_snippet cv))),
          (''tags'', opt_strs (Option.bind (Video_snippet cv) VideoSnippet_tags)),
          (''categoryId'', opt_str (map_option VideoSnippet_categoryId (Video_snippet cv))),
          (''defaultLanguage'',
             opt_str (Option.bind (Video_snippet cv) VideoSnippet_defaultLanguage))]"
    by (simp add: updateVideo_body_def coalesce_def no_video_updates_def)
  have n2: "updatePlaylist_body playlistId no_playlist_updates cp =
       JObj
         [(''id'', JStr playlistId),
          (''snippet'', JObj
             [(''title'', opt_str (map_option PlaylistSnippet_title (Playlist_snippet cp))),
              (''description'',
                 opt_str (map_option PlaylistSnippet_description (Playlist_snippet cp))),
              (''defaultLanguage'',
                 opt_str (Option.bind (Playlist_snippet cp) PlaylistSnippet_defaultLanguage))]),
          (''status'', JObj
             [(''privacyStatus'',
                 opt_str (map_option PlaylistStatus_privacyStatus (Playlist_status cp)))])]"
    by (simp add: updatePlaylist_body_def coalesce_def no_playlist_updates_def)
  show ?thesis
    using v1 v2 p1 p2 n1 n2
      updateVideo_body_snippet [of videoId vu cv] updateVideo_body_status [of videoId vu cv]
      updatePlaylist_body_fields [of playlistId pu cp]
    by (intro conjI impI allI) (simp_all only:)
qed


text \<open>
  The claim as first stated fails on the status fields of a video: a call that
  supplies no field fetches a public video and sends a body without any
  \<^verbatim>\<open>status\<close>, so the fetched privacy status is not carried.
\<close>

theorem update_omits_status_counterexample:
  "fst (updateVideo (example_platform (example_response 200 None ''{}''))
          example_token_credentials (example_reader example_video_list)
          (example_reader example_video) ''dQw4'' no_video_updates)
   = [\<lparr> req_url = ''https://www.googleapis.com/youtube/v3/videos'',
        req_query = [(''part'', ''snippet,status''), (''id'', ''dQw4'')],
        req_method = None,
        req_headers = [(''Content-Type'', ''application/json''),
                       (''Authorization'', ''Bearer ya29.token'')],
        req_body = None \<rparr>,
      \<lparr> req_url = ''https://www.googleapis.com/youtube/v3/videos'',
        req_query = [(''part'', ''snippet,status'')],
        req_method = Some ''PUT'',
        req_headers = [(''Content-Type'', ''application/json''),
                       (''Authorization'', ''Bearer ya29.token'')],
        req_body = Some (Body (JSON_stringify
          (JObj [(''id'', JStr ''dQw4''),
                 (''snippet'', JObj
                    [(''title'', JStr ''Launch''),
                     (''description'', JStr ''First flight''),
                     (''tags'', JArr [JStr ''space'']),
                     (''categoryId'', JStr ''28''),
                     (''defaultLanguage'', JUndefined)])]) None)) \<rparr>]
   \<and> VideoUpdateInput_privacyStatus no_video_updates = None
   \<and> map_option VideoStatus_privacyStatus (Video_status example_video) = Some ''public''
   \<and> get_prop (updateVideo_body ''dQw4'' no_video_updates example_video) ''status'' = JUndefined"
  by (simp add: updateVideo_def updateVideo_body_def coalesce_def opt_str_def opt_strs_def
      opt_bool_def getVideo_def listVideos_def request_defs example_defs request_respond_def
      response_ok_def toPaginatedResponse_def Let_def)

theorem update_merges_over_current_witness:
  "(\<exists>get put.
       fst (getVideo (example_platform (example_response 200 None ''{}''))
              example_token_credentials (example_reader example_video_list) ''dQw4''
              (Some [''snippet'', ''status''])) = [get]
     \<and> fst (updateVideo (example_platform (example_response 200 None ''{}''))
              example_token_credentials (example_reader example_video_list)
              (example_reader example_video) ''dQw4'' example_video_updates) = [get, put]
     \<and> req_method get = None \<and> map_of (req_query get) ''id'' = Some ''dQw4''
     \<and> req_method put = Some ''PUT''
     \<and> req_body put = Some (Body (JSON_stringify
          (updateVideo_body ''dQw4'' example_video_updates example_video) None)))
   \<and> get_prop (updateVideo_body ''dQw4'' example_video_updates example_video) ''snippet'' =
       JObj [(''title'', JStr ''Relaunch''),
             (''description'', JStr ''First flight''),
             (''tags'', JArr [JStr ''space'']),
             (''categoryId'', JStr ''28''),
             (''defaultLanguage'', JUndefined)]
   \<and> (\<exists>get put.
       fst (getPlaylist (example_platform (example_response 200 None ''{}''))
              example_token_credentials (example_reader example_playlist_list) ''PL42''
              (Some [''snippet'', ''status''])) = [get]
     \<and> fst (updatePlaylist (example_platform (example_response 200 None ''{}''))
              example_token_credentials (example_reader example_playlist_list)
              (example_reader example_playlist) ''PL42'' no_playlist_updates) = [get, put]
     \<and> req_method get = None \<and> map_of (req_query get) ''id'' = Some ''PL42''
     \<and> req_method put = Some ''PUT''
     \<and> req_body put = Some (Body (JSON_stringify
          (JObj [(''id'', JStr ''PL42''),
                 (''snippet'', JObj [(''title'', JStr ''Flights''),
                                     (''description'', JStr ''All launches''),
                                     (''defaultLanguage'', JStr ''en'')]),
                 (''status'', JObj [(''privacyStatus'', JStr ''private'')])]) None)))"
proof -
  let ?P = "example_platform (example_response 200 None ''{}'')"
  note t = update_merges_over_current
    [where pf = ?P and c = example_token_credentials
       and rvl = "example_reader example_video_list" and rv = "example_reader example_video"
       and videoId = "''dQw4''" and vu = example_video_updates and cv = example_video
       and rpl = "example_reader example_playlist_list"
       and rp = "example_reader example_playlist"
       and playlistId = "''PL42''" and pu = no_playlist_updates and cp = example_playlist]
  have a: "\<exists>get put.
       fst (getVideo ?P example_token_credentials (example_reader example_video_list) ''dQw4''
              (Some [''snippet'', ''status''])) = [get]
     \<and> fst (updateVideo ?P example_token_credentials (example_reader example_video_list)
              (example_reader example_video) ''dQw4'' example_video_updates) = [get, put]
     \<and> req_method get = None \<and> map_of (req_query get) ''id'' = Some ''dQw4''
     \<and> req_method put = Some ''PUT''
     \<and> req_body put = Some (Body (JSON_stringify
          (updateVideo_body ''dQw4'' example_video_updates example_video) None))"
    using t [THEN conjunct1, THEN mp, OF example_results(1)] by blast
  have b: "get_prop (updateVideo_body ''dQw4'' example_video_updates example_video) ''snippet'' =
       JObj [(''title'', JStr ''Relaunch''),
             (''description'', JStr ''First flight''),
             (''tags'', JArr [JStr ''space'']),
             (''categoryId'', JStr ''28''),
             (''defaultLanguage'', JUndefined)]"
    using t [THEN conjunct2, THEN conjunct2, THEN conjunct1]
    by (simp add: example_video_updates_def no_video_updates_def example_video_def
        opt_str_def opt_strs_def)
  have c: "\<exists>get put.
       fst (getPlaylist ?P example_token_credentials (example_reader example_playlist_list)
              ''PL42'' (Some [''snippet'', ''status''])) = [get]
     \<and> fst (updatePlaylist ?P example_token_credentials (example_reader example_playlist_list)
              (example_reader example_playlist) ''PL42'' no_playlist_updates) = [get, put]
     \<and> req_method get = None \<and> map_of (req_query get) ''id'' = Some ''PL42''
     \<and> req_method put = Some ''PUT''
     \<and> req_body put = Some (Body (JSON_stringify
          (updatePlaylist_body ''PL42'' no_playlist_updates example_playlist) None))"
    using t [THEN conjunct2, THEN conjunct2, THEN conjunct2, THEN conjunct2, THEN conjunct1,
        THEN mp, OF example_results(2)] by blast
  have d: "updatePlaylist_body ''PL42'' no_playlist_updates example_playlist =
          JObj [(''id'', JStr ''PL42''),
                 (''snippet'', JObj [(''title'', JStr ''Flights''),
                                     (''description'', JStr ''All launches''),
                                     (''defaultLanguage'', JStr ''en'')]),
                 (''status'', JObj [(''privacyStatus'', JStr ''private'')])]"
    using t by (simp add: example_playlist_def opt_str_def)
  show ?thesis
    using a b c unfolding d by blast
qed


section \<open>Caption uploads\<close>

text \<open>
  C10. With credentials that have no access token, \<^verbatim>\<open>insertCaption\<close>, and
  \<^verbatim>\<open>updateCaption\<close> when it is given non-empty caption data, always issue their
  multipart upload request, whatever the API key: no authentication error is raised
  before it, and the request carries the single header
  \<^verbatim>\<open>Authorization: Bearer undefined\<close>. With neither credential the request helper
  instead throws an authentication error and issues nothing, and so does
  \<^verbatim>\<open>updateCaption\<close> without caption data, which goes through the helper.
\<close>

theorem caption_upload_skips_auth_check:
  "(accessToken c = None \<longrightarrow>
      (\<exists>req md. fst (insertCaption pf c rd videoId caption) = [req]
         \<and> req_url req = ''https://www.googleapis.com/upload/youtube/v3/captions''
         \<and> req_query req = [(''uploadType'', ''multipart''), (''part'', ''snippet'')]
         \<and> req_method req = Some ''POST''
         \<and> req_headers req = [(''Authorization'', ''Bearer undefined'')]
         \<and> req_body req = Some (FormData
              [(''metadata'', md, ''application/json''),
               (''media'', Raw (CaptionInsertInput_captionData caption), ''text/plain'')])))
   \<and> (\<forall>d. accessToken c = None \<and> CaptionUpdateInput_captionData updates = Some d \<and> d \<noteq> []
        \<longrightarrow>
      (\<exists>req md. fst (updateCaption pf c rd' captionId updates) = [req]
         \<and> req_url req = ''https://www.googleapis.com/upload/youtube/v3/captions''
         \<and> req_query req = [(''uploadType'', ''multipart''), (''part'', ''snippet'')]
         \<and> req_method req = Some ''PUT''
         \<and> req_headers req = [(''Authorization'', ''Bearer undefined'')]
         \<and> req_body req = Some (FormData
              [(''metadata'', md, ''application/json''), (''media'', Raw d, ''text/plain'')])))
   \<and> (accessToken c = None \<and> \<not> truthy_str (apiKey c) \<longrightarrow>
      (\<exists>e. request pf c rd'' endpoint options = ([], Inl (Thrown_Api e))
         \<and> cls e = Class_AuthenticationError)
      \<and> (\<not> truthy_str (CaptionUpdateInput_captionData updates) \<longrightarrow>
           (\<exists>e. updateCaption pf c rd' captionId updates = ([], Inl (Thrown_Api e))
              \<and> cls e = Class_AuthenticationError)))"
proof -
  have ins: "accessToken c = None \<Longrightarrow>
      (\<exists>req md. fst (insertCaption pf c rd videoId caption) = [req]
         \<and> req_url req = ''https://www.googleapis.com/upload/youtube/v3/captions''
         \<and> req_query req = [(''uploadType'', ''multipart''), (''part'', ''snippet'')]
         \<and> req_method req = Some ''POST''
         \<and> req_headers req = [(''Authorization'', ''Bearer undefined'')]
         \<and> req_body req = Some (FormData
              [(''metadata'', md, ''application/json''),
               (''media'', Raw (CaptionInsertInput_captionData caption), ''text/plain'')]))"
    by (cases "fetch pf (upload_request c ''POST'' (FormData
          [(''metadata'', JSON_stringify (JObj [(''snippet'', JObj
              [(''videoId'', JStr videoId),
               (''language'', JStr (CaptionInsertInput_language caption)),
               (''name'', JStr (CaptionInsertInput_name caption)),
               (''isDraft'', JBool (case CaptionInsertInput_isDraft caption of
                                      None \<Rightarrow> False | Some b \<Rightarrow> b))])]) None,
            ''application/json''),
           (''media'', Raw (CaptionInsertInput_captionData caption), ''text/plain'')]))")
      (simp_all add: insertCaption_def upload_request_def template_str_def Let_def)
  have upd: "\<And>d. accessToken c = None \<Longrightarrow> CaptionUpdateInput_captionData updates = Some d \<Longrightarrow>
      d \<noteq> [] \<Longrightarrow>
      (\<exists>req md. fst (updateCaption pf c rd' captionId updates) = [req]
         \<and> req_url req = ''https://www.googleapis.com/upload/youtube/v3/captions''
         \<and> req_query req = [(''uploadType'', ''multipart''), (''part'', ''snippet'')]
         \<and> req_method req = Some ''PUT''
         \<and> req_headers req = [(''Authorization'', ''Bearer undefined'')]
         \<and> req_body req = Some (FormData
              [(''metadata'', md, ''application/json''), (''media'', Raw d, ''text/plain'')]))"
    subgoal for d
      by (cases "fetch pf (upload_request c ''PUT'' (FormData
          [(''metadata'', JSON_stringify (JObj ([(''id'', JStr captionId)] @
                  (case CaptionUpdateInput_isDraft updates of
                     None \<Rightarrow> []
                   | Some b \<Rightarrow> [(''snippet'', JObj [(''isDraft'', JBool b)])]))) None,
            ''application/json''),
           (''media'', Raw d, ''text/plain'')]))")
        (simp_all add: updateCaption_def upload_request_def template_str_def truthy_str_def Let_def)
    done
  have rq: "accessToken c = None \<Longrightarrow> \<not> truthy_str (apiKey c) \<Longrightarrow>
      (\<exists>e. request pf c rd'' endpoint options = ([], Inl (Thrown_Api e))
         \<and> cls e = Class_AuthenticationError)"
    using request_auth_none [of c pf rd'' endpoint options]
    by (auto simp: truthy_str_def)
  have rq2: "accessToken c = None \<Longrightarrow> \<not> truthy_str (apiKey c) \<Longrightarrow>
      \<not> truthy_str (CaptionUpdateInput_captionData updates) \<Longrightarrow>
      (\<exists>e. updateCaption pf c rd' captionId updates = ([], Inl (Thrown_Api e))
              \<and> cls e = Class_AuthenticationError)"
    using request_auth_none [of c pf rd' "''/captions''"]
    by (auto simp: updateCaption_def truthy_str_def Let_def)
  show ?thesis
    using ins upd rq rq2 by blast
qed

theorem caption_upload_skips_auth_check_witness:
  "(\<exists>req md. fst (insertCaption (example_platform (example_response 200 None ''{}''))
                   example_key_credentials (example_reader ()) ''dQw4'' example_caption) = [req]
         \<and> req_url req = ''https://www.googleapis.com/upload/youtube/v3/captions''
         \<and> req_query req = [(''uploadType'', ''multipart''), (''part'', ''snippet'')]
         \<and> req_method req = Some ''POST''
         \<and> req_headers req = [(''Authorization'', ''Bearer undefined'')]
         \<and> req_body req = Some (FormData
              [(''metadata'', md, ''application/json''),
               (''media'', Raw (CaptionInsertInput_captionData example_caption),
                  ''text/plain'')]))
   \<and> (\<exists>e. request (example_platform (example_response 200 None ''{}''))
             example_no_credentials (example_reader ()) ''/captions'' (get_options [])
           = ([], Inl (Thrown_Api e))
         \<and> cls e = Class_AuthenticationError)"
proof -
  have k: "accessToken example_key_credentials = None"
    by (simp add: example_key_credentials_def)
  have n: "accessToken example_no_credentials = None
      \<and> \<not> truthy_str (apiKey example_no_credentials)"
    by (simp add: example_no_credentials_def truthy_str_def)
  note a = caption_upload_skips_auth_check
    [of example_key_credentials "example_platform (example_response 200 None ''{}'')"
        "example_reader ()" "''dQw4''" example_caption,
     THEN conjunct1, THEN mp, OF k]
  note b = caption_upload_skips_auth_check
    [of example_no_credentials "example_platform (example_response 200 None ''{}'')"
        _ _ _ _ _ _ "example_reader ()" "''/captions''" "get_options []",
     THEN conjunct2, THEN conjunct2, THEN mp, OF n, THEN conjunct1]
  show ?thesis
    using a b by (rule conjI)
qed


section \<open>Error payloads\<close>

text \<open>
  C7, as amended. For every thrown value that is an \<^verbatim>\<open>Error\<close>, and for every
  other thrown value that \<^verbatim>\<open>String\<close> converts, \<^verbatim>\<open>formatError\<close> returns a
  payload marked as an error, whose text serializes an object with a message that
  starts with \<^verbatim>\<open>Error: \<close> and a details object. For an instance of the error
  classes of the client the message is followed by \<^verbatim>\<open> (retryable)\<close> exactly when
  the retryable flag is set, and the details carry name, message, code, status code
  and retryable flag, then the retry-after seconds of a rate-limit error and the
  detail map of a validation error. For any other \<^verbatim>\<open>Error\<close> the message has no
  suffix and the details carry only its name, message and stack. A thrown value that
  is not an \<^verbatim>\<open>Error\<close> is stringified, into the message and into the one
  \<^verbatim>\<open>error\<close> field of the details: a string gives itself, \<^verbatim>\<open>undefined\<close>,
  \<^verbatim>\<open>null\<close> and a boolean their names, a number the platform's conversion, an object
  without a property \<^verbatim>\<open>toString\<close> the text \<^verbatim>\<open>[object Object]\<close>.
\<close>

theorem formatError_payload:
  "formatError pf (Thrown_Api e) =
     Inr \<lparr> content =
               [\<lparr> content_type = ''text'',
                  content_text =
                    JSON_stringify
                      (JObj [(''error'', JStr (''Error: '' @ message e @ (if retryable e then '' (retryable)'' else []))),
                             (''details'', JObj ([(''name'', JStr (name e)),
                                 (''message'', JStr (message e)),
                                 (''code'', JStr (code e)),
                                 (''statusCode'',
                                    (case statusCode e of
                                       None \<Rightarrow> JUndefined
                                     | Some n \<Rightarrow> JNum (Finite (of_int n)))),
                                 (''retryable'', JBool (retryable e))]
                                @ (if cls e = Class_RateLimitError
                                   then [(''retryAfterSeconds'',
                                           (case retryAfterSeconds e of
                                              None \<Rightarrow> JUndefined
                                            | Some n \<Rightarrow> JNum n))]
                                   else [])
                                @ (if cls e = Class_ValidationError
                                   then [(''details'',
                                           (case details e of
                                              None \<Rightarrow> JUndefined
                                            | Some d \<Rightarrow>
                                                JObj (map (\<lambda>kv. (fst kv, JArr (map JStr (snd kv))))
                                                        d)))]
                                   else [])))])
                      (Some 2) \<rparr>],
             isError = Some True \<rparr>
   \<and> formatError pf (Thrown_Error nm m stack) =
     Inr \<lparr> content =
               [\<lparr> content_type = ''text'',
                  content_text =
                    JSON_stringify
                      (JObj [(''error'', JStr (''Error: '' @ m)),
                             (''details'', JObj ([(''name'', JStr nm), (''message'', JStr m),
                                 (''stack'', (case stack of None \<Rightarrow> JUndefined | Some t \<Rightarrow> JStr t))]))])
                      (Some 2) \<rparr>],
             isError = Some True \<rparr>
   \<and> (js_String (Number_toString pf) v = Some s \<longrightarrow>
        formatError pf (Thrown_Value v) =
          Inr \<lparr> content =
               [\<lparr> content_type = ''text'',
                  content_text =
                    JSON_stringify
                      (JObj [(''error'', JStr (''Error: '' @ s)),
                             (''details'', JObj ([(''error'', JStr s)]))])
                      (Some 2) \<rparr>],
             isError = Some True \<rparr>)
   \<and> js_String num (JStr t) = Some t
   \<and> js_String num JUndefined = Some ''undefined''
   \<and> js_String num JNull = Some ''null''
   \<and> js_String num (JBool b) = Some (if b then ''true'' else ''false'')
   \<and> js_String num (JNum n) = Some (num n)
   \<and> (''toString'' \<notin> fst ` set kvs \<longrightarrow> js_String num (JObj kvs) = Some ''[object Object]'')"
  by (simp add: formatError_def formatErrorForLogging_def String_or_throw_def opt_str_def
      split: option.split)

text \<open>
  When the conversion of a thrown value to a string throws, \<^verbatim>\<open>formatError\<close>
  returns no payload: the \<^verbatim>\<open>TypeError\<close> leaves it.
\<close>

lemma formatError_conversion_throws:
  "js_String (Number_toString pf) v = None \<Longrightarrow>
     formatError pf (Thrown_Value v) = Inl TypeError_primitive"
  by (simp add: formatError_def formatErrorForLogging_def String_or_throw_def)

lemma formatError_conversion_throws_example:
  "formatError (example_platform (example_response 200 None ''{}''))
     (Thrown_Value (JObj [(''toString'', JStr ''x'')])) = Inl TypeError_primitive"
  by (simp add: formatError_conversion_throws)

text \<open>
  The claim as first stated fails on an \<^verbatim>\<open>Error\<close> that is not of the client's
  classes, such as the \<^verbatim>\<open>TypeError\<close> of a failed \<^verbatim>\<open>fetch\<close>: its details
  carry no code, no status code and no retryable flag.
\<close>

theorem formatError_plain_error_counterexample:
  "formatError (example_platform (example_response 200 None ''{}''))
      (Thrown_Error ''TypeError'' ''fetch failed'' None) =
     Inr \<lparr> content =
         [\<lparr> content_type = ''text'',
            content_text =
              JSON_stringify
                (JObj [(''error'', JStr ''Error: fetch failed''),
                       (''details'', JObj [(''name'', JStr ''TypeError''),
                                           (''message'', JStr ''fetch failed''),
                                           (''stack'', JUndefined)])])
                (Some 2) \<rparr>],
       isError = Some True \<rparr>
   \<and> (\<exists>info. formatErrorForLogging (example_platform (example_response 200 None ''{}''))
                (Thrown_Error ''TypeError'' ''fetch failed'' None) = Inr info
         \<and> map_of info ''code'' = None
         \<and> map_of info ''statusCode'' = None
         \<and> map_of info ''retryable'' = None)"
  by (simp add: formatError_def formatErrorForLogging_def opt_str_def)

theorem formatError_payload_witness:
  "formatError (example_platform (example_response 200 None ''{}''))
      (Thrown_Api (new_RateLimitError ''Rate limit exceeded'' (Finite 60))) =
     Inr \<lparr> content =
         [\<lparr> content_type = ''text'',
            content_text =
              JSON_stringify
                (JObj [(''error'', JStr ''Error: Rate limit exceeded (retryable)''),
                       (''details'', JObj
                          [(''name'', JStr ''RateLimitError''),
                           (''message'', JStr ''Rate limit exceeded''),
                           (''code'', JStr ''RATE_LIMIT_EXCEEDED''),
                           (''statusCode'', JNum (Finite 429)),
                           (''retryable'', JBool True),
                           (''retryAfterSeconds'', JNum (Finite 60))])])
                (Some 2) \<rparr>],
       isError = Some True \<rparr>
   \<and> formatError (example_platform (example_response 200 None ''{}''))
      (Thrown_Api (new_ValidationError ''Invalid input'' (Some [(''title'', [''required''])]))) =
     Inr \<lparr> content =
         [\<lparr> content_type = ''text'',
            content_text =
              JSON_stringify
                (JObj [(''error'', JStr ''Error: Invalid input''),
                       (''details'', JObj
                          [(''name'', JStr ''ValidationError''),
                           (''message'', JStr ''Invalid input''),
                           (''code'', JStr ''VALIDATION_ERROR''),
                           (''statusCode'', JNum (Finite 400)),
                           (''retryable'', JBool False),
                           (''details'', JObj [(''title'', JArr [JStr ''required''])])])])
                (Some 2) \<rparr>],
       isError = Some True \<rparr>
   \<and> formatError (example_platform (example_response 200 None ''{}''))
      (Thrown_Error ''SyntaxError'' ''Unexpected token'' (Some ''at parse'')) =
     Inr \<lparr> content =
         [\<lparr> content_type = ''text'',
            content_text =
              JSON_stringify
                (JObj [(''error'', JStr ''Error: Unexpected token''),
                       (''details'', JObj [(''name'', JStr ''SyntaxError''),
                                           (''message'', JStr ''Unexpected token''),
                                           (''stack'', JStr ''at parse'')])])
                (Some 2) \<rparr>],
       isError = Some True \<rparr>
   \<and> formatError (example_platform (example_response 200 None ''{}''))
      (Thrown_Value (JArr [JStr ''quota'', JNull, JNum (Finite 42), JObj []])) =
     Inr \<lparr> content =
         [\<lparr> content_type = ''text'',
            content_text =
              JSON_stringify
                (JObj [(''error'', JStr ''Error: quota,,42,[object Object]''),
                       (''details'', JObj [(''error'', JStr ''quota,,42,[object Object]'')])])
                (Some 2) \<rparr>],
       isError = Some True \<rparr>"
proof -
  let ?P = "example_platform (example_response 200 None ''{}'')"
  note t = formatError_payload [where pf = ?P]
  have a: "formatError ?P (Thrown_Api (new_RateLimitError ''Rate limit exceeded'' (Finite 60))) =
     Inr \<lparr> content =
         [\<lparr> content_type = ''text'',
            content_text =
              JSON_stringify
                (JObj [(''error'', JStr ''Error: Rate limit exceeded (retryable)''),
                       (''details'', JObj
                          [(''name'', JStr ''RateLimitError''),
                           (''message'', JStr ''Rate limit exceeded''),
                           (''code'', JStr ''RATE_LIMIT_EXCEEDED''),
                           (''statusCode'', JNum (Finite 429)),
                           (''retryable'', JBool True),
                           (''retryAfterSeconds'', JNum (Finite 60))])])
                (Some 2) \<rparr>],
       isError = Some True \<rparr>"
    using t [where e = "new_RateLimitError ''Rate limit exceeded'' (Finite 60)", THEN conjunct1]
    by (simp add: new_defs)
  have b: "formatError ?P
      (Thrown_Api (new_ValidationError ''Invalid input'' (Some [(''title'', [''required''])]))) =
     Inr \<lparr> content =
         [\<lparr> content_type = ''text'',
            content_text =
              JSON_stringify
                (JObj [(''error'', JStr ''Error: Invalid input''),
                       (''details'', JObj
                          [(''name'', JStr ''ValidationError''),
                           (''message'', JStr ''Invalid input''),
                           (''code'', JStr ''VALIDATION_ERROR''),
                           (''statusCode'', JNum (Finite 400)),
                           (''retryable'', JBool False),
                           (''details'', JObj [(''title'', JArr [JStr ''required''])])])])
                (Some 2) \<rparr>],
       isError = Some True \<rparr>"
    using t [where e = "new_ValidationError ''Invalid input'' (Some [(''title'', [''required''])])",
        THEN conjunct1]
    by (simp add: new_defs)
  have c: "formatError ?P (Thrown_Error ''SyntaxError'' ''Unexpected token'' (Some ''at parse'')) =
     Inr \<lparr> content =
         [\<lparr> content_type = ''text'',
            content_text =
              JSON_stringify
                (JObj [(''error'', JStr ''Error: Unexpected token''),
                       (''details'', JObj [(''name'', JStr ''SyntaxError''),
                                           (''message'', JStr ''Unexpected token''),
                                           (''stack'', JStr ''at parse'')])])
                (Some 2) \<rparr>],
       isError = Some True \<rparr>"
    using t [where nm = "''SyntaxError''" and m = "''Unexpected token''"
        and stack = "Some ''at parse''", THEN conjunct2, THEN conjunct1]
    by simp
  have n42: "example_Number_toString (Finite 42) = ''42''"
    by code_simp
  have s: "js_String (Number_toString ?P)
             (JArr [JStr ''quota'', JNull, JNum (Finite 42), JObj []])
           = Some ''quota,,42,[object Object]''"
    by (simp add: example_platform_def n42)
  have d: "formatError ?P
      (Thrown_Value (JArr [JStr ''quota'', JNull, JNum (Finite 42), JObj []])) =
     Inr \<lparr> content =
         [\<lparr> content_type = ''text'',
            content_text =
              JSON_stringify
                (JObj [(''error'', JStr ''Error: quota,,42,[object Object]''),
                       (''details'', JObj [(''error'', JStr ''quota,,42,[object Object]'')])])
                (Some 2) \<rparr>],
       isError = Some True \<rparr>"
    using t [where v = "JArr [JStr ''quota'', JNull, JNum (Finite 42), JObj []]"
        and s = "''quota,,42,[object Object]''",
        THEN conjunct2, THEN conjunct2, THEN conjunct1, THEN mp, OF s]
    by simp
  show ?thesis
    using a b c d by blast
qed


section \<open>Markdown rendering of an envelope\<close>


text \<open>
  What the rendering is whenever it renders. The markdown of a paginated envelope
  starts with its header lines: the entity type with its first code unit in upper
  case, an empty line, the counts (the total when the envelope has one, and the
  number shown), the continuation token when the envelope has more and a non-empty
  token, and an empty line. With no items the notice \<^verbatim>\<open>_No items found._\<close>
  follows and nothing else, so no table. With items, and for each of the eight entity
  types \<^verbatim>\<open>videos\<close>, \<^verbatim>\<open>channels\<close>, \<^verbatim>\<open>playlists\<close>, \<^verbatim>\<open>playlistItems\<close>,
  \<^verbatim>\<open>searchResults\<close>, \<^verbatim>\<open>comments\<close>, \<^verbatim>\<open>commentThreads\<close> and
  \<^verbatim>\<open>subscriptions\<close>, the table of that type follows: its column header, its
  separator and one row for each item, a missing or empty text cell and a missing
  number cell being a dash, a title cut to 40 code units and a comment to 50. For any
  other entity type the generic table follows, whenever the keys of the first item
  can be read and every cell read converts to a string: its columns are the first
  five keys of the first item, and each row holds the values of an item at these
  keys, a dash for a value that is \<^verbatim>\<open>null\<close> or \<^verbatim>\<open>undefined\<close>.
\<close>

lemma formatPaginatedAsMarkdown_rendering:
  "paginated_header pf data entityType =
       [''## '' @ String_toUpperCase pf (take 1 entityType) @ drop 1 entityType, [],
        (case totalResults data of
           Some n \<Rightarrow>
             ''**Total:** '' @ Number_toString pf n @ '' | **Showing:** ''
               @ Number_toString pf (Finite (of_nat (count data)))
         | None \<Rightarrow> ''**Showing:** '' @ Number_toString pf (Finite (of_nat (count data))))]
       @ (case nextPageToken data of
            Some t \<Rightarrow>
              if hasMore data \<and> t \<noteq> []
              then [''**More available:** Yes (nextPageToken: `'' @ t @ ''`)'']
              else []
          | None \<Rightarrow> [])
       @ [[]]
   \<and> (items data = [] \<longrightarrow>
      formatPaginatedAsMarkdown pf cs data entityType =
        Inr (join newline (paginated_header pf data entityType @ [''_No items found._''])))
   \<and> (items data \<noteq> [] \<longrightarrow>
      formatPaginatedAsMarkdown pf cs data ''videos'' =
        Inr (join newline (paginated_header pf data ''videos'' @
          [join newline
               ([''| ID | Title | Channel | Views | Duration |'', ''|---|---|---|---|---|''] @
                map (\<lambda>video.
                       let title = truncate
                             (str_or (map_option VideoSnippet_title (Video_snippet video)) ''-'') 40;
                           channel =
                             str_or (map_option VideoSnippet_channelTitle (Video_snippet video)) ''-'';
                           views =
                             str_or (map_option VideoStatistics_viewCount (Video_statistics video)) ''-'';
                           duration =
                             str_or (map_option VideoContentDetails_duration
                               (Video_contentDetails video)) ''-''
                       in ''| '' @ Video_id video @ '' | '' @ title @ '' | '' @ channel @ '' | ''
                            @ views @ '' | '' @ duration @ '' |'')
                  (map (as_Video cs) (items data)))])))
   \<and> (items data \<noteq> [] \<longrightarrow>
      formatPaginatedAsMarkdown pf cs data ''channels'' =
        Inr (join newline (paginated_header pf data ''channels'' @
          [join newline
               ([''| ID | Title | Subscribers | Videos |'', ''|---|---|---|---|''] @
                map (\<lambda>channel.
                       let title = truncate
                             (str_or (map_option ChannelSnippet_title (Channel_snippet channel)) ''-'') 40;
                           subs = str_or (Option.bind (Channel_statistics channel)
                                    ChannelStatistics_subscriberCount) ''-'';
                           videos = str_or (map_option ChannelStatistics_videoCount
                                      (Channel_statistics channel)) ''-''
                       in ''| '' @ Channel_id channel @ '' | '' @ title @ '' | '' @ subs @ '' | ''
                            @ videos @ '' |'')
                  (map (as_Channel cs) (items data)))])))
   \<and> (items data \<noteq> [] \<longrightarrow>
      formatPaginatedAsMarkdown pf cs data ''playlists'' =
        Inr (join newline (paginated_header pf data ''playlists'' @
          [join newline
               ([''| ID | Title | Items | Privacy |'', ''|---|---|---|---|''] @
                map (\<lambda>playlist.
                       let title = truncate
                             (str_or (map_option PlaylistSnippet_title (Playlist_snippet playlist))
                                ''-'') 40;
                           its = num_or_dash pf (map_option PlaylistContentDetails_itemCount
                                   (Playlist_contentDetails playlist));
                           privacy = str_or (map_option PlaylistStatus_privacyStatus
                                       (Playlist_status playlist)) ''-''
                       in ''| '' @ Playlist_id playlist @ '' | '' @ title @ '' | '' @ its @ '' | ''
                            @ privacy @ '' |'')
                  (map (as_Playlist cs) (items data)))])))
   \<and> (items data \<noteq> [] \<longrightarrow>
      formatPaginatedAsMarkdown pf cs data ''playlistItems'' =
        Inr (join newline (paginated_header pf data ''playlistItems'' @
          [join newline
               ([''| ID | Position | Video Title | Video ID |'', ''|---|---|---|---|''] @
                map (\<lambda>item.
                       let title = truncate
                             (str_or (map_option PlaylistItemSnippet_title (PlaylistItem_snippet item))
                                ''-'') 40;
                           position = num_or_dash pf (map_option PlaylistItemSnippet_position
                                        (PlaylistItem_snippet item));
                           videoId =
                             str_or (map_option PlaylistItemContentDetails_videoId
                                       (PlaylistItem_contentDetails item))
                               (str_or (Option.bind (PlaylistItem_snippet item)
                                          (\<lambda>sn. ResourceId_videoId (PlaylistItemSnippet_resourceId sn)))
                                  ''-'')
                       in ''| '' @ PlaylistItem_id item @ '' | '' @ position @ '' | '' @ title @ '' | ''
                            @ videoId @ '' |'')
                  (map (as_PlaylistItem cs) (items data)))])))
   \<and> (items data \<noteq> [] \<longrightarrow>
      formatPaginatedAsMarkdown pf cs data ''searchResults'' =
        Inr (join newline (paginated_header pf data ''searchResults'' @
          [join newline
               ([''| Type | ID | Title | Channel |'', ''|---|---|---|---|''] @
                map (\<lambda>result.
                       let type = String_replace (ResourceId_kind (SearchResult_id result))
                                    ''youtube#'' [];
                           ident =
                             str_or (ResourceId_videoId (SearchResult_id result))
                               (str_or (ResourceId_channelId (SearchResult_id result))
                                  (str_or (ResourceId_playlistId (SearchResult_id result)) ''-''));
                           title = truncate
                             (str_or (map_option SearchResultSnippet_title (SearchResult_snippet result))
                                ''-'') 40;
                           channel = str_or (map_option SearchResultSnippet_channelTitle
                                       (SearchResult_snippet result)) ''-''
                       in ''| '' @ type @ '' | '' @ ident @ '' | '' @ title @ '' | '' @ channel @ '' |'')
                  (map (as_SearchResult cs) (items data)))])))
   \<and> (items data \<noteq> [] \<longrightarrow>
      formatPaginatedAsMarkdown pf cs data ''comments'' =
        Inr (join newline (paginated_header pf data ''comments'' @
          [join newline
               ([''| ID | Author | Comment | Likes |'', ''|---|---|---|---|''] @
                map (\<lambda>comment.
                       let author = str_or (map_option CommentSnippet_authorDisplayName
                                      (Comment_snippet comment)) ''-'';
                           txt = truncate
                             (str_or (map_option CommentSnippet_textDisplay (Comment_snippet comment))
                                ''-'') 50;
                           likes = num_or_dash pf (map_option CommentSnippet_likeCount
                                     (Comment_snippet comment))
                       in ''| '' @ Comment_id comment @ '' | '' @ author @ '' | '' @ txt @ '' | ''
                            @ likes @ '' |'')
                  (map (as_Comment cs) (items data)))])))
   \<and> (items data \<noteq> [] \<longrightarrow>
      formatPaginatedAsMarkdown pf cs data ''commentThreads'' =
        Inr (join newline (paginated_header pf data ''commentThreads'' @
          [join newline
               ([''| ID | Author | Comment | Replies |'', ''|---|---|---|---|''] @
                map (\<lambda>thread.
                       let comment = map_option CommentThreadSnippet_topLevelComment
                                       (CommentThread_snippet thread);
                           author = str_or (map_option CommentSnippet_authorDisplayName
                                      (Option.bind comment Comment_snippet)) ''-'';
                           txt = truncate
                             (str_or (map_option CommentSnippet_textDisplay
                                (Option.bind comment Comment_snippet)) ''-'') 50;
                           replies = num_or_dash pf (map_option CommentThreadSnippet_totalReplyCount
                                       (CommentThread_snippet thread))
                       in ''| '' @ CommentThread_id thread @ '' | '' @ author @ '' | '' @ txt @ '' | ''
                            @ replies @ '' |'')
                  (map (as_CommentThread cs) (items data)))])))
   \<and> (items data \<noteq> [] \<longrightarrow>
      formatPaginatedAsMarkdown pf cs data ''subscriptions'' =
        Inr (join newline (paginated_header pf data ''subscriptions'' @
          [join newline
               ([''| ID | Channel | New Items |'', ''|---|---|---|''] @
                map (\<lambda>sub.
                       let title = truncate
                             (str_or (map_option SubscriptionSnippet_title (Subscription_snippet sub))
                                ''-'') 40;
                           newItems = num_or_dash pf (map_option SubscriptionContentDetails_newItemCount
                                        (Subscription_contentDetails sub))
                       in ''| '' @ Subscription_id sub @ '' | '' @ title @ '' | '' @ newItems @ '' |'')
                  (map (as_Subscription cs) (items data)))])))
   \<and> (items data = first # rest
      \<and> entityType \<notin> {''videos'', ''channels'', ''playlists'', ''playlistItems'',
                          ''searchResults'', ''comments'', ''commentThreads'', ''subscriptions''}
      \<and> Object_keys cs first = Inr ks
      \<and> (\<forall>item \<in> set (items data). \<forall>k \<in> set (take 5 ks).
            \<exists>c. property_String cs item k = Inr c) \<longrightarrow>
      formatPaginatedAsMarkdown pf cs data entityType =
        Inr (join newline (paginated_header pf data entityType @
          [join newline
             ([''| '' @ join '' | '' (take 5 ks) @ '' |'',
               ''|'' @ join ''|'' (map (\<lambda>k. ''---'') (take 5 ks)) @ ''|''] @
              map (\<lambda>item.
                     ''| '' @ join '' | ''
                       (map (\<lambda>k. case property_String cs item k of
                                    Inr (Some v) \<Rightarrow> v
                                  | _ \<Rightarrow> ''-'')
                          (take 5 ks)) @ '' |'')
                (items data))])))
   \<and> str_or so d = (case so of None \<Rightarrow> d | Some t \<Rightarrow> if t = [] then d else t)
   \<and> num_or_dash pf no = (case no of None \<Rightarrow> ''-'' | Some i \<Rightarrow> Number_toString pf i)
   \<and> String_replace (''youtube#'' @ kind) ''youtube#'' [] = kind
   \<and> (\<not> sublist ''youtube#'' kind \<longrightarrow> String_replace kind ''youtube#'' [] = kind)"
proof -
  have h: "paginated_header pf data entityType =
       [''## '' @ String_toUpperCase pf (take 1 entityType) @ drop 1 entityType, [],
        (case totalResults data of
           Some n \<Rightarrow>
             ''**Total:** '' @ Number_toString pf n @ '' | **Showing:** ''
               @ Number_toString pf (Finite (of_nat (count data)))
         | None \<Rightarrow> ''**Showing:** '' @ Number_toString pf (Finite (of_nat (count data))))]
       @ (case nextPageToken data of
            Some t \<Rightarrow>
              if hasMore data \<and> t \<noteq> []
              then [''**More available:** Yes (nextPageToken: `'' @ t @ ''`)'']
              else []
          | None \<Rightarrow> [])
       @ [[]]"
    by (simp add: paginated_header_def capitalize_def truthy_str_def template_str_def
        split: option.split)
  have e: "items data = [] \<longrightarrow>
      formatPaginatedAsMarkdown pf cs data entityType =
        Inr (join newline (paginated_header pf data entityType @ [''_No items found._'']))"
    by (simp add: formatPaginatedAsMarkdown_def Let_def)
  have t1: "(items data \<noteq> [] \<longrightarrow>
      formatPaginatedAsMarkdown pf cs data ''videos'' =
        Inr (join newline (paginated_header pf data ''videos'' @
          [join newline
               ([''| ID | Title | Channel | Views | Duration |'', ''|---|---|---|---|---|''] @
                map (\<lambda>video.
                       let title = truncate
                             (str_or (map_option VideoSnippet_title (Video_snippet video)) ''-'') 40;
                           channel =
                             str_or (map_option VideoSnippet_channelTitle (Video_snippet video)) ''-'';
                           views =
                             str_or (map_option VideoStatistics_viewCount (Video_statistics video)) ''-'';
                           duration =
                             str_or (map_option VideoContentDetails_duration
                               (Video_contentDetails video)) ''-''
                       in ''| '' @ Video_id video @ '' | '' @ title @ '' | '' @ channel @ '' | ''
                            @ views @ '' | '' @ duration @ '' |'')
                  (map (as_Video cs) (items data)))])))"
    by (simp add: formatPaginatedAsMarkdown_def entity_table_def formatVideosTable_def)
  have t2: "(items data \<noteq> [] \<longrightarrow>
      formatPaginatedAsMarkdown pf cs data ''channels'' =
        Inr (join newline (paginated_header pf data ''channels'' @
          [join newline
               ([''| ID | Title | Subscribers | Videos |'', ''|---|---|---|---|''] @
                map (\<lambda>channel.
                       let title = truncate
                             (str_or (map_option ChannelSnippet_title (Channel_snippet channel)) ''-'') 40;
                           subs = str_or (Option.bind (Channel_statistics channel)
                                    ChannelStatistics_subscriberCount) ''-'';
                           videos = str_or (map_option ChannelStatistics_videoCount
                                      (Channel_statistics channel)) ''-''
                       in ''| '' @ Channel_id channel @ '' | '' @ title @ '' | '' @ subs @ '' | ''
                            @ videos @ '' |'')
                  (map (as_Channel cs) (items data)))])))"
    by (simp add: formatPaginatedAsMarkdown_def entity_table_def formatChannelsTable_def)
  have t3: "(items data \<noteq> [] \<longrightarrow>
      formatPaginatedAsMarkdown pf cs data ''playlists'' =
        Inr (join newline (paginated_header pf data ''playlists'' @
          [join newline
               ([''| ID | Title | Items | Privacy |'', ''|---|---|---|---|''] @
                map (\<lambda>playlist.
                       let title = truncate
                             (str_or (map_option PlaylistSnippet_title (Playlist_snippet playlist))
                                ''-'') 40;
                           its = num_or_dash pf (map_option PlaylistContentDetails_itemCount
                                   (Playlist_contentDetails playlist));
                           privacy = str_or (map_option PlaylistStatus_privacyStatus
                                       (Playlist_status playlist)) ''-''
                       in ''| '' @ Playlist_id playlist @ '' | '' @ title @ '' | '' @ its @ '' | ''
                            @ privacy @ '' |'')
                  (map (as_Playlist cs) (items data)))])))"
    by (simp add: formatPaginatedAsMarkdown_def entity_table_def formatPlaylistsTable_def)
  have t4: "(items data \<noteq> [] \<longrightarrow>
      formatPaginatedAsMarkdown pf cs data ''playlistItems'' =
        Inr (join newline (paginated_header pf data ''playlistItems'' @
          [join newline
               ([''| ID | Position | Video Title | Video ID |'', ''|---|---|---|---|''] @
                map (\<lambda>item.
                       let title = truncate
                             (str_or (map_option PlaylistItemSnippet_title (PlaylistItem_snippet item))
                                ''-'') 40;
                           position = num_or_dash pf (map_option PlaylistItemSnippet_position
                                        (PlaylistItem_snippet item));
                           videoId =
                             str_or (map_option PlaylistItemContentDetails_videoId
                                       (PlaylistItem_contentDetails item))
                               (str_or (Option.bind (PlaylistItem_snippet item)
                                          (\<lambda>sn. ResourceId_videoId (PlaylistItemSnippet_resourceId sn)))
                                  ''-'')
                       in ''| '' @ PlaylistItem_id item @ '' | '' @ position @ '' | '' @ title @ '' | ''
                            @ videoId @ '' |'')
                  (map (as_PlaylistItem cs) (items data)))])))"
    by (simp add: formatPaginatedAsMarkdown_def entity_table_def formatPlaylistItemsTable_def)
  have t5: "(items data \<noteq> [] \<longrightarrow>
      formatPaginatedAsMarkdown pf cs data ''searchResults'' =
        Inr (join newline (paginated_header pf data ''searchResults'' @
          [join newline
               ([''| Type | ID | Title | Channel |'', ''|---|---|---|---|''] @
                map (\<lambda>result.
                       let type = String_replace (ResourceId_kind (SearchResult_id result))
                                    ''youtube#'' [];
                           ident =
                             str_or (ResourceId_videoId (SearchResult_id result))
                               (str_or (ResourceId_channelId (SearchResult_id result))
                                  (str_or (ResourceId_playlistId (SearchResult_id result)) ''-''));
                           title = truncate
                             (str_or (map_option SearchResultSnippet_title (SearchResult_snippet result))
                                ''-'') 40;
                           channel = str_or (map_option SearchResultSnippet_channelTitle
                                       (SearchResult_snippet result)) ''-''
                       in ''| '' @ type @ '' | '' @ ident @ '' | '' @ title @ '' | '' @ channel @ '' |'')
                  (map (as_SearchResult cs) (items data)))])))"
    by (simp add: formatPaginatedAsMarkdown_def entity_table_def formatSearchResultsTable_def)
  have t6: "(items data \<noteq> [] \<longrightarrow>
      formatPaginatedAsMarkdown pf cs data ''comments'' =
        Inr (join newline (paginated_header pf data ''comments'' @
          [join newline
               ([''| ID | Author | Comment | Likes |'', ''|---|---|---|---|''] @
                map (\<lambda>comment.
                       let author = str_or (map_option CommentSnippet_authorDisplayName
                                      (Comment_snippet comment)) ''-'';
                           txt = truncate
                             (str_or (map_option CommentSnippet_textDisplay (Comment_snippet comment))
                                ''-'') 50;
                           likes = num_or_dash pf (map_option CommentSnippet_likeCount
                                     (Comment_snippet comment))
                       in ''| '' @ Comment_id comment @ '' | '' @ author @ '' | '' @ txt @ '' | ''
                            @ likes @ '' |'')
                  (map (as_Comment cs) (items data)))])))"
    by (simp add: formatPaginatedAsMarkdown_def entity_table_def formatCommentsTable_def)
  have t7: "(items data \<noteq> [] \<longrightarrow>
      formatPaginatedAsMarkdown pf cs data ''commentThreads'' =
        Inr (join newline (paginated_header pf data ''commentThreads'' @
          [join newline
               ([''| ID | Author | Comment | Replies |'', ''|---|---|---|---|''] @
                map (\<lambda>thread.
                       let comment = map_option CommentThreadSnippet_topLevelComment
                                       (CommentThread_snippet thread);
                           author = str_or (map_option CommentSnippet_authorDisplayName
                                      (Option.bind comment Comment_snippet)) ''-'';
                           txt = truncate
                             (str_or (map_option CommentSnippet_textDisplay
                                (Option.bind comment Comment_snippet)) ''-'') 50;
                           replies = num_or_dash pf (map_option CommentThreadSnippet_totalReplyCount
                                       (CommentThread_snippet thread))
                       in ''| '' @ CommentThread_id thread @ '' | '' @ author @ '' | '' @ txt @ '' | ''
                            @ replies @ '' |'')
                  (map (as_CommentThread cs) (items data)))])))"
    by (simp add: formatPaginatedAsMarkdown_def entity_table_def formatCommentThreadsTable_def)
  have t8: "(items data \<noteq> [] \<longrightarrow>
      formatPaginatedAsMarkdown pf cs data ''subscriptions'' =
        Inr (join newline (paginated_header pf data ''subscriptions'' @
          [join newline
               ([''| ID | Channel | New Items |'', ''|---|---|---|''] @
                map (\<lambda>sub.
                       let title = truncate
                             (str_or (map_option SubscriptionSnippet_title (Subscription_snippet sub))
                                ''-'') 40;
                           newItems = num_or_dash pf (map_option SubscriptionContentDetails_newItemCount
                                        (Subscription_contentDetails sub))
                       in ''| '' @ Subscription_id sub @ '' | '' @ title @ '' | '' @ newItems @ '' |'')
                  (map (as_Subscription cs) (items data)))])))"
    by (simp add: formatPaginatedAsMarkdown_def entity_table_def formatSubscriptionsTable_def)
  have g: "(items data = first # rest
      \<and> entityType \<notin> {''videos'', ''channels'', ''playlists'', ''playlistItems'',
                          ''searchResults'', ''comments'', ''commentThreads'', ''subscriptions''}
      \<and> Object_keys cs first = Inr ks
      \<and> (\<forall>item \<in> set (items data). \<forall>k \<in> set (take 5 ks).
            \<exists>c. property_String cs item k = Inr c) \<longrightarrow>
      formatPaginatedAsMarkdown pf cs data entityType =
        Inr (join newline (paginated_header pf data entityType @
          [join newline
             ([''| '' @ join '' | '' (take 5 ks) @ '' |'',
               ''|'' @ join ''|'' (map (\<lambda>k. ''---'') (take 5 ks)) @ ''|''] @
              map (\<lambda>item.
                     ''| '' @ join '' | ''
                       (map (\<lambda>k. case property_String cs item k of
                                    Inr (Some v) \<Rightarrow> v
                                  | _ \<Rightarrow> ''-'')
                          (take 5 ks)) @ '' |'')
                (items data))])))"
    using formatGenericTable_rows [of cs first ks rest]
    by (auto simp: formatPaginatedAsMarkdown_def entity_table_def Let_def)
  have p: "str_or so d = (case so of None \<Rightarrow> d | Some t \<Rightarrow> if t = [] then d else t)"
    "num_or_dash pf no = (case no of None \<Rightarrow> ''-'' | Some i \<Rightarrow> Number_toString pf i)"
    "String_replace (''youtube#'' @ kind) ''youtube#'' [] = kind"
    "\<not> sublist ''youtube#'' kind \<longrightarrow> String_replace kind ''youtube#'' [] = kind"
    using String_replace_prefix [of "''youtube#''" kind "[]"]
      String_replace_absent [of "''youtube#''" kind "[]"]
    by (simp_all add: str_or_def num_or_dash_def)
  show ?thesis
    by (intro conjI) (rule h e t1 t2 t3 t4 t5 t6 t7 t8 g p)+
qed


lemma formatPaginatedAsMarkdown_examples:
  "formatPaginatedAsMarkdown (example_platform (example_response 200 None ''{}'')) example_casts example_empty_envelope ''videos'' =
     Inr (''## Videos\<newline>\<newline>**Showing:** 0\<newline>\<newline>_No items found._'')
   \<and> formatPaginatedAsMarkdown (example_platform (example_response 200 None ''{}'')) example_casts example_envelope ''videos'' =
     Inr (''## Videos\<newline>\<newline>**Total:** 120 | **Showing:** 3\<newline>**More available:** Yes (nextPageToken: `ABC`)\<newline>\<newline>''
          @ ''| ID | Title | Channel | Views | Duration |\<newline>''
          @ ''|---|---|---|---|---|\<newline>''
          @ ''| a1 | Launch | Rockets | 1000 | PT5M |\<newline>''
          @ ''| b2 | - | - | - | - |\<newline>''
          @ ''| c3 | A title that is much longer than any ... | Rockets | 1000 | PT5M |'')
   \<and> formatPaginatedAsMarkdown (example_platform (example_response 200 None ''{}'')) example_casts example_envelope ''channels'' =
     Inr (''## Channels\<newline>\<newline>**Total:** 120 | **Showing:** 3\<newline>**More available:** Yes (nextPageToken: `ABC`)\<newline>\<newline>''
          @ ''| ID | Title | Subscribers | Videos |\<newline>''
          @ ''|---|---|---|---|\<newline>''
          @ ''| a1 | Launch | - | 7 |\<newline>''
          @ ''| b2 | - | - | - |\<newline>''
          @ ''| c3 | A title that is much longer than any ... | - | 7 |'')
   \<and> formatPaginatedAsMarkdown (example_platform (example_response 200 None ''{}'')) example_casts example_envelope ''playlists'' =
     Inr (''## Playlists\<newline>\<newline>**Total:** 120 | **Showing:** 3\<newline>**More available:** Yes (nextPageToken: `ABC`)\<newline>\<newline>''
          @ ''| ID | Title | Items | Privacy |\<newline>''
          @ ''|---|---|---|---|\<newline>''
          @ ''| a1 | Launch | 3 | public |\<newline>''
          @ ''| b2 | - | - | - |\<newline>''
          @ ''| c3 | A title that is much longer than any ... | 120 | public |'')
   \<and> formatPaginatedAsMarkdown (example_platform (example_response 200 None ''{}'')) example_casts example_envelope ''playlistItems'' =
     Inr (''## PlaylistItems\<newline>\<newline>**Total:** 120 | **Showing:** 3\<newline>**More available:** Yes (nextPageToken: `ABC`)\<newline>\<newline>''
          @ ''| ID | Position | Video Title | Video ID |\<newline>''
          @ ''|---|---|---|---|\<newline>''
          @ ''| a1 | 0 | Launch | xyz9 |\<newline>''
          @ ''| b2 | - | - | - |\<newline>''
          @ ''| c3 | 0 | A title that is much longer than any ... | xyz9 |'')
   \<and> formatPaginatedAsMarkdown (example_platform (example_response 200 None ''{}'')) example_casts example_envelope ''searchResults'' =
     Inr (''## SearchResults\<newline>\<newline>**Total:** 120 | **Showing:** 3\<newline>**More available:** Yes (nextPageToken: `ABC`)\<newline>\<newline>''
          @ ''| Type | ID | Title | Channel |\<newline>''
          @ ''|---|---|---|---|\<newline>''
          @ ''| channel | a1 | Launch | Rockets |\<newline>''
          @ ''| channel | - | - | - |\<newline>''
          @ ''| channel | c3 | A title that is much longer than any ... | Rockets |'')
   \<and> formatPaginatedAsMarkdown (example_platform (example_response 200 None ''{}'')) example_casts example_envelope ''comments'' =
     Inr (''## Comments\<newline>\<newline>**Total:** 120 | **Showing:** 3\<newline>**More available:** Yes (nextPageToken: `ABC`)\<newline>\<newline>''
          @ ''| ID | Author | Comment | Likes |\<newline>''
          @ ''|---|---|---|---|\<newline>''
          @ ''| a1 | Ada | Launch | 3 |\<newline>''
          @ ''| b2 | - | - | - |\<newline>''
          @ ''| c3 | Ada | A title that is much longer than any cell of a ... | 3 |'')
   \<and> formatPaginatedAsMarkdown (example_platform (example_response 200 None ''{}'')) example_casts example_envelope ''commentThreads'' =
     Inr (''## CommentThreads\<newline>\<newline>**Total:** 120 | **Showing:** 3\<newline>**More available:** Yes (nextPageToken: `ABC`)\<newline>\<newline>''
          @ ''| ID | Author | Comment | Replies |\<newline>''
          @ ''|---|---|---|---|\<newline>''
          @ ''| a1 | Ada | Launch | 3 |\<newline>''
          @ ''| b2 | - | - | - |\<newline>''
          @ ''| c3 | Ada | A title that is much longer than any cell of a ... | 120 |'')
   \<and> formatPaginatedAsMarkdown (example_platform (example_response 200 None ''{}'')) example_casts example_envelope ''subscriptions'' =
     Inr (''## Subscriptions\<newline>\<newline>**Total:** 120 | **Showing:** 3\<newline>**More available:** Yes (nextPageToken: `ABC`)\<newline>\<newline>''
          @ ''| ID | Channel | New Items |\<newline>''
          @ ''|---|---|---|\<newline>''
          @ ''| a1 | Launch | 3 |\<newline>''
          @ ''| b2 | - | - |\<newline>''
          @ ''| c3 | A title that is much longer than any ... | 120 |'')
   \<and> formatPaginatedAsMarkdown (example_platform (example_response 200 None ''{}'')) example_casts example_envelope ''activities'' =
     Inr (''## Activities\<newline>\<newline>**Total:** 120 | **Showing:** 3\<newline>**More available:** Yes (nextPageToken: `ABC`)\<newline>\<newline>''
          @ ''| id | title | count |\<newline>''
          @ ''|---|---|---|\<newline>''
          @ ''| a1 | Launch | 3 |\<newline>''
          @ ''| b2 | - | - |\<newline>''
          @ ''| c3 | A title that is much longer than any cell of a table allows | 120 |'')"
proof -
  let ?P = "example_platform (example_response 200 None ''{}'')"
  note t = formatPaginatedAsMarkdown_rendering [where pf = ?P and cs = example_casts]
  have i: "items example_envelope \<noteq> []" "items example_empty_envelope = []"
    by (simp_all add: example_envelope_def example_items_def example_empty_envelope_def)
  have w0: "formatPaginatedAsMarkdown ?P example_casts example_empty_envelope ''videos'' =
     Inr (''## Videos\<newline>\<newline>**Showing:** 0\<newline>\<newline>_No items found._'')"
    unfolding t [where data = example_empty_envelope and entityType = "''videos''",
        THEN conjunct2, THEN conjunct1, THEN mp, OF i(2)]
    by code_simp
  have w1: "formatPaginatedAsMarkdown ?P example_casts example_envelope ''videos'' =
     Inr (''## Videos\<newline>\<newline>**Total:** 120 | **Showing:** 3\<newline>**More available:** Yes (nextPageToken: `ABC`)\<newline>\<newline>''
          @ ''| ID | Title | Channel | Views | Duration |\<newline>''
          @ ''|---|---|---|---|---|\<newline>''
          @ ''| a1 | Launch | Rockets | 1000 | PT5M |\<newline>''
          @ ''| b2 | - | - | - | - |\<newline>''
          @ ''| c3 | A title that is much longer than any ... | Rockets | 1000 | PT5M |'')"
    unfolding t [where data = example_envelope,
        THEN conjunct2, THEN conjunct2, THEN conjunct1, THEN mp, OF i(1)]
    by code_simp
  have w2: "formatPaginatedAsMarkdown ?P example_casts example_envelope ''channels'' =
     Inr (''## Channels\<newline>\<newline>**Total:** 120 | **Showing:** 3\<newline>**More available:** Yes (nextPageToken: `ABC`)\<newline>\<newline>''
          @ ''| ID | Title | Subscribers | Videos |\<newline>''
          @ ''|---|---|---|---|\<newline>''
          @ ''| a1 | Launch | - | 7 |\<newline>''
          @ ''| b2 | - | - | - |\<newline>''
          @ ''| c3 | A title that is much longer than any ... | - | 7 |'')"
    unfolding t [where data = example_envelope,
        THEN conjunct2, THEN conjunct2, THEN conjunct2, THEN conjunct1, THEN mp, OF i(1)]
    by code_simp
  have w3: "formatPaginatedAsMarkdown ?P example_casts example_envelope ''playlists'' =
     Inr (''## Playlists\<newline>\<newline>**Total:** 120 | **Showing:** 3\<newline>**More available:** Yes (nextPageToken: `ABC`)\<newline>\<newline>''
          @ ''| ID | Title | Items | Privacy |\<newline>''
          @ ''|---|---|---|---|\<newline>''
          @ ''| a1 | Launch | 3 | public |\<newline>''
          @ ''| b2 | - | - | - |\<newline>''
          @ ''| c3 | A title that is much longer than any ... | 120 | public |'')"
    unfolding t [where data = example_envelope,
        THEN conjunct2, THEN conjunct2, THEN conjunct2, THEN conjunct2, THEN conjunct1, THEN mp, OF i(1)]
    by code_simp
  have w4: "formatPaginatedAsMarkdown ?P example_casts example_envelope ''playlistItems'' =
     Inr (''## PlaylistItems\<newline>\<newline>**Total:** 120 | **Showing:** 3\<newline>**More available:** Yes (nextPageToken: `ABC`)\<newline>\<newline>''
          @ ''| ID | Position | Video Title | Video ID |\<newline>''
          @ ''|---|---|---|---|\<newline>''
          @ ''| a1 | 0 | Launch | xyz9 |\<newline>''
          @ ''| b2 | - | - | - |\<newline>''
          @ ''| c3 | 0 | A title that is much longer than any ... | xyz9 |'')"
    unfolding t [where data = example_envelope,
        THEN conjunct2, THEN conjunct2, THEN conjunct2, THEN conjunct2, THEN conjunct2, THEN conjunct1, THEN mp, OF i(1)]
    by code_simp
  have w5: "formatPaginatedAsMarkdown ?P example_casts example_envelope ''searchResults'' =
     Inr (''## SearchResults\<newline>\<newline>**Total:** 120 | **Showing:** 3\<newline>**More available:** Yes (nextPageToken: `ABC`)\<newline>\<newline>''
          @ ''| Type | ID | Title | Channel |\<newline>''
          @ ''|---|---|---|---|\<newline>''
          @ ''| channel | a1 | Launch | Rockets |\<newline>''
          @ ''| channel | - | - | - |\<newline>''
          @ ''| channel | c3 | A title that is much longer than any ... | Rockets |'')"
    unfolding t [where data = example_envelope,
        THEN conjunct2, THEN conjunct2, THEN conjunct2, THEN conjunct2, THEN conjunct2, THEN conjunct2, THEN conjunct1, THEN mp, OF i(1)]
    by code_simp
  have w6: "formatPaginatedAsMarkdown ?P example_casts example_envelope ''comments'' =
     Inr (''## Comments\<newline>\<newline>**Total:** 120 | **Showing:** 3\<newline>**More available:** Yes (nextPageToken: `ABC`)\<newline>\<newline>''
          @ ''| ID | Author | Comment | Likes |\<newline>''
          @ ''|---|---|---|---|\<newline>''
          @ ''| a1 | Ada | Launch | 3 |\<newline>''
          @ ''| b2 | - | - | - |\<newline>''
          @ ''| c3 | Ada | A title that is much longer than any cell of a ... | 3 |'')"
    unfolding t [where data = example_envelope,
        THEN conjunct2, THEN conjunct2, THEN conjunct2, THEN conjunct2, THEN conjunct2, THEN conjunct2, THEN conjunct2, THEN conjunct1, THEN mp, OF i(1)]
    by code_simp
  have w7: "formatPaginatedAsMarkdown ?P example_casts example_envelope ''commentThreads'' =
     Inr (''## CommentThreads\<newline>\<newline>**Total:** 120 | **Showing:** 3\<newline>**More available:** Yes (nextPageToken: `ABC`)\<newline>\<newline>''
          @ ''| ID | Author | Comment | Replies |\<newline>''
          @ ''|---|---|---|---|\<newline>''
          @ ''| a1 | Ada | Launch | 3 |\<newline>''
          @ ''| b2 | - | - | - |\<newline>''
          @ ''| c3 | Ada | A title that is much longer than any cell of a ... | 120 |'')"
    unfolding t [where data = example_envelope,
        THEN conjunct2, THEN conjunct2, THEN conjunct2, THEN conjunct2, THEN conjunct2, THEN conjunct2, THEN conjunct2, THEN conjunct2, THEN conjunct1, THEN mp, OF i(1)]
    by code_simp
  have w8: "formatPaginatedAsMarkdown ?P example_casts example_envelope ''subscriptions'' =
     Inr (''## Subscriptions\<newline>\<newline>**Total:** 120 | **Showing:** 3\<newline>**More available:** Yes (nextPageToken: `ABC`)\<newline>\<newline>''
          @ ''| ID | Channel | New Items |\<newline>''
          @ ''|---|---|---|\<newline>''
          @ ''| a1 | Launch | 3 |\<newline>''
          @ ''| b2 | - | - |\<newline>''
          @ ''| c3 | A title that is much longer than any ... | 120 |'')"
    unfolding t [where data = example_envelope,
        THEN conjunct2, THEN conjunct2, THEN conjunct2, THEN conjunct2, THEN conjunct2, THEN conjunct2, THEN conjunct2, THEN conjunct2, THEN conjunct2, THEN conjunct1, THEN mp, OF i(1)]
    by code_simp
  have hg: "items example_envelope =
        Item ''a1'' (Some ''Launch'') (Some (Finite 3)) JUndefined
        # [Item ''b2'' None None JUndefined,
           Item ''c3'' (Some ''A title that is much longer than any cell of a table allows'')
             (Some (Finite 120)) JUndefined]
      \<and> ''activities'' \<notin> {''videos'', ''channels'', ''playlists'', ''playlistItems'',
                          ''searchResults'', ''comments'', ''commentThreads'', ''subscriptions''}
      \<and> Object_keys example_casts
           (Item ''a1'' (Some ''Launch'') (Some (Finite 3)) JUndefined)
          = Inr [''id'', ''title'', ''count'']
      \<and> (\<forall>item \<in> set (items example_envelope). \<forall>k \<in> set (take 5 [''id'', ''title'', ''count'']).
            \<exists>c. property_String example_casts item k = Inr c)"
    by (simp add: example_envelope_def example_items_def example_casts_def
        example_properties_def nullish_def split: option.split)
  have w9: "formatPaginatedAsMarkdown ?P example_casts example_envelope ''activities'' =
     Inr (''## Activities\<newline>\<newline>**Total:** 120 | **Showing:** 3\<newline>**More available:** Yes (nextPageToken: `ABC`)\<newline>\<newline>''
          @ ''| id | title | count |\<newline>''
          @ ''|---|---|---|\<newline>''
          @ ''| a1 | Launch | 3 |\<newline>''
          @ ''| b2 | - | - |\<newline>''
          @ ''| c3 | A title that is much longer than any cell of a table allows | 120 |'')"
    unfolding t [where data = example_envelope and entityType = "''activities''"
        and ks = "[''id'', ''title'', ''count'']",
        THEN conjunct2, THEN conjunct2, THEN conjunct2, THEN conjunct2, THEN conjunct2, THEN conjunct2, THEN conjunct2, THEN conjunct2, THEN conjunct2, THEN conjunct2, THEN conjunct1, THEN mp, OF hg]
    by code_simp
  show ?thesis
    by (intro conjI) (rule w0 w1 w2 w3 w4 w5 w6 w7 w8 w9)+
qed

section \<open>Table cells\<close>

text \<open>
  C9. \<^verbatim>\<open>truncate\<close> returns a string no longer than the maximum unchanged; a longer
  one is cut to the maximum less three and suffixed with three dots, so that for a
  maximum of at least three (the tables use 40 and 50) the result has exactly the
  length of the maximum.
\<close>

theorem truncate_length:
  "(length str \<le> maxLength \<longrightarrow> truncate str maxLength = str)
   \<and> (maxLength < length str \<longrightarrow>
        truncate str maxLength = take (maxLength - 3) str @ ''...'')
   \<and> (3 \<le> maxLength \<and> maxLength < length str \<longrightarrow>
        length (truncate str maxLength) = maxLength)"
  by (auto simp: truncate_def)

theorem truncate_length_witness:
  "truncate ''Launch'' 40 = ''Launch''
   \<and> length (truncate (replicate 45 (CHR ''a'')) 40) = 40
   \<and> truncate (replicate 45 (CHR ''a'')) 40 = replicate 37 (CHR ''a'') @ ''...''"
  using truncate_length [of "''Launch''" 40] truncate_length [of "replicate 45 (CHR ''a'')" 40]
  by simp


end
